theory Spec2Isabelle
  imports Complex_Main
begin

section \<open>JavaScript values\<close>

text \<open>
  A JavaScript number as far as the handlers look at it: a finite value (a double is a
  rational; \<open>0\<close> and \<open>-0\<close> are both \<open>Num 0\<close>), \<open>NaN\<close>, or an infinity.
\<close>

datatype js_number = Num rat | NaN | PosInfinity | NegInfinity

text \<open>The values that travel through \<open>JSON.parse\<close>, \<open>JSON.stringify\<close> and the SDK responses.\<close>

datatype json =
    JNull
  | JBool bool
  | JNum js_number
  | JStr string
  | JArr "json list"
  | JObj "(string \<times> json) list"

text \<open>A thrown value: an instance of \<open>Error\<close> with its message, or anything else.\<close>

datatype js_error = Error string | Thrown json

text \<open>Truthiness, as \<open>||\<close> and \<open>!\<close> test it.\<close>

fun number_truthy :: "js_number \<Rightarrow> bool" where
  "number_truthy (Num r) = (r \<noteq> 0)"
| "number_truthy NaN = False"
| "number_truthy PosInfinity = True"
| "number_truthy NegInfinity = True"

definition string_truthy :: "string \<Rightarrow> bool" where
  "string_truthy s = (s \<noteq> [])"

fun truthy :: "json \<Rightarrow> bool" where
  "truthy JNull = False"
| "truthy (JBool b) = b"
| "truthy (JNum n) = number_truthy n"
| "truthy (JStr s) = string_truthy s"
| "truthy (JArr xs) = True"
| "truthy (JObj kvs) = True"

text \<open>
  \<open>x || d\<close> on an optional property: an absent property is \<open>undefined\<close>, which is falsy.
\<close>

definition or_number :: "js_number option \<Rightarrow> js_number \<Rightarrow> js_number" where
  "or_number x d = (case x of None \<Rightarrow> d | Some n \<Rightarrow> if number_truthy n then n else d)"

definition or_string :: "string option \<Rightarrow> string \<Rightarrow> string" where
  "or_string x d = (case x of None \<Rightarrow> d | Some s \<Rightarrow> if string_truthy s then s else d)"

definition or_bool :: "bool option \<Rightarrow> bool \<Rightarrow> bool" where
  "or_bool x d = (case x of None \<Rightarrow> d | Some b \<Rightarrow> if b then b else d)"

text \<open>\<open>error instanceof Error ? error.message : "Unknown error"\<close>\<close>

definition message_or_unknown :: "js_error \<Rightarrow> string" where
  "message_or_unknown error = (case error of Error m \<Rightarrow> m | Thrown v \<Rightarrow> ''Unknown error'')"

section \<open>Regular expressions\<close>

text \<open>
  The patterns of the schemas are all of the form \<open>/^...$/\<close> without flags, so
  \<open>RegExp.test\<close> asks whether the whole string is in the language of the pattern.
  Matching is by derivatives.
\<close>

datatype rx =
    Nul
  | Eps
  | Lit char
  | Range char char
  | Cat rx rx
  | Alt rx rx
  | Star rx

fun nullable :: "rx \<Rightarrow> bool" where
  "nullable Nul = False"
| "nullable Eps = True"
| "nullable (Lit c) = False"
| "nullable (Range lo hi) = False"
| "nullable (Cat r s) = (nullable r \<and> nullable s)"
| "nullable (Alt r s) = (nullable r \<or> nullable s)"
| "nullable (Star r) = True"

definition in_range :: "char \<Rightarrow> char \<Rightarrow> char \<Rightarrow> bool" where
  "in_range lo hi c = ((of_char lo :: nat) \<le> of_char c \<and> (of_char c :: nat) \<le> of_char hi)"

fun deriv :: "char \<Rightarrow> rx \<Rightarrow> rx" where
  "deriv c Nul = Nul"
| "deriv c Eps = Nul"
| "deriv c (Lit d) = (if c = d then Eps else Nul)"
| "deriv c (Range lo hi) = (if in_range lo hi c then Eps else Nul)"
| "deriv c (Cat r s) =
     (if nullable r then Alt (Cat (deriv c r) s) (deriv c s) else Cat (deriv c r) s)"
| "deriv c (Alt r s) = Alt (deriv c r) (deriv c s)"
| "deriv c (Star r) = Cat (deriv c r) (Star r)"

fun rx_test :: "rx \<Rightarrow> string \<Rightarrow> bool" where
  "rx_test r [] = nullable r"
| "rx_test r (c # cs) = rx_test (deriv c r) cs"

definition Opt :: "rx \<Rightarrow> rx" where
  "Opt r = Alt r Eps"

definition Plus :: "rx \<Rightarrow> rx" where
  "Plus r = Cat r (Star r)"

fun Times :: "nat \<Rightarrow> rx \<Rightarrow> rx" where
  "Times 0 r = Eps"
| "Times (Suc n) r = Cat r (Times n r)"

text \<open>\<open>\d\<close> and \<open>[a-fA-F0-9]\<close>\<close>

definition rx_digit :: rx where
  "rx_digit = Range CHR ''0'' CHR ''9''"

definition rx_hex :: rx where
  "rx_hex = Alt (Range CHR ''a'' CHR ''f'') (Alt (Range CHR ''A'' CHR ''F'') (Range CHR ''0'' CHR ''9''))"

text \<open>\<open>/^0x[a-fA-F0-9]{40}$/\<close>\<close>

definition rx_ethereum_address :: rx where
  "rx_ethereum_address = Cat (Lit CHR ''0'') (Cat (Lit CHR ''x'') (Times 40 rx_hex))"

text \<open>\<open>/^\d*\.?\d+$/\<close>\<close>

definition rx_decimal :: rx where
  "rx_decimal = Cat (Star rx_digit) (Cat (Opt (Lit CHR ''.'')) (Plus rx_digit))"

text \<open>\<open>/^\d+$/\<close>\<close>

definition rx_chain_id :: rx where
  "rx_chain_id = Plus rx_digit"

section \<open>The Lit networks and the configuration of the provider\<close>

text \<open>\<open>type LitNetwork = keyof typeof IPFS_CIDS\<close>\<close>

datatype LitNetwork = Datil_dev | Datil_test | Datil

fun network_name :: "LitNetwork \<Rightarrow> string" where
  "network_name Datil_dev = ''datil-dev''"
| "network_name Datil_test = ''datil-test''"
| "network_name Datil = ''datil''"

record cids =
  erc20Transfer :: string
  ecdsaSign :: string
  uniswapSwap :: string

fun IPFS_CIDS :: "LitNetwork \<Rightarrow> cids" where
  "IPFS_CIDS Datil_dev =
     \<lparr>erc20Transfer = ''QmUPnnuz8E3wKYG7bCxqnjjhV9anE9uMxHXY4fTv7Z5Y6A'',
      ecdsaSign = ''QmZJovPgBBBmuLKRtdVwdV47opNSmLiV2AZCNTtWzeog1Q'',
      uniswapSwap = ''QmQPUjXmFiAe363TYAiv3DPciyTDSFLym2S9FR1d78ZRWs''\<rparr>"
| "IPFS_CIDS Datil_test =
     \<lparr>erc20Transfer = ''QmRcwjz5EpUaABPMwhgYwsDsy1noYNYkhr6nC8JqWUPEoy'',
      ecdsaSign = ''QmZbVUwomfUfCa38ia69LrSfH1k8JNK3BHeSUKm5tGMWgv'',
      uniswapSwap = ''QmaLAZCJEk5B4BW962pjENxCDHvwGtPptCamhckk9GJxJe''\<rparr>"
| "IPFS_CIDS Datil =
     \<lparr>erc20Transfer = ''QmQ1k3ZzmoPDukAphQ353WJ73XaNFnhmztr1v2hfTprW3V'',
      ecdsaSign = ''QmPjxnXWSPYGYR2gZyiZHpRE7dMAeb7K181R4Cfvkw5KM8'',
      uniswapSwap = ''QmStLtPzAvyUAQXbkUorZUJ7mgst6tU4xhJoFYHMZp9etH''\<rparr>"

text \<open>
  \<open>HELLO_LIT_CODE\<close> is the source text of the hello action; the handlers only pass it
  on, so the model keeps its first line.
\<close>

definition HELLO_LIT_CODE :: string where
  "HELLO_LIT_CODE = ''(async () => {''"

text \<open>\<open>interface LitActionProviderConfig\<close>: both properties are optional.\<close>

record LitActionProviderConfig =
  litNetwork :: "LitNetwork option"
  debug :: "bool option"

text \<open>A network name is a non-empty string, hence truthy: \<open>x || d\<close> is \<open>d\<close> only when \<open>x\<close> is absent.\<close>

definition or_network :: "LitNetwork option \<Rightarrow> LitNetwork \<Rightarrow> LitNetwork" where
  "or_network x d = (case x of None \<Rightarrow> d | Some n \<Rightarrow> n)"

text \<open>
  A constructed \<open>LitNodeClient\<close>: the options it was constructed with, and a handle that
  tells two constructed clients apart (the number of clients constructed before it).
\<close>

record LitNodeClient =
  handle :: nat
  client_litNetwork :: LitNetwork
  client_debug :: bool

section \<open>ABI values\<close>

text \<open>
  What \<open>AbiCoder.encode\<close> is given after its coders have checked and normalised the
  arguments. The byte string it returns is a function of this value; the model stops here.
\<close>

datatype abi =
    Uint nat nat
  | Address nat
  | String string
  | Array "abi list"
  | Tuple "abi list"

text \<open>The values placed in \<open>jsParams\<close>.\<close>

datatype js_value =
    VStr string
  | VNum js_number
  | VAbi abi
  | VJson json
  | VObj "(string \<times> js_value) list"

section \<open>Requests to the SDK, events and the environment\<close>

record sigs_request =
  chain :: string
  expiration :: string
  resource :: string
  ability :: string
  auth_walletAddress :: string

record exec_request =
  sessionSigs :: json
  code :: "string option"
  ipfsId :: "string option"
  jsParams :: js_value

record decrypt_request =
  d_accessControlConditions :: "json option"
  d_ciphertext :: "json option"
  d_dataToEncryptHash :: "json option"
  d_sessionSigs :: json
  d_chain :: string

text \<open>Every call that leaves the handler is recorded, in order.\<close>

datatype event =
    New_LitNodeClient LitNetwork bool
  | Client_connect nat
  | Wallet_getAddress
  | Wallet_getNetwork
  | Client_getSessionSigs nat sigs_request
  | Client_executeJs nat exec_request
  | EncryptString nat json string
  | DecryptToString nat decrypt_request
  | Fs_readFile string
  | Fs_writeFile string string
  | Console_error

text \<open>
  The environment fixes what the host and the third-party libraries answer: the outcome of
  every SDK call (\<open>Inl\<close> is the value the call throws or rejects with), the clock, and the
  library functions the model does not compute (URL validity, the EIP-55 checksum,
  \<open>JSON.stringify\<close>, \<open>JSON.parse\<close>, \<open>Number\<close> outside digit strings, \<open>getAddress\<close> outside
  prefixed hexadecimal addresses, \<open>String\<close>).
\<close>

record env =
  url_valid :: "string \<Rightarrow> bool"
  checksum_ok :: "string \<Rightarrow> bool"
  Number_other :: "string \<Rightarrow> js_number"
  getAddress_other :: "string \<Rightarrow> js_error + nat"
  String_of :: "json \<Rightarrow> string"
  JSON_stringify :: "json \<Rightarrow> string"
  JSON_stringify_indented :: "json \<Rightarrow> string"
  JSON_parse :: "string \<Rightarrow> js_error + json"
  now_iso :: string
  expiry_iso :: string
  connect_outcome :: "LitNodeClient \<Rightarrow> js_error option"
  getAddress_outcome :: "js_error + string"
  getNetwork_outcome :: "js_error option"
  getSessionSigs_outcome :: "LitNodeClient \<Rightarrow> sigs_request \<Rightarrow> js_error + json"
  executeJs_outcome :: "LitNodeClient \<Rightarrow> exec_request \<Rightarrow> js_error + json"
  encryptString_outcome :: "LitNodeClient \<Rightarrow> json \<Rightarrow> string \<Rightarrow> js_error + string \<times> string"
  decryptToString_outcome :: "LitNodeClient \<Rightarrow> decrypt_request \<Rightarrow> js_error + string"
  readFile_fault :: "string \<Rightarrow> js_error option"
  writeFile_fault :: "string \<Rightarrow> js_error option"

text \<open>
  The state a provider works on: its client slot (the module variable \<open>litNodeClient\<close> of
  the function-based provider, the field \<open>this.litNodeClient\<close> of a class instance), the
  files, and the calls made so far.
\<close>

record world =
  litNodeClient :: "LitNodeClient option"
  files :: "string \<Rightarrow> string option"
  trace :: "event list"

text \<open>An asynchronous computation: it throws (\<open>Inl\<close>) or returns (\<open>Inr\<close>), and changes the state.\<close>

type_synonym 'a io = "world \<Rightarrow> (js_error + 'a) \<times> world"

definition ret :: "'a \<Rightarrow> 'a io" where
  "ret x w = (Inr x, w)"

definition throw :: "js_error \<Rightarrow> 'a io" where
  "throw e w = (Inl e, w)"

definition bnd :: "'a io \<Rightarrow> ('a \<Rightarrow> 'b io) \<Rightarrow> 'b io" where
  "bnd m f w = (case m w of (Inl e, w') \<Rightarrow> (Inl e, w') | (Inr x, w') \<Rightarrow> f x w')"

definition try_catch :: "'a io \<Rightarrow> (js_error \<Rightarrow> 'a io) \<Rightarrow> 'a io" where
  "try_catch m h w = (case m w of (Inl e, w') \<Rightarrow> h e w' | (Inr x, w') \<Rightarrow> (Inr x, w'))"

definition emit :: "event \<Rightarrow> unit io" where
  "emit ev w = (Inr (), w\<lparr>trace := trace w @ [ev]\<rparr>)"

text \<open>A call whose outcome the environment fixes: record it, then throw or return.\<close>

definition call :: "event \<Rightarrow> js_error + 'a \<Rightarrow> 'a io" where
  "call ev outcome w = (outcome, w\<lparr>trace := trace w @ [ev]\<rparr>)"

definition outcome_of :: "js_error option \<Rightarrow> js_error + unit" where
  "outcome_of f = (case f of None \<Rightarrow> Inr () | Some e \<Rightarrow> Inl e)"

text \<open>The events a computation adds to the trace when run in \<open>w\<close>.\<close>

definition emitted :: "'a io \<Rightarrow> world \<Rightarrow> event list" where
  "emitted m w = drop (length (trace w)) (trace (snd (m w)))"

section \<open>Numbers in strings\<close>

definition is_digit :: "char \<Rightarrow> bool" where
  "is_digit c = in_range CHR ''0'' CHR ''9'' c"

text \<open>The value of a digit in bases up to 16; \<open>None\<close> if the character is no digit at all.\<close>

definition digit_value :: "char \<Rightarrow> nat option" where
  "digit_value c =
     (if in_range CHR ''0'' CHR ''9'' c then Some (of_char c - 48)
      else if in_range CHR ''a'' CHR ''f'' c then Some (of_char c - 87)
      else if in_range CHR ''A'' CHR ''F'' c then Some (of_char c - 55)
      else None)"

definition is_digit_in :: "nat \<Rightarrow> char \<Rightarrow> bool" where
  "is_digit_in b c = (case digit_value c of None \<Rightarrow> False | Some v \<Rightarrow> v < b)"

definition value_in :: "nat \<Rightarrow> string \<Rightarrow> nat" where
  "value_in b s = foldl (\<lambda>a c. b * a + (case digit_value c of None \<Rightarrow> 0 | Some v \<Rightarrow> v)) 0 s"

definition nat_of_digits :: "string \<Rightarrow> nat" where
  "nat_of_digits s = value_in 10 s"

definition parse_in :: "nat \<Rightarrow> string \<Rightarrow> int option" where
  "parse_in b s = (if s \<noteq> [] \<and> list_all (is_digit_in b) s then Some (int (value_in b s)) else None)"

text \<open>
  \<open>BigInt(s)\<close> on a string (StringToBigInt): white space is trimmed, the empty string is
  \<open>0n\<close>, a decimal literal may carry a sign, \<open>0x\<close>, \<open>0o\<close> and \<open>0b\<close> literals may not.
  \<open>None\<close> is the \<open>SyntaxError\<close>. Strings are over 8-bit characters here, so the white
  space is the ASCII one and the no-break space.
\<close>

definition is_space :: "char \<Rightarrow> bool" where
  "is_space c = ((of_char c :: nat) \<in> {9, 10, 11, 12, 13, 32, 160})"

definition trim :: "string \<Rightarrow> string" where
  "trim s = rev (dropWhile is_space (rev (dropWhile is_space s)))"

definition signed_decimal :: "string \<Rightarrow> int option" where
  "signed_decimal t =
     (case t of
        [] \<Rightarrow> None
      | c # r \<Rightarrow>
          if c = CHR ''+'' then parse_in 10 r
          else if c = CHR ''-'' then map_option uminus (parse_in 10 r)
          else parse_in 10 t)"

definition js_BigInt :: "string \<Rightarrow> int option" where
  "js_BigInt s =
     (let t = trim s in
      if t = [] then Some 0
      else case t of
        c0 # c1 # r \<Rightarrow>
          if c0 = CHR ''0'' \<and> (c1 = CHR ''x'' \<or> c1 = CHR ''X'') then parse_in 16 r
          else if c0 = CHR ''0'' \<and> (c1 = CHR ''o'' \<or> c1 = CHR ''O'') then parse_in 8 r
          else if c0 = CHR ''0'' \<and> (c1 = CHR ''b'' \<or> c1 = CHR ''B'') then parse_in 2 r
          else signed_decimal t
      | _ \<Rightarrow> signed_decimal t)"

text \<open>\<open>bigint.toString()\<close>\<close>

fun digits_of :: "nat \<Rightarrow> string" where
  "digits_of n =
     (if n < 10 then [char_of (48 + n)] else digits_of (n div 10) @ [char_of (48 + n mod 10)])"

declare digits_of.simps [simp del]

definition bigint_toString :: "int \<Rightarrow> string" where
  "bigint_toString v = (if v < 0 then CHR ''-'' # digits_of (nat (- v)) else digits_of (nat v))"

text \<open>
  \<open>Number(s)\<close> on a string of decimal digits is its value, and \<open>0\<close> on the empty string
  (exact up to \<open>2^53\<close>; above, the nearest double is still at least \<open>2^53\<close>, which is all
  \<open>getNumber\<close> below asks). Other strings are left to the environment.
\<close>

definition js_Number :: "env \<Rightarrow> string \<Rightarrow> js_number" where
  "js_Number env s = (if list_all is_digit s then Num (of_nat (nat_of_digits s)) else Number_other env s)"

section \<open>The ethers functions the policies call\<close>

text \<open>\<open>getBigInt\<close> on a string argument.\<close>

definition getBigInt :: "string \<Rightarrow> js_error + int" where
  "getBigInt value =
     (case value of
        [] \<Rightarrow> Inl (Error ''invalid BigNumberish string: empty string'')
      | c # r \<Rightarrow>
          if c = CHR ''-'' \<and> (case r of [] \<Rightarrow> True | c1 # r1 \<Rightarrow> c1 \<noteq> CHR ''-'') then
            (case js_BigInt r of
               None \<Rightarrow> Inl (Error ''invalid BigNumberish string: Cannot convert to a BigInt'')
             | Some v \<Rightarrow> Inr (- v))
          else
            (case js_BigInt value of
               None \<Rightarrow> Inl (Error ''invalid BigNumberish string: Cannot convert to a BigInt'')
             | Some v \<Rightarrow> Inr v))"

text \<open>\<open>getNumber\<close> on a number argument; \<open>0x1fffffffffffff\<close> is \<open>9007199254740991\<close>.\<close>

definition getNumber :: "js_number \<Rightarrow> js_error + int" where
  "getNumber v =
     (case v of
        Num r \<Rightarrow>
          if r \<noteq> of_int \<lfloor>r\<rfloor> then Inl (Error ''underflow'')
          else if \<not> (- 9007199254740991 \<le> \<lfloor>r\<rfloor> \<and> \<lfloor>r\<rfloor> \<le> 9007199254740991) then Inl (Error ''overflow'')
          else Inr \<lfloor>r\<rfloor>
      | _ \<Rightarrow> Inl (Error ''underflow''))"

text \<open>
  \<open>FixedNumber.fromString(value, { decimals, width: 512 }).value\<close>. The string is matched
  against \<open>/^(-?)([0-9]*)\.?([0-9]*)$/\<close>; \<open>match_fixed\<close> gives the three groups. The fraction
  is padded with zeros to the decimals, must have only zeros beyond them, and the digits
  are read as one integer, which has to fit 512 signed bits.
\<close>

definition match_fixed :: "string \<Rightarrow> (bool \<times> string \<times> string) option" where
  "match_fixed value =
     (let negative = (value \<noteq> [] \<and> hd value = CHR ''-'');
          r0 = (if negative then tl value else value);
          whole = takeWhile is_digit r0;
          r1 = dropWhile is_digit r0;
          r2 = (if r1 \<noteq> [] \<and> hd r1 = CHR ''.'' then tl r1 else r1);
          fraction = takeWhile is_digit r2;
          r3 = dropWhile is_digit r2
      in if r3 \<noteq> [] then None else Some (negative, whole, fraction))"

definition check_value :: "int \<Rightarrow> js_error + int" where
  "check_value v = (if - (2 ^ 511) \<le> v \<and> v < 2 ^ 511 then Inr v else Inl (Error ''overflow''))"

definition fromString :: "string \<Rightarrow> int \<Rightarrow> js_error + int" where
  "fromString value decimals =
     (case match_fixed value of
        None \<Rightarrow> Inl (Error ''invalid FixedNumber string value'')
      | Some (negative, whole, fraction) \<Rightarrow>
          if length whole + length fraction = 0 then Inl (Error ''invalid FixedNumber string value'')
          else if 80 < decimals then Inl (Error ''invalid FixedNumber decimals (too large)'')
          else
            (let d = nat decimals;
                 padded = fraction @ replicate (d - length fraction) CHR ''0''
             in if \<not> list_all (\<lambda>c. c = CHR ''0'') (drop d padded) then
                  Inl (Error ''too many decimals for format'')
                else
                  (let v = int (nat_of_digits (whole @ take d padded))
                   in check_value (if negative then - v else v))))"

text \<open>Sequencing of steps that may throw.\<close>

definition and_then :: "js_error + 'a \<Rightarrow> ('a \<Rightarrow> js_error + 'b) \<Rightarrow> js_error + 'b" where
  "and_then r f = (case r of Inl e \<Rightarrow> Inl e | Inr x \<Rightarrow> f x)"

fun for_each :: "('a \<Rightarrow> js_error + 'b) \<Rightarrow> 'a list \<Rightarrow> js_error + 'b list" where
  "for_each f [] = Inr []"
| "for_each f (x # xs) = and_then (f x) (\<lambda>y. and_then (for_each f xs) (\<lambda>ys. Inr (y # ys)))"

text \<open>\<open>parseUnits(value, unit)\<close> with a number as unit.\<close>

definition parseUnits :: "string \<Rightarrow> js_number \<Rightarrow> js_error + int" where
  "parseUnits value unit = and_then (getNumber unit) (fromString value)"

text \<open>The coder of \<open>uintN\<close>, given a string: \<open>getBigInt\<close>, then the bounds of the type.\<close>

definition abi_uint :: "nat \<Rightarrow> string \<Rightarrow> js_error + abi" where
  "abi_uint bits value =
     and_then (getBigInt value)
       (\<lambda>v. if v < 0 \<or> 2 ^ bits \<le> v then Inl (Error ''value out-of-bounds'') else Inr (Uint bits (nat v)))"

text \<open>
  The coder of \<open>address\<close>: \<open>getAddress\<close>. A prefixed hexadecimal address that mixes upper
  and lower case letters must carry the EIP-55 checksum, which is a Keccak hash the
  environment decides.
\<close>

definition mixed_case :: "string \<Rightarrow> bool" where
  "mixed_case a =
     (list_ex (in_range CHR ''A'' CHR ''F'') a \<and> list_ex (in_range CHR ''a'' CHR ''f'') a)"

definition abi_address :: "env \<Rightarrow> string \<Rightarrow> js_error + abi" where
  "abi_address env a =
     (if rx_test rx_ethereum_address a then
        (if mixed_case a \<and> \<not> checksum_ok env a then Inl (Error ''bad address checksum'')
         else Inr (Address (value_in 16 (drop 2 a))))
      else and_then (getAddress_other env a) (\<lambda>n. Inr (Address n)))"

definition abi_string :: "string \<Rightarrow> js_error + abi" where
  "abi_string s = Inr (String s)"

section \<open>Schemas\<close>

text \<open>
  A failed \<open>parse\<close> throws a \<open>ZodError\<close>, an \<open>Error\<close> whose message lists the issues.
  The model keeps one line per issue.
\<close>

definition ZodError :: "string list \<Rightarrow> js_error" where
  "ZodError issues = Error (concat (map (\<lambda>i. i @ ''; '') issues))"

text \<open>Reading a property: on anything but an object with that key the result is \<open>undefined\<close>.\<close>

definition property :: "json \<Rightarrow> string \<Rightarrow> json option" where
  "property v k = (case v of JObj kvs \<Rightarrow> map_of kvs k | _ \<Rightarrow> None)"

text \<open>\<open>z.string()\<close> with further checks, required or optional.\<close>

definition z_string :: "string \<Rightarrow> (string \<Rightarrow> string list) \<Rightarrow> json option \<Rightarrow> string list" where
  "z_string key checks v =
     (case v of
        None \<Rightarrow> [key @ '': Required'']
      | Some (JStr s) \<Rightarrow> map (\<lambda>m. key @ '': '' @ m) (checks s)
      | Some other \<Rightarrow> [key @ '': Expected string''])"

definition z_string_optional :: "string \<Rightarrow> json option \<Rightarrow> string list" where
  "z_string_optional key v =
     (case v of
        None \<Rightarrow> []
      | Some (JStr s) \<Rightarrow> []
      | Some other \<Rightarrow> [key @ '': Expected string''])"

definition z_number_optional :: "string \<Rightarrow> json option \<Rightarrow> string list" where
  "z_number_optional key v =
     (case v of
        None \<Rightarrow> []
      | Some (JNum n) \<Rightarrow> (if n = NaN then [key @ '': Expected number, received nan''] else [])
      | Some other \<Rightarrow> [key @ '': Expected number''])"

definition z_regex :: "rx \<Rightarrow> string \<Rightarrow> string \<Rightarrow> string list" where
  "z_regex r msg s = (if rx_test r s then [] else [msg])"

definition z_url :: "env \<Rightarrow> string \<Rightarrow> string list" where
  "z_url env s = (if url_valid env s then [] else [''Invalid url''])"

definition no_check :: "string \<Rightarrow> string list" where
  "no_check s = []"

text \<open>\<open>.strict()\<close>: a key outside the shape is an issue.\<close>

definition z_strict :: "string list \<Rightarrow> (string \<times> json) list \<Rightarrow> string list" where
  "z_strict shape kvs =
     (if list_all (\<lambda>k. k \<in> set shape) (map fst kvs) then [] else [''Unrecognized key(s) in object''])"

definition as_string :: "json option \<Rightarrow> string option" where
  "as_string v = (case v of Some (JStr s) \<Rightarrow> Some s | _ \<Rightarrow> None)"

definition as_number :: "json option \<Rightarrow> js_number option" where
  "as_number v = (case v of Some (JNum n) \<Rightarrow> Some n | _ \<Rightarrow> None)"

definition with_default :: "string option \<Rightarrow> string \<Rightarrow> string option" where
  "with_default v d = (case v of None \<Rightarrow> Some d | Some s \<Rightarrow> Some s)"

text \<open>The inputs of the six actions. An optional property is an \<open>option\<close>.\<close>

record HelloLit =
  magicNumber :: "js_number option"

record EncryptEnv =
  envFilePath :: "string option"
  outputPath :: "string option"
  walletAddress :: "string option"

record DecryptEnv =
  encryptedFilePath :: "string option"
  outputPath :: "string option"

record LitErc20Transfer =
  pkpEthAddress :: string
  tokenAddress :: string
  recipientAddress :: string
  amount :: string
  chainId :: string
  rpcUrl :: string

record LitEcdsaSign =
  pkpEthAddress :: string
  message :: string

record LitUniswapSwap =
  pkpEthAddress :: string
  tokenIn :: string
  tokenOut :: string
  amountIn :: string
  chainId :: string
  rpcUrl :: string

definition finish :: "string list \<Rightarrow> 'a \<Rightarrow> js_error + 'a" where
  "finish issues x = (if issues = [] then Inr x else Inl (ZodError issues))"

definition not_an_object :: "js_error + 'a" where
  "not_an_object = Inl (ZodError [''Expected object''])"

definition address_check :: "string \<Rightarrow> string list" where
  "address_check = z_regex rx_ethereum_address ''Must be a valid Ethereum address''"

definition decimal_check :: "string \<Rightarrow> string list" where
  "decimal_check = z_regex rx_decimal ''Must be a valid decimal number''"

definition chain_id_check :: "string \<Rightarrow> string list" where
  "chain_id_check = z_regex rx_chain_id ''Must be a valid chain ID''"

definition HelloLitSchema_parse :: "json \<Rightarrow> js_error + HelloLit" where
  "HelloLitSchema_parse input =
     (case input of
        JObj kvs \<Rightarrow>
          finish
            (z_number_optional ''magicNumber'' (map_of kvs ''magicNumber'')
             @ z_strict [''magicNumber''] kvs)
            \<lparr>magicNumber = as_number (map_of kvs ''magicNumber'')\<rparr>
      | _ \<Rightarrow> not_an_object)"

definition EncryptEnvSchema_parse :: "json \<Rightarrow> js_error + EncryptEnv" where
  "EncryptEnvSchema_parse input =
     (case input of
        JObj kvs \<Rightarrow>
          finish
            (z_string_optional ''envFilePath'' (map_of kvs ''envFilePath'')
             @ z_string_optional ''outputPath'' (map_of kvs ''outputPath'')
             @ z_string_optional ''walletAddress'' (map_of kvs ''walletAddress'')
             @ z_strict [''envFilePath'', ''outputPath'', ''walletAddress''] kvs)
            \<lparr>envFilePath = with_default (as_string (map_of kvs ''envFilePath'')) ''.env'',
             EncryptEnv.outputPath =
               with_default (as_string (map_of kvs ''outputPath'')) ''.env.encrypted'',
             walletAddress = as_string (map_of kvs ''walletAddress'')\<rparr>
      | _ \<Rightarrow> not_an_object)"

definition DecryptEnvSchema_parse :: "json \<Rightarrow> js_error + DecryptEnv" where
  "DecryptEnvSchema_parse input =
     (case input of
        JObj kvs \<Rightarrow>
          finish
            (z_string_optional ''encryptedFilePath'' (map_of kvs ''encryptedFilePath'')
             @ z_string_optional ''outputPath'' (map_of kvs ''outputPath'')
             @ z_strict [''encryptedFilePath'', ''outputPath''] kvs)
            \<lparr>encryptedFilePath =
               with_default (as_string (map_of kvs ''encryptedFilePath'')) ''.env.encrypted'',
             DecryptEnv.outputPath = with_default (as_string (map_of kvs ''outputPath'')) ''.env''\<rparr>
      | _ \<Rightarrow> not_an_object)"

definition the_string :: "json option \<Rightarrow> string" where
  "the_string v = (case v of Some (JStr s) \<Rightarrow> s | _ \<Rightarrow> [])"

definition LitErc20TransferSchema_parse :: "env \<Rightarrow> json \<Rightarrow> js_error + LitErc20Transfer" where
  "LitErc20TransferSchema_parse env input =
     (case input of
        JObj kvs \<Rightarrow>
          finish
            (z_string ''pkpEthAddress'' address_check (map_of kvs ''pkpEthAddress'')
             @ z_string ''tokenAddress'' address_check (map_of kvs ''tokenAddress'')
             @ z_string ''recipientAddress'' address_check (map_of kvs ''recipientAddress'')
             @ z_string ''amount'' decimal_check (map_of kvs ''amount'')
             @ z_string ''chainId'' chain_id_check (map_of kvs ''chainId'')
             @ z_string ''rpcUrl'' (z_url env) (map_of kvs ''rpcUrl'')
             @ z_strict
                 [''pkpEthAddress'', ''tokenAddress'', ''recipientAddress'', ''amount'', ''chainId'',
                  ''rpcUrl''] kvs)
            \<lparr>LitErc20Transfer.pkpEthAddress = the_string (map_of kvs ''pkpEthAddress''),
             tokenAddress = the_string (map_of kvs ''tokenAddress''),
             recipientAddress = the_string (map_of kvs ''recipientAddress''),
             amount = the_string (map_of kvs ''amount''),
             LitErc20Transfer.chainId = the_string (map_of kvs ''chainId''),
             LitErc20Transfer.rpcUrl = the_string (map_of kvs ''rpcUrl'')\<rparr>
      | _ \<Rightarrow> not_an_object)"

definition LitEcdsaSignSchema_parse :: "json \<Rightarrow> js_error + LitEcdsaSign" where
  "LitEcdsaSignSchema_parse input =
     (case input of
        JObj kvs \<Rightarrow>
          finish
            (z_string ''pkpEthAddress'' address_check (map_of kvs ''pkpEthAddress'')
             @ z_string ''message'' no_check (map_of kvs ''message'')
             @ z_strict [''pkpEthAddress'', ''message''] kvs)
            \<lparr>LitEcdsaSign.pkpEthAddress = the_string (map_of kvs ''pkpEthAddress''),
             message = the_string (map_of kvs ''message'')\<rparr>
      | _ \<Rightarrow> not_an_object)"

definition LitUniswapSwapSchema_parse :: "env \<Rightarrow> json \<Rightarrow> js_error + LitUniswapSwap" where
  "LitUniswapSwapSchema_parse env input =
     (case input of
        JObj kvs \<Rightarrow>
          finish
            (z_string ''pkpEthAddress'' address_check (map_of kvs ''pkpEthAddress'')
             @ z_string ''tokenIn'' address_check (map_of kvs ''tokenIn'')
             @ z_string ''tokenOut'' address_check (map_of kvs ''tokenOut'')
             @ z_string ''amountIn'' decimal_check (map_of kvs ''amountIn'')
             @ z_string ''chainId'' chain_id_check (map_of kvs ''chainId'')
             @ z_string ''rpcUrl'' (z_url env) (map_of kvs ''rpcUrl'')
             @ z_strict
                 [''pkpEthAddress'', ''tokenIn'', ''tokenOut'', ''amountIn'', ''chainId'', ''rpcUrl''] kvs)
            \<lparr>LitUniswapSwap.pkpEthAddress = the_string (map_of kvs ''pkpEthAddress''),
             tokenIn = the_string (map_of kvs ''tokenIn''),
             tokenOut = the_string (map_of kvs ''tokenOut''),
             amountIn = the_string (map_of kvs ''amountIn''),
             LitUniswapSwap.chainId = the_string (map_of kvs ''chainId''),
             LitUniswapSwap.rpcUrl = the_string (map_of kvs ''rpcUrl'')\<rparr>
      | _ \<Rightarrow> not_an_object)"

section \<open>Policies\<close>

record ERC20TransferPolicyType =
  type :: string
  version :: string
  erc20Decimals :: string
  maxAmount :: string
  allowedTokens :: "string list"
  allowedRecipients :: "string list"

record SignEcdsaPolicyType =
  type :: string
  version :: string
  allowedPrefixes :: "string list"

record UniswapSwapPolicyType =
  type :: string
  version :: string
  maxAmount :: string
  allowedTokens :: "string list"

text \<open>
  The policy schemas, on a policy whose properties have the declared types: the literal
  of \<open>type\<close> and the address pattern of every array element remain to be checked.
\<close>

definition z_literal :: "string \<Rightarrow> string \<Rightarrow> string list" where
  "z_literal expected s = (if s = expected then [] else [''type: Invalid literal value''])"

definition z_addresses :: "string \<Rightarrow> string list \<Rightarrow> string list" where
  "z_addresses key xs = concat (map (\<lambda>a. map (\<lambda>m. key @ '': '' @ m) (address_check a)) xs)"

definition erc20TransferPolicySchema_parse :: "ERC20TransferPolicyType \<Rightarrow> js_error + unit" where
  "erc20TransferPolicySchema_parse policy =
     finish
       (z_literal ''ERC20Transfer'' (ERC20TransferPolicyType.type policy)
        @ z_addresses ''allowedTokens'' (ERC20TransferPolicyType.allowedTokens policy)
        @ z_addresses ''allowedRecipients'' (allowedRecipients policy))
       ()"

definition signEcdsaPolicySchema_parse :: "SignEcdsaPolicyType \<Rightarrow> js_error + unit" where
  "signEcdsaPolicySchema_parse policy = finish (z_literal ''SignEcdsa'' (SignEcdsaPolicyType.type policy)) ()"

definition uniswapSwapPolicySchema_parse :: "UniswapSwapPolicyType \<Rightarrow> js_error + unit" where
  "uniswapSwapPolicySchema_parse policy =
     finish
       (z_literal ''UniswapSwap'' (UniswapSwapPolicyType.type policy)
        @ z_addresses ''allowedTokens'' (UniswapSwapPolicyType.allowedTokens policy))
       ()"

definition policy_version :: string where
  "policy_version = ''1.0.0''"

text \<open>
  \<open>ERC20TransferPolicy.encode\<close>. The argument \<open>parseUnits(...).toString()\<close> is computed
  before \<open>abiCoder.encode\<close> is entered; the tuple coder then encodes the components in
  the order of the signature.
\<close>

definition ERC20TransferPolicy_encode :: "env \<Rightarrow> ERC20TransferPolicyType \<Rightarrow> js_error + abi" where
  "ERC20TransferPolicy_encode env policy =
     and_then (erc20TransferPolicySchema_parse policy) (\<lambda>u.
     and_then (parseUnits (ERC20TransferPolicyType.maxAmount policy) (js_Number env (erc20Decimals policy))) (\<lambda>units.
     and_then (abi_uint 8 (erc20Decimals policy)) (\<lambda>decimals.
     and_then (abi_uint 256 (bigint_toString units)) (\<lambda>maxAmount.
     and_then (for_each (abi_address env) (ERC20TransferPolicyType.allowedTokens policy)) (\<lambda>tokens.
     and_then (for_each (abi_address env) (allowedRecipients policy)) (\<lambda>recipients.
     Inr (Tuple [Tuple [decimals, maxAmount, Array tokens, Array recipients]])))))))"

definition SignEcdsaPolicy_encode :: "SignEcdsaPolicyType \<Rightarrow> js_error + abi" where
  "SignEcdsaPolicy_encode policy =
     and_then (signEcdsaPolicySchema_parse policy) (\<lambda>u.
     and_then (for_each abi_string (allowedPrefixes policy)) (\<lambda>prefixes.
     Inr (Tuple [Tuple [Array prefixes]])))"

definition UniswapSwapPolicy_encode :: "env \<Rightarrow> UniswapSwapPolicyType \<Rightarrow> js_error + abi" where
  "UniswapSwapPolicy_encode env policy =
     and_then (uniswapSwapPolicySchema_parse policy) (\<lambda>u.
     and_then (abi_uint 256 (UniswapSwapPolicyType.maxAmount policy)) (\<lambda>maxAmount.
     and_then (for_each (abi_address env) (UniswapSwapPolicyType.allowedTokens policy)) (\<lambda>tokens.
     Inr (Tuple [Tuple [maxAmount, Array tokens]]))))"

section \<open>The client slot and the session signatures\<close>

definition count_clients :: "event list \<Rightarrow> nat" where
  "count_clients evs = length (filter (\<lambda>e. case e of New_LitNodeClient n d \<Rightarrow> True | _ \<Rightarrow> False) evs)"

definition new_LitNodeClient :: "LitNetwork \<Rightarrow> bool \<Rightarrow> LitNodeClient io" where
  "new_LitNodeClient n d w =
     (Inr \<lparr>handle = count_clients (trace w), client_litNetwork = n, client_debug = d\<rparr>,
      w\<lparr>trace := trace w @ [New_LitNodeClient n d]\<rparr>)"

definition set_litNodeClient :: "LitNodeClient \<Rightarrow> unit io" where
  "set_litNodeClient c w = (Inr (), w\<lparr>litNodeClient := Some c\<rparr>)"

definition client_connect :: "env \<Rightarrow> LitNodeClient \<Rightarrow> unit io" where
  "client_connect env c = call (Client_connect (handle c)) (outcome_of (connect_outcome env c))"

text \<open>
  \<open>getLitClient\<close> of \<open>lit-action-provider.ts\<close>. The slot is assigned before \<open>connect\<close> is
  awaited, so it stays assigned when \<open>connect\<close> rejects.
\<close>

definition getLitClient :: "env \<Rightarrow> LitActionProviderConfig \<Rightarrow> LitNodeClient io" where
  "getLitClient env config w =
     (case litNodeClient w of
        None \<Rightarrow>
          bnd (new_LitNodeClient (or_network (litNetwork config) Datil_dev) (or_bool (debug config) False)) (\<lambda>c.
          bnd (set_litNodeClient c) (\<lambda>u.
          bnd (client_connect env c) (\<lambda>u.
          ret c))) w
      | Some c \<Rightarrow> ret c w)"

text \<open>
  \<open>getSessionSigs\<close>. The SDK runs \<open>authNeededCallback\<close> inside \<open>client.getSessionSigs\<close>;
  whatever the callback does or throws is part of the outcome of that call.
\<close>

definition getSessionSigs :: "env \<Rightarrow> LitActionProviderConfig \<Rightarrow> json io" where
  "getSessionSigs env config =
     bnd (getLitClient env config) (\<lambda>client.
     bnd (call Wallet_getAddress (getAddress_outcome env)) (\<lambda>walletAddress.
     bnd (call Wallet_getNetwork (outcome_of (getNetwork_outcome env))) (\<lambda>network.
     (let request =
            \<lparr>chain = ''ethereum'', expiration = expiry_iso env, resource = ''*'',
             ability = ''lit-action-execution'', auth_walletAddress = walletAddress\<rparr>
      in call (Client_getSessionSigs (handle client) request)
           (getSessionSigs_outcome env client request)))))"

section \<open>The handlers of \<open>lit-action-provider.ts\<close>\<close>

text \<open>\<open>{ litNetwork: "datil-dev", debug: false, ...config }\<close>\<close>

definition finalConfig :: "LitActionProviderConfig \<Rightarrow> LitActionProviderConfig" where
  "finalConfig config =
     \<lparr>litNetwork = Some (case litNetwork config of None \<Rightarrow> Datil_dev | Some n \<Rightarrow> n),
      debug = Some (case debug config of None \<Rightarrow> False | Some b \<Rightarrow> b)\<rparr>"

text \<open>The two envelopes a handler returns.\<close>

definition succeeded :: "string \<Rightarrow> json" where
  "succeeded r = JObj [(''success'', JBool True), (''result'', JStr r)]"

definition failed :: "string \<Rightarrow> json" where
  "failed e = JObj [(''success'', JBool False), (''error'', JStr e)]"

definition settle :: "js_error + 'a \<Rightarrow> 'a io" where
  "settle r w = (r, w)"

text \<open>
  Reading a property of a value that may be \<open>null\<close>: a \<open>TypeError\<close> on \<open>null\<close>, else the
  property or \<open>undefined\<close>.
\<close>

definition member :: "json \<Rightarrow> string \<Rightarrow> js_error + json option" where
  "member v k =
     (case v of
        JNull \<Rightarrow> Inl (Error (''Cannot read properties of null (reading '' @ k @ '')''))
      | _ \<Rightarrow> Inr (property v k))"

text \<open>\<open>res.response || res\<close>\<close>

definition response_or_self :: "json \<Rightarrow> js_error + json" where
  "response_or_self res =
     and_then (member res ''response'')
       (\<lambda>r. case r of None \<Rightarrow> Inr res | Some v \<Rightarrow> if truthy v then Inr v else Inr res)"

definition client_executeJs :: "env \<Rightarrow> LitNodeClient \<Rightarrow> exec_request \<Rightarrow> json io" where
  "client_executeJs env client request =
     call (Client_executeJs (handle client) request) (executeJs_outcome env client request)"

definition hello_try :: "env \<Rightarrow> LitActionProviderConfig \<Rightarrow> HelloLit \<Rightarrow> json io" where
  "hello_try env config input =
       bnd (getLitClient env config) (\<lambda>client.
       bnd (getSessionSigs env config) (\<lambda>sigs.
       bnd (client_executeJs env client
              \<lparr>sessionSigs = sigs, code = Some HELLO_LIT_CODE, ipfsId = None,
               jsParams = VObj [(''magicNumber'', VNum (or_number (magicNumber input) (Num 42)))]\<rparr>) (\<lambda>res.
       bnd (settle (response_or_self res)) (\<lambda>v.
       ret (succeeded (JSON_stringify env v))))))"

definition hello_handler :: "env \<Rightarrow> LitActionProviderConfig \<Rightarrow> HelloLit \<Rightarrow> json io" where
  "hello_handler env config input =
     try_catch (hello_try env config input)
       (\<lambda>error. ret (failed (''Lit Protocol hello failed: '' @ message_or_unknown error)))"

text \<open>\<open>fs.readFile(path, "utf-8")\<close> and \<open>fs.writeFile(path, data)\<close>\<close>

definition fs_readFile :: "env \<Rightarrow> string \<Rightarrow> string io" where
  "fs_readFile env path w =
     (let w' = w\<lparr>trace := trace w @ [Fs_readFile path]\<rparr>
      in case readFile_fault env path of
           Some e \<Rightarrow> (Inl e, w')
         | None \<Rightarrow>
             (case files w path of
                None \<Rightarrow> (Inl (Error (''ENOENT: no such file or directory, open '' @ path)), w')
              | Some content \<Rightarrow> (Inr content, w')))"

definition fs_writeFile :: "env \<Rightarrow> string \<Rightarrow> string \<Rightarrow> unit io" where
  "fs_writeFile env path data w =
     (let w' = w\<lparr>trace := trace w @ [Fs_writeFile path data]\<rparr>
      in case writeFile_fault env path of
           Some e \<Rightarrow> (Inl e, w')
         | None \<Rightarrow> (Inr (), w'\<lparr>files := (files w')(path \<mapsto> data)\<rparr>))"

text \<open>\<open>String.prototype.toLowerCase\<close>, on the ASCII letters.\<close>

definition toLowerCase :: "string \<Rightarrow> string" where
  "toLowerCase s = map (\<lambda>c. if in_range CHR ''A'' CHR ''Z'' c then char_of (of_char c + (32::nat)) else c) s"

definition accessControlConditions :: "string \<Rightarrow> json" where
  "accessControlConditions authorizedWallet =
     JArr [JObj [(''contractAddress'', JStr []),
                 (''standardContractType'', JStr []),
                 (''chain'', JStr ''ethereum''),
                 (''method'', JStr []),
                 (''parameters'', JArr [JStr '':userAddress'']),
                 (''returnValueTest'',
                    JObj [(''comparator'', JStr ''=''), (''value'', JStr (toLowerCase authorizedWallet))])]]"

definition network_entry :: "LitNetwork option \<Rightarrow> (string \<times> json) list" where
  "network_entry n = (case n of None \<Rightarrow> [] | Some x \<Rightarrow> [(''network'', JStr (network_name x))])"

definition encryptedData :: "env \<Rightarrow> LitActionProviderConfig \<Rightarrow> string \<Rightarrow> json \<Rightarrow> string \<Rightarrow> string \<Rightarrow> json" where
  "encryptedData env config encryptedBy acc ciphertext dataToEncryptHash =
     JObj ([(''version'', JStr ''1.0.0''),
            (''encryptedAt'', JStr (now_iso env)),
            (''encryptedBy'', JStr encryptedBy),
            (''accessControlConditions'', acc),
            (''ciphertext'', JStr ciphertext),
            (''dataToEncryptHash'', JStr dataToEncryptHash)]
           @ network_entry (litNetwork config))"

definition encrypt_env_try :: "env \<Rightarrow> LitActionProviderConfig \<Rightarrow> EncryptEnv \<Rightarrow> json io" where
  "encrypt_env_try env config input =
       bnd (fs_readFile env (or_string (envFilePath input) ''.env'')) (\<lambda>envContent.
       if \<not> string_truthy envContent then
         ret (failed (''File '' @ or_string (envFilePath input) ''.env'' @ '' is empty or missing''))
       else
         bnd (getLitClient env config) (\<lambda>client.
         bnd (call Wallet_getAddress (getAddress_outcome env)) (\<lambda>walletAddress.
         (let authorizedWallet = or_string (EncryptEnv.walletAddress input) walletAddress;
              acc = accessControlConditions authorizedWallet
          in bnd (call (EncryptString (handle client) acc envContent)
                    (encryptString_outcome env client acc envContent)) (\<lambda>(ciphertext, dataToEncryptHash).
             bnd (fs_writeFile env (or_string (EncryptEnv.outputPath input) ''.env.encrypted'')
                    (JSON_stringify_indented env
                       (encryptedData env config walletAddress acc ciphertext dataToEncryptHash))) (\<lambda>u.
             ret (succeeded
                    (''Encrypted '' @ or_string (envFilePath input) ''.env'' @ '' to ''
                     @ or_string (EncryptEnv.outputPath input) ''.env.encrypted''
                     @ ''. Access control set for '' @ authorizedWallet))))))))"

definition encrypt_env_handler :: "env \<Rightarrow> LitActionProviderConfig \<Rightarrow> EncryptEnv \<Rightarrow> json io" where
  "encrypt_env_handler env config input =
     try_catch (encrypt_env_try env config input)
       (\<lambda>error. ret (failed (''Encryption failed: '' @ message_or_unknown error)))"

definition decrypt_env_try :: "env \<Rightarrow> LitActionProviderConfig \<Rightarrow> DecryptEnv \<Rightarrow> json io" where
  "decrypt_env_try env config input =
       bnd (fs_readFile env (or_string (encryptedFilePath input) ''.env.encrypted'')) (\<lambda>encryptedContent.
       bnd (settle (JSON_parse env encryptedContent)) (\<lambda>data.
       bnd (getLitClient env config) (\<lambda>client.
       bnd (getSessionSigs env config) (\<lambda>sigs.
       bnd (settle (member data ''accessControlConditions'')) (\<lambda>acc.
       bnd (settle (member data ''ciphertext'')) (\<lambda>ciphertext.
       bnd (settle (member data ''dataToEncryptHash'')) (\<lambda>dataToEncryptHash.
       (let request =
              \<lparr>d_accessControlConditions = acc, d_ciphertext = ciphertext,
               d_dataToEncryptHash = dataToEncryptHash, d_sessionSigs = sigs,
               d_chain = ''ethereum''\<rparr>
        in bnd (call (DecryptToString (handle client) request)
                  (decryptToString_outcome env client request)) (\<lambda>decryptedString.
           bnd (fs_writeFile env (or_string (DecryptEnv.outputPath input) ''.env'') decryptedString) (\<lambda>u.
           ret (succeeded
                  (''Decrypted '' @ or_string (encryptedFilePath input) ''.env.encrypted'' @ '' to ''
                   @ or_string (DecryptEnv.outputPath input) ''.env''))))))))))))"

definition decrypt_env_handler :: "env \<Rightarrow> LitActionProviderConfig \<Rightarrow> DecryptEnv \<Rightarrow> json io" where
  "decrypt_env_handler env config input =
     try_catch (decrypt_env_try env config input)
       (\<lambda>error.
          ret (failed (''Decryption failed: '' @ message_or_unknown error @ ''. ''
                       @ ''Make sure you have permission to decrypt this file.'')))"

definition erc20_policy :: "LitErc20Transfer \<Rightarrow> ERC20TransferPolicyType" where
  "erc20_policy input =
     \<lparr>ERC20TransferPolicyType.type = ''ERC20Transfer'',
      ERC20TransferPolicyType.version = policy_version,
      erc20Decimals = ''18'',
      ERC20TransferPolicyType.maxAmount = amount input,
      ERC20TransferPolicyType.allowedTokens = [tokenAddress input],
      allowedRecipients = [recipientAddress input]\<rparr>"

definition erc20_transfer_try :: "env \<Rightarrow> LitActionProviderConfig \<Rightarrow> LitErc20Transfer \<Rightarrow> json io" where
  "erc20_transfer_try env config input =
       bnd (getLitClient env config) (\<lambda>client.
       bnd (getSessionSigs env config) (\<lambda>sigs.
       (let network = or_network (litNetwork config) Datil_dev;
            ipfsCid = erc20Transfer (IPFS_CIDS network);
            policy = erc20_policy input
        in bnd (settle (ERC20TransferPolicy_encode env policy)) (\<lambda>encodedPolicy.
           bnd (client_executeJs env client
                  \<lparr>sessionSigs = sigs, code = None, ipfsId = Some ipfsCid,
                   jsParams =
                     VObj [(''params'',
                            VObj [(''pkpEthAddress'', VStr (LitErc20Transfer.pkpEthAddress input)),
                                  (''tokenIn'', VStr (tokenAddress input)),
                                  (''recipientAddress'', VStr (recipientAddress input)),
                                  (''amountIn'', VStr (amount input)),
                                  (''chainId'', VStr (LitErc20Transfer.chainId input)),
                                  (''rpcUrl'', VStr (LitErc20Transfer.rpcUrl input)),
                                  (''encodedPolicy'', VAbi encodedPolicy)])]\<rparr>) (\<lambda>res.
           bnd (settle (response_or_self res)) (\<lambda>v.
           ret (succeeded (JSON_stringify env v))))))))"

definition erc20_transfer_handler :: "env \<Rightarrow> LitActionProviderConfig \<Rightarrow> LitErc20Transfer \<Rightarrow> json io" where
  "erc20_transfer_handler env config input =
     try_catch (erc20_transfer_try env config input)
       (\<lambda>error. ret (failed (''ERC20 transfer failed: '' @ message_or_unknown error)))"

definition ecdsa_policy :: "LitEcdsaSign \<Rightarrow> SignEcdsaPolicyType" where
  "ecdsa_policy input =
     \<lparr>SignEcdsaPolicyType.type = ''SignEcdsa'',
      SignEcdsaPolicyType.version = policy_version,
      allowedPrefixes = [message input]\<rparr>"

definition ecdsa_sign_try :: "env \<Rightarrow> LitActionProviderConfig \<Rightarrow> LitEcdsaSign \<Rightarrow> json io" where
  "ecdsa_sign_try env config input =
       bnd (getLitClient env config) (\<lambda>client.
       bnd (getSessionSigs env config) (\<lambda>sigs.
       (let network = or_network (litNetwork config) Datil_dev;
            ipfsCid = ecdsaSign (IPFS_CIDS network);
            policy = ecdsa_policy input
        in bnd (settle (SignEcdsaPolicy_encode policy)) (\<lambda>encodedPolicy.
           bnd (client_executeJs env client
                  \<lparr>sessionSigs = sigs, code = None, ipfsId = Some ipfsCid,
                   jsParams =
                     VObj [(''params'',
                            VObj [(''pkpEthAddress'', VStr (LitEcdsaSign.pkpEthAddress input)),
                                  (''message'', VStr (message input)),
                                  (''encodedPolicy'', VAbi encodedPolicy)])]\<rparr>) (\<lambda>res.
           bnd (settle (response_or_self res)) (\<lambda>v.
           ret (succeeded (JSON_stringify env v))))))))"

definition ecdsa_sign_handler :: "env \<Rightarrow> LitActionProviderConfig \<Rightarrow> LitEcdsaSign \<Rightarrow> json io" where
  "ecdsa_sign_handler env config input =
     try_catch (ecdsa_sign_try env config input)
       (\<lambda>error. ret (failed (''ECDSA sign failed: '' @ message_or_unknown error)))"

definition uniswap_policy :: "LitUniswapSwap \<Rightarrow> UniswapSwapPolicyType" where
  "uniswap_policy input =
     \<lparr>UniswapSwapPolicyType.type = ''UniswapSwap'',
      UniswapSwapPolicyType.version = policy_version,
      UniswapSwapPolicyType.maxAmount = amountIn input,
      UniswapSwapPolicyType.allowedTokens = [tokenIn input, tokenOut input]\<rparr>"

definition uniswap_swap_try :: "env \<Rightarrow> LitActionProviderConfig \<Rightarrow> LitUniswapSwap \<Rightarrow> json io" where
  "uniswap_swap_try env config input =
       bnd (getLitClient env config) (\<lambda>client.
       bnd (getSessionSigs env config) (\<lambda>sigs.
       (let network = or_network (litNetwork config) Datil_dev;
            ipfsCid = uniswapSwap (IPFS_CIDS network);
            policy = uniswap_policy input
        in bnd (settle (UniswapSwapPolicy_encode env policy)) (\<lambda>encodedPolicy.
           bnd (client_executeJs env client
                  \<lparr>sessionSigs = sigs, code = None, ipfsId = Some ipfsCid,
                   jsParams =
                     VObj [(''params'',
                            VObj [(''pkpEthAddress'', VStr (LitUniswapSwap.pkpEthAddress input)),
                                  (''tokenIn'', VStr (tokenIn input)),
                                  (''tokenOut'', VStr (tokenOut input)),
                                  (''amountIn'', VStr (amountIn input)),
                                  (''chainId'', VStr (LitUniswapSwap.chainId input)),
                                  (''rpcUrl'', VStr (LitUniswapSwap.rpcUrl input)),
                                  (''encodedPolicy'', VAbi encodedPolicy)])]\<rparr>) (\<lambda>res.
           bnd (settle (response_or_self res)) (\<lambda>v.
           ret (succeeded (JSON_stringify env v))))))))"

definition uniswap_swap_handler :: "env \<Rightarrow> LitActionProviderConfig \<Rightarrow> LitUniswapSwap \<Rightarrow> json io" where
  "uniswap_swap_handler env config input =
     try_catch (uniswap_swap_try env config input)
       (\<lambda>error. ret (failed (''Uniswap swap failed: '' @ message_or_unknown error)))"

text \<open>
  The provider: \<open>litActionProvider(config).actions\<close>, each action with the input of its
  schema. The handlers close over \<open>finalConfig\<close>.
\<close>

datatype action_input =
    Lit_hello HelloLit
  | Lit_encrypt_env EncryptEnv
  | Lit_decrypt_env DecryptEnv
  | Lit_erc20_transfer LitErc20Transfer
  | Lit_ecdsa_sign LitEcdsaSign
  | Lit_uniswap_swap LitUniswapSwap

fun action_id :: "action_input \<Rightarrow> string" where
  "action_id (Lit_hello i) = ''lit-hello''"
| "action_id (Lit_encrypt_env i) = ''lit-encrypt-env''"
| "action_id (Lit_decrypt_env i) = ''lit-decrypt-env''"
| "action_id (Lit_erc20_transfer i) = ''lit-erc20-transfer''"
| "action_id (Lit_ecdsa_sign i) = ''lit-ecdsa-sign''"
| "action_id (Lit_uniswap_swap i) = ''lit-uniswap-swap''"

fun litActionProvider :: "env \<Rightarrow> LitActionProviderConfig \<Rightarrow> action_input \<Rightarrow> json io" where
  "litActionProvider env config (Lit_hello i) = hello_handler env (finalConfig config) i"
| "litActionProvider env config (Lit_encrypt_env i) = encrypt_env_handler env (finalConfig config) i"
| "litActionProvider env config (Lit_decrypt_env i) = decrypt_env_handler env (finalConfig config) i"
| "litActionProvider env config (Lit_erc20_transfer i) = erc20_transfer_handler env (finalConfig config) i"
| "litActionProvider env config (Lit_ecdsa_sign i) = ecdsa_sign_handler env (finalConfig config) i"
| "litActionProvider env config (Lit_uniswap_swap i) = uniswap_swap_handler env (finalConfig config) i"

section \<open>The handlers of the JavaScript provider\<close>

text \<open>
  The JavaScript file of the same provider differs in three places: \<open>getLitClient\<close>
  wraps construction and connection in a \<open>try\<close> and rethrows, \<open>getSessionSigs\<close> does not
  ask the wallet for its network, and the handlers (all but hello) parse their input with
  the schema themselves. The input is an arbitrary value there.
\<close>

text \<open>\<open>`${x}`\<close> for a property that may be absent.\<close>

definition template :: "env \<Rightarrow> json option \<Rightarrow> string" where
  "template env v =
     (case v of None \<Rightarrow> ''undefined'' | Some (JStr s) \<Rightarrow> s | Some other \<Rightarrow> String_of env other)"

text \<open>\<open>error.message\<close> of a caught value; reading it from \<open>null\<close> throws in turn.\<close>

definition error_message :: "env \<Rightarrow> js_error \<Rightarrow> js_error + string" where
  "error_message env error =
     (case error of
        Error m \<Rightarrow> Inr m
      | Thrown v \<Rightarrow> and_then (member v ''message'') (\<lambda>m. Inr (template env m)))"

definition getLitClient_js :: "env \<Rightarrow> LitActionProviderConfig \<Rightarrow> LitNodeClient io" where
  "getLitClient_js env config w =
     (case litNodeClient w of
        None \<Rightarrow>
          try_catch
            (bnd (new_LitNodeClient (or_network (litNetwork config) Datil_dev) (or_bool (debug config) False)) (\<lambda>c.
             bnd (set_litNodeClient c) (\<lambda>u.
             bnd (client_connect env c) (\<lambda>u.
             ret c))))
            (\<lambda>error.
               bnd (emit Console_error) (\<lambda>u.
               bnd (settle (error_message env error)) (\<lambda>m.
               throw (Error (''Lit Protocol connection failed: '' @ m))))) w
      | Some c \<Rightarrow> ret c w)"

definition getSessionSigs_js :: "env \<Rightarrow> LitActionProviderConfig \<Rightarrow> json io" where
  "getSessionSigs_js env config =
     bnd (getLitClient_js env config) (\<lambda>client.
     bnd (call Wallet_getAddress (getAddress_outcome env)) (\<lambda>walletAddress.
     (let request =
            \<lparr>chain = ''ethereum'', expiration = expiry_iso env, resource = ''*'',
             ability = ''lit-action-execution'', auth_walletAddress = walletAddress\<rparr>
      in call (Client_getSessionSigs (handle client) request)
           (getSessionSigs_outcome env client request))))"

text \<open>\<open>input.magicNumber || 42\<close> on an arbitrary input.\<close>

definition magic_or_42 :: "json option \<Rightarrow> json" where
  "magic_or_42 v = (case v of None \<Rightarrow> JNum (Num 42) | Some x \<Rightarrow> if truthy x then x else JNum (Num 42))"

definition hello_try_js :: "env \<Rightarrow> LitActionProviderConfig \<Rightarrow> json \<Rightarrow> json io" where
  "hello_try_js env config input =
       bnd (getLitClient_js env config) (\<lambda>client.
       bnd (getSessionSigs_js env config) (\<lambda>sigs.
       bnd (settle (member input ''magicNumber'')) (\<lambda>magic.
       bnd (client_executeJs env client
              \<lparr>sessionSigs = sigs, code = Some HELLO_LIT_CODE, ipfsId = None,
               jsParams = VObj [(''magicNumber'', VJson (magic_or_42 magic))]\<rparr>) (\<lambda>res.
       bnd (settle (response_or_self res)) (\<lambda>v.
       ret (succeeded (JSON_stringify env v)))))))"

definition hello_handler_js :: "env \<Rightarrow> LitActionProviderConfig \<Rightarrow> json \<Rightarrow> json io" where
  "hello_handler_js env config input =
     try_catch (hello_try_js env config input)
       (\<lambda>error. ret (failed (''Lit Protocol hello failed: '' @ message_or_unknown error)))"

text \<open>\<open>input || {}\<close>\<close>

definition or_empty_object :: "json \<Rightarrow> json" where
  "or_empty_object input = (if truthy input then input else JObj [])"

text \<open>A path read from the parsed input; the schema's default makes it a string.\<close>

definition path_of :: "string option \<Rightarrow> string io" where
  "path_of p =
     (case p of
        None \<Rightarrow> throw (Error ''The path argument must be of type string. Received undefined'')
      | Some s \<Rightarrow> ret s)"

definition encrypt_env_try_js :: "env \<Rightarrow> LitActionProviderConfig \<Rightarrow> json \<Rightarrow> json io" where
  "encrypt_env_try_js env config input =
       bnd (settle (EncryptEnvSchema_parse (or_empty_object input))) (\<lambda>parsed.
       bnd (path_of (envFilePath parsed)) (\<lambda>envPath.
       bnd (fs_readFile env envPath) (\<lambda>envContent.
       if \<not> string_truthy envContent then
         ret (failed (''File '' @ envPath @ '' is empty or missing''))
       else
         bnd (getLitClient_js env config) (\<lambda>client.
         bnd (call Wallet_getAddress (getAddress_outcome env)) (\<lambda>walletAddress.
         (let authorizedWallet = or_string (EncryptEnv.walletAddress parsed) walletAddress;
              acc = accessControlConditions authorizedWallet
          in bnd (call (EncryptString (handle client) acc envContent)
                    (encryptString_outcome env client acc envContent)) (\<lambda>(ciphertext, dataToEncryptHash).
             bnd (path_of (EncryptEnv.outputPath parsed)) (\<lambda>outPath.
             bnd (fs_writeFile env outPath
                    (JSON_stringify_indented env
                       (encryptedData env config walletAddress acc ciphertext dataToEncryptHash))) (\<lambda>u.
             ret (succeeded
                    (''Encrypted '' @ envPath @ '' to '' @ outPath
                     @ ''. Access control set for '' @ authorizedWallet)))))))))))"

definition encrypt_env_handler_js :: "env \<Rightarrow> LitActionProviderConfig \<Rightarrow> json \<Rightarrow> json io" where
  "encrypt_env_handler_js env config input =
     try_catch (encrypt_env_try_js env config input)
       (\<lambda>error. ret (failed (''Encryption failed: '' @ message_or_unknown error)))"

definition decrypt_env_try_js :: "env \<Rightarrow> LitActionProviderConfig \<Rightarrow> json \<Rightarrow> json io" where
  "decrypt_env_try_js env config input =
       bnd (settle (DecryptEnvSchema_parse (or_empty_object input))) (\<lambda>parsed.
       bnd (path_of (encryptedFilePath parsed)) (\<lambda>inPath.
       bnd (fs_readFile env inPath) (\<lambda>encryptedContent.
       bnd (settle (JSON_parse env encryptedContent)) (\<lambda>data.
       bnd (getLitClient_js env config) (\<lambda>client.
       bnd (getSessionSigs_js env config) (\<lambda>sigs.
       bnd (settle (member data ''accessControlConditions'')) (\<lambda>acc.
       bnd (settle (member data ''ciphertext'')) (\<lambda>ciphertext.
       bnd (settle (member data ''dataToEncryptHash'')) (\<lambda>dataToEncryptHash.
       (let request =
              \<lparr>d_accessControlConditions = acc, d_ciphertext = ciphertext,
               d_dataToEncryptHash = dataToEncryptHash, d_sessionSigs = sigs,
               d_chain = ''ethereum''\<rparr>
        in bnd (call (DecryptToString (handle client) request)
                  (decryptToString_outcome env client request)) (\<lambda>decryptedString.
           bnd (path_of (DecryptEnv.outputPath parsed)) (\<lambda>outPath.
           bnd (fs_writeFile env outPath decryptedString) (\<lambda>u.
           ret (succeeded (''Decrypted '' @ inPath @ '' to '' @ outPath)))))))))))))))"

definition decrypt_env_handler_js :: "env \<Rightarrow> LitActionProviderConfig \<Rightarrow> json \<Rightarrow> json io" where
  "decrypt_env_handler_js env config input =
     try_catch (decrypt_env_try_js env config input)
       (\<lambda>error.
          ret (failed (''Decryption failed: '' @ message_or_unknown error @ ''. ''
                       @ ''Make sure you have permission to decrypt this file.'')))"

definition erc20_transfer_try_js :: "env \<Rightarrow> LitActionProviderConfig \<Rightarrow> json \<Rightarrow> json io" where
  "erc20_transfer_try_js env config input =
       bnd (settle (LitErc20TransferSchema_parse env input)) (\<lambda>parsed.
       bnd (getLitClient_js env config) (\<lambda>client.
       bnd (getSessionSigs_js env config) (\<lambda>sigs.
       (let network = or_network (litNetwork config) Datil_dev;
            ipfsCid = erc20Transfer (IPFS_CIDS network);
            policy = erc20_policy parsed
        in bnd (settle (ERC20TransferPolicy_encode env policy)) (\<lambda>encodedPolicy.
           bnd (client_executeJs env client
                  \<lparr>sessionSigs = sigs, code = None, ipfsId = Some ipfsCid,
                   jsParams =
                     VObj [(''params'',
                            VObj [(''pkpEthAddress'', VStr (LitErc20Transfer.pkpEthAddress parsed)),
                                  (''tokenIn'', VStr (tokenAddress parsed)),
                                  (''recipientAddress'', VStr (recipientAddress parsed)),
                                  (''amountIn'', VStr (amount parsed)),
                                  (''chainId'', VStr (LitErc20Transfer.chainId parsed)),
                                  (''rpcUrl'', VStr (LitErc20Transfer.rpcUrl parsed)),
                                  (''encodedPolicy'', VAbi encodedPolicy)])]\<rparr>) (\<lambda>res.
           bnd (settle (response_or_self res)) (\<lambda>v.
           ret (succeeded (JSON_stringify env v)))))))))"

definition erc20_transfer_handler_js :: "env \<Rightarrow> LitActionProviderConfig \<Rightarrow> json \<Rightarrow> json io" where
  "erc20_transfer_handler_js env config input =
     try_catch (erc20_transfer_try_js env config input)
       (\<lambda>error. ret (failed (''ERC20 transfer failed: '' @ message_or_unknown error)))"

definition ecdsa_sign_try_js :: "env \<Rightarrow> LitActionProviderConfig \<Rightarrow> json \<Rightarrow> json io" where
  "ecdsa_sign_try_js env config input =
       bnd (settle (LitEcdsaSignSchema_parse input)) (\<lambda>parsed.
       bnd (getLitClient_js env config) (\<lambda>client.
       bnd (getSessionSigs_js env config) (\<lambda>sigs.
       (let network = or_network (litNetwork config) Datil_dev;
            ipfsCid = ecdsaSign (IPFS_CIDS network);
            policy = ecdsa_policy parsed
        in bnd (settle (SignEcdsaPolicy_encode policy)) (\<lambda>encodedPolicy.
           bnd (client_executeJs env client
                  \<lparr>sessionSigs = sigs, code = None, ipfsId = Some ipfsCid,
                   jsParams =
                     VObj [(''params'',
                            VObj [(''pkpEthAddress'', VStr (LitEcdsaSign.pkpEthAddress parsed)),
                                  (''message'', VStr (message parsed)),
                                  (''encodedPolicy'', VAbi encodedPolicy)])]\<rparr>) (\<lambda>res.
           bnd (settle (response_or_self res)) (\<lambda>v.
           ret (succeeded (JSON_stringify env v)))))))))"

definition ecdsa_sign_handler_js :: "env \<Rightarrow> LitActionProviderConfig \<Rightarrow> json \<Rightarrow> json io" where
  "ecdsa_sign_handler_js env config input =
     try_catch (ecdsa_sign_try_js env config input)
       (\<lambda>error. ret (failed (''ECDSA sign failed: '' @ message_or_unknown error)))"

definition uniswap_swap_try_js :: "env \<Rightarrow> LitActionProviderConfig \<Rightarrow> json \<Rightarrow> json io" where
  "uniswap_swap_try_js env config input =
       bnd (settle (LitUniswapSwapSchema_parse env input)) (\<lambda>parsed.
       bnd (getLitClient_js env config) (\<lambda>client.
       bnd (getSessionSigs_js env config) (\<lambda>sigs.
       (let network = or_network (litNetwork config) Datil_dev;
            ipfsCid = uniswapSwap (IPFS_CIDS network);
            policy = uniswap_policy parsed
        in bnd (settle (UniswapSwapPolicy_encode env policy)) (\<lambda>encodedPolicy.
           bnd (client_executeJs env client
                  \<lparr>sessionSigs = sigs, code = None, ipfsId = Some ipfsCid,
                   jsParams =
                     VObj [(''params'',
                            VObj [(''pkpEthAddress'', VStr (LitUniswapSwap.pkpEthAddress parsed)),
                                  (''tokenIn'', VStr (tokenIn parsed)),
                                  (''tokenOut'', VStr (tokenOut parsed)),
                                  (''amountIn'', VStr (amountIn parsed)),
                                  (''chainId'', VStr (LitUniswapSwap.chainId parsed)),
                                  (''rpcUrl'', VStr (LitUniswapSwap.rpcUrl parsed)),
                                  (''encodedPolicy'', VAbi encodedPolicy)])]\<rparr>) (\<lambda>res.
           bnd (settle (response_or_self res)) (\<lambda>v.
           ret (succeeded (JSON_stringify env v)))))))))"

definition uniswap_swap_handler_js :: "env \<Rightarrow> LitActionProviderConfig \<Rightarrow> json \<Rightarrow> json io" where
  "uniswap_swap_handler_js env config input =
     try_catch (uniswap_swap_try_js env config input)
       (\<lambda>error. ret (failed (''Uniswap swap failed: '' @ message_or_unknown error)))"

text \<open>The actions of the JavaScript provider, by identifier, each on an arbitrary input.\<close>

datatype action = Hello | Encrypt_env | Decrypt_env | Erc20_transfer | Ecdsa_sign | Uniswap_swap

fun litActionProvider_js :: "env \<Rightarrow> LitActionProviderConfig \<Rightarrow> action \<Rightarrow> json \<Rightarrow> json io" where
  "litActionProvider_js env config Hello = hello_handler_js env (finalConfig config)"
| "litActionProvider_js env config Encrypt_env = encrypt_env_handler_js env (finalConfig config)"
| "litActionProvider_js env config Decrypt_env = decrypt_env_handler_js env (finalConfig config)"
| "litActionProvider_js env config Erc20_transfer = erc20_transfer_handler_js env (finalConfig config)"
| "litActionProvider_js env config Ecdsa_sign = ecdsa_sign_handler_js env (finalConfig config)"
| "litActionProvider_js env config Uniswap_swap = uniswap_swap_handler_js env (finalConfig config)"

section \<open>The class-based provider\<close>

text \<open>
  \<open>class LitActionProvider\<close> keeps the client in the field \<open>this.litNodeClient\<close> and the
  configuration in \<open>this.config\<close>, which its constructor fills as \<open>finalConfig\<close> does. Its
  private \<open>getLitClient\<close> and \<open>getSessionSigs\<close> have the bodies of the functions above. Its
  actions are methods that return a string and have no \<open>try\<close>.
\<close>

definition LitActionProvider_hello :: "env \<Rightarrow> LitActionProviderConfig \<Rightarrow> HelloLit \<Rightarrow> string io" where
  "LitActionProvider_hello env config args =
     bnd (getLitClient env (finalConfig config)) (\<lambda>client.
     bnd (getSessionSigs env (finalConfig config)) (\<lambda>sigs.
     bnd (client_executeJs env client
            \<lparr>sessionSigs = sigs, code = Some HELLO_LIT_CODE, ipfsId = None,
             jsParams = VObj [(''magicNumber'', VNum (or_number (magicNumber args) (Num 42)))]\<rparr>) (\<lambda>res.
     bnd (settle (response_or_self res)) (\<lambda>v.
     ret (JSON_stringify env v)))))"

section \<open>Observations on a run\<close>

text \<open>
  The uniform envelope, read off a returned value: an object with a boolean \<open>success\<close>, a
  string \<open>result\<close> and no \<open>error\<close> when it is true, a string \<open>error\<close> and no \<open>result\<close>
  when it is false.
\<close>

definition is_string :: "json option \<Rightarrow> bool" where
  "is_string v = (case v of Some (JStr s) \<Rightarrow> True | _ \<Rightarrow> False)"

definition uniform_envelope :: "json \<Rightarrow> bool" where
  "uniform_envelope v =
     (case property v ''success'' of
        Some (JBool b) \<Rightarrow>
          if b then is_string (property v ''result'') \<and> property v ''error'' = None
          else is_string (property v ''error'') \<and> property v ''result'' = None
      | _ \<Rightarrow> False)"

text \<open>The \<open>try\<close> block of each handler and the message its \<open>catch\<close> block builds.\<close>

fun try_block :: "env \<Rightarrow> LitActionProviderConfig \<Rightarrow> action_input \<Rightarrow> json io" where
  "try_block env config (Lit_hello i) = hello_try env config i"
| "try_block env config (Lit_encrypt_env i) = encrypt_env_try env config i"
| "try_block env config (Lit_decrypt_env i) = decrypt_env_try env config i"
| "try_block env config (Lit_erc20_transfer i) = erc20_transfer_try env config i"
| "try_block env config (Lit_ecdsa_sign i) = ecdsa_sign_try env config i"
| "try_block env config (Lit_uniswap_swap i) = uniswap_swap_try env config i"

fun try_block_js :: "env \<Rightarrow> LitActionProviderConfig \<Rightarrow> action \<Rightarrow> json \<Rightarrow> json io" where
  "try_block_js env config Hello = hello_try_js env config"
| "try_block_js env config Encrypt_env = encrypt_env_try_js env config"
| "try_block_js env config Decrypt_env = decrypt_env_try_js env config"
| "try_block_js env config Erc20_transfer = erc20_transfer_try_js env config"
| "try_block_js env config Ecdsa_sign = ecdsa_sign_try_js env config"
| "try_block_js env config Uniswap_swap = uniswap_swap_try_js env config"

fun catch_message :: "action \<Rightarrow> js_error \<Rightarrow> string" where
  "catch_message Hello e = ''Lit Protocol hello failed: '' @ message_or_unknown e"
| "catch_message Encrypt_env e = ''Encryption failed: '' @ message_or_unknown e"
| "catch_message Decrypt_env e =
     ''Decryption failed: '' @ message_or_unknown e @ ''. ''
     @ ''Make sure you have permission to decrypt this file.''"
| "catch_message Erc20_transfer e = ''ERC20 transfer failed: '' @ message_or_unknown e"
| "catch_message Ecdsa_sign e = ''ECDSA sign failed: '' @ message_or_unknown e"
| "catch_message Uniswap_swap e = ''Uniswap swap failed: '' @ message_or_unknown e"

fun action_of :: "action_input \<Rightarrow> action" where
  "action_of (Lit_hello i) = Hello"
| "action_of (Lit_encrypt_env i) = Encrypt_env"
| "action_of (Lit_decrypt_env i) = Decrypt_env"
| "action_of (Lit_erc20_transfer i) = Erc20_transfer"
| "action_of (Lit_ecdsa_sign i) = Ecdsa_sign"
| "action_of (Lit_uniswap_swap i) = Uniswap_swap"

text \<open>Running handler invocations one after the other on the shared state.\<close>

fun run :: "(env \<times> LitActionProviderConfig \<times> action_input) list \<Rightarrow> world \<Rightarrow> world" where
  "run [] w = w"
| "run ((env, config, a) # calls) w = run calls (snd (litActionProvider env config a w))"

fun run_js :: "(env \<times> LitActionProviderConfig \<times> action \<times> json) list \<Rightarrow> world \<Rightarrow> world" where
  "run_js [] w = w"
| "run_js ((env, config, a, input) # calls) w = run_js calls (snd (litActionProvider_js env config a input w))"

fun constructs_or_connects :: "event \<Rightarrow> bool" where
  "constructs_or_connects (New_LitNodeClient n d) = True"
| "constructs_or_connects (Client_connect h) = True"
| "constructs_or_connects ev = False"

text \<open>The client \<open>getLitClient\<close> constructs when the slot is empty.\<close>

definition client_for :: "LitActionProviderConfig \<Rightarrow> world \<Rightarrow> LitNodeClient" where
  "client_for config w =
     \<lparr>handle = count_clients (trace w),
      client_litNetwork = or_network (litNetwork config) Datil_dev,
      client_debug = or_bool (debug config) False\<rparr>"

text \<open>Events of one kind, and what they carry.\<close>

fun writes_file :: "event \<Rightarrow> bool" where
  "writes_file (Fs_writeFile p d) = True"
| "writes_file ev = False"


fun executes_with :: "(exec_request \<Rightarrow> bool) \<Rightarrow> event \<Rightarrow> bool" where
  "executes_with P (Client_executeJs h request) = P request"
| "executes_with P ev = True"


fun executes :: "event \<Rightarrow> bool" where
  "executes (Client_executeJs h request) = True"
| "executes ev = False"

definition sends_magic :: "js_value \<Rightarrow> exec_request \<Rightarrow> bool" where
  "sends_magic v request = (jsParams request = VObj [(''magicNumber'', v)])"

text \<open>
  The policy an \<open>executeJs\<close> request of the transfer action carries: one token, one
  recipient, the amount in units of \<open>10^-18\<close>, eighteen decimals.
\<close>

definition transfer_request :: "LitErc20Transfer \<Rightarrow> nat \<Rightarrow> nat \<Rightarrow> nat \<Rightarrow> exec_request \<Rightarrow> bool" where
  "transfer_request input units token recipient request =
     (jsParams request =
        VObj [(''params'',
               VObj [(''pkpEthAddress'', VStr (LitErc20Transfer.pkpEthAddress input)),
                     (''tokenIn'', VStr (tokenAddress input)),
                     (''recipientAddress'', VStr (recipientAddress input)),
                     (''amountIn'', VStr (amount input)),
                     (''chainId'', VStr (LitErc20Transfer.chainId input)),
                     (''rpcUrl'', VStr (LitErc20Transfer.rpcUrl input)),
                     (''encodedPolicy'',
                        VAbi (Tuple [Tuple [Uint 8 18, Uint 256 units,
                                            Array [Address token], Array [Address recipient]]]))])])"

definition carries_transfer_policy :: "env \<Rightarrow> LitErc20Transfer \<Rightarrow> exec_request \<Rightarrow> bool" where
  "carries_transfer_policy env input request =
     (case (parseUnits (amount input) (Num 18),
            abi_address env (tokenAddress input),
            abi_address env (recipientAddress input)) of
        (Inr units, Inr (Address token), Inr (Address recipient)) \<Rightarrow>
          0 \<le> units \<and> transfer_request input (nat units) token recipient request
      | _ \<Rightarrow> False)"

text \<open>
  A decimal string from its digits before and after the point, and its value scaled by
  \<open>10^d\<close> when it has at most \<open>d\<close> fractional digits.
\<close>

definition decimal_text :: "string \<Rightarrow> string \<Rightarrow> string" where
  "decimal_text ip fp = (if fp = [] then ip else ip @ CHR ''.'' # fp)"

definition scaled :: "string \<Rightarrow> string \<Rightarrow> nat \<Rightarrow> nat" where
  "scaled ip fp d = nat_of_digits ip * 10 ^ d + nat_of_digits fp * 10 ^ (d - length fp)"

text \<open>
  The conditions under which \<open>LitErc20TransferSchema\<close> is said to accept, written out
  key by key.
\<close>

definition string_matching :: "(string \<times> json) list \<Rightarrow> string \<Rightarrow> (string \<Rightarrow> bool) \<Rightarrow> bool" where
  "string_matching kvs k P = (case map_of kvs k of Some (JStr s) \<Rightarrow> P s | _ \<Rightarrow> False)"

definition erc20_transfer_input_ok :: "env \<Rightarrow> json \<Rightarrow> bool" where
  "erc20_transfer_input_ok env input =
     (case input of
        JObj kvs \<Rightarrow>
          string_matching kvs ''pkpEthAddress'' (rx_test rx_ethereum_address)
          \<and> string_matching kvs ''tokenAddress'' (rx_test rx_ethereum_address)
          \<and> string_matching kvs ''recipientAddress'' (rx_test rx_ethereum_address)
          \<and> string_matching kvs ''amount'' (rx_test rx_decimal)
          \<and> string_matching kvs ''chainId'' (rx_test rx_chain_id)
          \<and> string_matching kvs ''rpcUrl'' (url_valid env)
          \<and> set (map fst kvs)
              \<subseteq> {''pkpEthAddress'', ''tokenAddress'', ''recipientAddress'', ''amount'', ''chainId'', ''rpcUrl''}
      | _ \<Rightarrow> False)"

section \<open>A test environment\<close>

text \<open>
  The environment of the repository's tests: every call succeeds, the wallet is
  \<open>0x1234567890123456789012345678901234567890\<close>, \<open>encryptString\<close> answers
  \<open>encrypted\<close> and \<open>hash\<close>. \<open>JSON.stringify\<close> is only needed on a plain string there.
\<close>

definition quote :: "json \<Rightarrow> string" where
  "quote v = (case v of JStr s \<Rightarrow> CHR 0x22 # s @ [CHR 0x22] | _ \<Rightarrow> ''{}'')"

definition mock_env :: env where
  "mock_env =
     \<lparr>url_valid = (\<lambda>s. take 8 s = ''https://''),
      checksum_ok = (\<lambda>s. False),
      Number_other = (\<lambda>s. NaN),
      getAddress_other = (\<lambda>s. Inl (Error ''invalid address'')),
      String_of = (\<lambda>v. ''[object Object]''),
      JSON_stringify = quote,
      JSON_stringify_indented = quote,
      JSON_parse = (\<lambda>s. Inr JNull),
      now_iso = ''2025-01-01T00:00:00.000Z'',
      expiry_iso = ''2025-01-01T00:10:00.000Z'',
      connect_outcome = (\<lambda>c. None),
      getAddress_outcome = Inr ''0x1234567890123456789012345678901234567890'',
      getNetwork_outcome = None,
      getSessionSigs_outcome = (\<lambda>c r. Inr (JObj [])),
      executeJs_outcome = (\<lambda>c r. Inr (JObj [(''response'', JStr ''success'')])),
      encryptString_outcome = (\<lambda>c a s. Inr (''encrypted'', ''hash'')),
      decryptToString_outcome = (\<lambda>c r. Inr ''SECRET=value''),
      readFile_fault = (\<lambda>p. None),
      writeFile_fault = (\<lambda>p. None)\<rparr>"

definition refusing_env :: env where
  "refusing_env = mock_env\<lparr>connect_outcome := (\<lambda>c. Some (Error ''connect ECONNREFUSED''))\<rparr>"

definition fresh :: world where
  "fresh = \<lparr>litNodeClient = None, files = Map.empty, trace = []\<rparr>"

definition with_env_file :: "string \<Rightarrow> world" where
  "with_env_file content = \<lparr>litNodeClient = None, files = [''.env'' \<mapsto> content], trace = []\<rparr>"

definition no_config :: LitActionProviderConfig where
  "no_config = \<lparr>litNetwork = None, debug = None\<rparr>"

definition sample_address :: string where
  "sample_address = ''0x1234567890123456789012345678901234567890''"

definition sample_transfer :: LitErc20Transfer where
  "sample_transfer =
     \<lparr>LitErc20Transfer.pkpEthAddress = sample_address,
      tokenAddress = ''0x00000000000000000000000000000000000000aa'',
      recipientAddress = ''0x00000000000000000000000000000000000000bb'',
      amount = ''1.5'',
      LitErc20Transfer.chainId = ''8453'',
      LitErc20Transfer.rpcUrl = ''https://mainnet.base.org''\<rparr>"

definition sample_swap_input :: json where
  "sample_swap_input =
     JObj [(''pkpEthAddress'', JStr sample_address),
           (''tokenIn'', JStr ''0x00000000000000000000000000000000000000aa''),
           (''tokenOut'', JStr ''0x00000000000000000000000000000000000000bb''),
           (''amountIn'', JStr ''1.5''),
           (''chainId'', JStr ''8453''),
           (''rpcUrl'', JStr ''https://mainnet.base.org'')]"

definition sample_swap :: LitUniswapSwap where
  "sample_swap =
     \<lparr>LitUniswapSwap.pkpEthAddress = sample_address,
      tokenIn = ''0x00000000000000000000000000000000000000aa'',
      tokenOut = ''0x00000000000000000000000000000000000000bb'',
      amountIn = ''1.5'',
      LitUniswapSwap.chainId = ''8453'',
      LitUniswapSwap.rpcUrl = ''https://mainnet.base.org''\<rparr>"

definition sample_transfer_input :: json where
  "sample_transfer_input =
     JObj [(''pkpEthAddress'', JStr sample_address),
           (''tokenAddress'', JStr ''0x00000000000000000000000000000000000000aa''),
           (''recipientAddress'', JStr ''0x00000000000000000000000000000000000000bb''),
           (''amount'', JStr ''1.5''),
           (''chainId'', JStr ''8453''),
           (''rpcUrl'', JStr ''https://mainnet.base.org'')]"

definition sample_policy :: ERC20TransferPolicyType where
  "sample_policy =
     \<lparr>ERC20TransferPolicyType.type = ''ERC20Transfer'',
      ERC20TransferPolicyType.version = ''1.0.0'',
      erc20Decimals = ''18'',
      ERC20TransferPolicyType.maxAmount = ''1.5'',
      ERC20TransferPolicyType.allowedTokens = [''0x00000000000000000000000000000000000000aa''],
      allowedRecipients = [''0x00000000000000000000000000000000000000bb'']\<rparr>"

text \<open>A policy whose amount, \<open>10^60\<close> tokens of eighteen decimals, does not fit \<open>uint256\<close>.\<close>

definition oversized_policy :: ERC20TransferPolicyType where
  "oversized_policy =
     \<lparr>ERC20TransferPolicyType.type = ''ERC20Transfer'',
      ERC20TransferPolicyType.version = ''1.0.0'',
      erc20Decimals = ''18'',
      ERC20TransferPolicyType.maxAmount = CHR ''1'' # replicate 60 CHR ''0'',
      ERC20TransferPolicyType.allowedTokens = [],
      allowedRecipients = []\<rparr>"

section \<open>Reasoning about computations\<close>

text \<open>
  \<open>returns P m\<close>: whatever \<open>m\<close> returns satisfies \<open>P\<close>. \<open>emits S Q m\<close>: run from a state
  whose client slot is in \<open>S\<close>, \<open>m\<close> ends with the slot in \<open>S\<close> and only appends events that
  satisfy \<open>Q\<close> to the trace.
\<close>

definition returns :: "('a \<Rightarrow> bool) \<Rightarrow> 'a io \<Rightarrow> bool" where
  "returns P m = (\<forall>w r w'. m w = (Inr r, w') \<longrightarrow> P r)"

definition emits :: "(LitNodeClient option \<Rightarrow> bool) \<Rightarrow> (event \<Rightarrow> bool) \<Rightarrow> 'a io \<Rightarrow> bool" where
  "emits S Q m =
     (\<forall>w r w'. S (litNodeClient w) \<longrightarrow> m w = (r, w') \<longrightarrow>
        S (litNodeClient w') \<and> (\<exists>evs. trace w' = trace w @ evs \<and> list_all Q evs))"

definition anywhere :: "LitNodeClient option \<Rightarrow> bool" where
  "anywhere s = True"

definition holding :: "LitNodeClient \<Rightarrow> LitNodeClient option \<Rightarrow> bool" where
  "holding c s = (s = Some c)"

text \<open>Constructing and connecting a client, and logging, satisfy \<open>Q\<close>.\<close>

definition benign :: "(event \<Rightarrow> bool) \<Rightarrow> bool" where
  "benign Q = ((\<forall>n d. Q (New_LitNodeClient n d)) \<and> (\<forall>h. Q (Client_connect h)) \<and> Q Console_error)"

text \<open>Every other event satisfies \<open>Q\<close>.\<close>

definition ordinary :: "(event \<Rightarrow> bool) \<Rightarrow> bool" where
  "ordinary Q = (\<forall>ev. \<not> constructs_or_connects ev \<longrightarrow> Q ev)"

text \<open>Every event that is neither \<open>executeJs\<close> nor a write nor of the client slot satisfies \<open>Q\<close>.\<close>

definition incidental :: "(event \<Rightarrow> bool) \<Rightarrow> bool" where
  "incidental Q = (\<forall>ev. \<not> constructs_or_connects ev \<longrightarrow> \<not> executes ev \<longrightarrow> \<not> writes_file ev \<longrightarrow> Q ev)"

definition is_envelope :: "json \<Rightarrow> bool" where
  "is_envelope v = (\<exists>s. v = succeeded s \<or> v = failed s)"

section \<open>The languages of the patterns\<close>

text \<open>
  What the matcher decides, pattern by pattern: a chain id is a non-empty string of
  digits, a decimal is digits, an optional point and at least one digit, an address is
  \<open>0x\<close> and forty hexadecimal digits.
\<close>

lemma rx_test_Nul: "rx_test Nul w = False"
  by (induction w) simp_all

lemma rx_test_Eps: "rx_test Eps w \<longleftrightarrow> w = []"
  by (cases w) (simp_all add: rx_test_Nul)

lemma rx_test_Lit: "rx_test (Lit c) w \<longleftrightarrow> w = [c]"
  by (cases w) (auto simp: rx_test_Nul rx_test_Eps)

lemma rx_test_Range: "rx_test (Range lo hi) w \<longleftrightarrow> (\<exists>c. w = [c] \<and> in_range lo hi c)"
  by (cases w) (auto simp: rx_test_Nul rx_test_Eps)

lemma rx_test_Alt: "rx_test (Alt r s) w \<longleftrightarrow> rx_test r w \<or> rx_test s w"
  by (induction w arbitrary: r s) simp_all

lemma rx_test_Cat: "rx_test (Cat r s) w \<longleftrightarrow> (\<exists>u v. w = u @ v \<and> rx_test r u \<and> rx_test s v)"
proof (induction w arbitrary: r s)
  case Nil
  show ?case by simp
next
  case (Cons c cs)
  have split: "(\<exists>u v. c # cs = u @ v \<and> rx_test r u \<and> rx_test s v)
     \<longleftrightarrow> (nullable r \<and> rx_test (deriv c s) cs) \<or> (\<exists>u v. cs = u @ v \<and> rx_test (deriv c r) u \<and> rx_test s v)"
    (is "?L \<longleftrightarrow> ?R")
  proof
    assume ?L
    then obtain u v where uv: "c # cs = u @ v" "rx_test r u" "rx_test s v" by blast
    show ?R
    proof (cases u)
      case Nil
      with uv show ?thesis by auto
    next
      case (Cons a u')
      with uv have "cs = u' @ v" "rx_test (deriv c r) u'" by auto
      with uv(3) show ?thesis by blast
    qed
  next
    assume ?R
    then show ?L
    proof
      assume "nullable r \<and> rx_test (deriv c s) cs"
      then have "c # cs = [] @ (c # cs)" "rx_test r []" "rx_test s (c # cs)" by auto
      then show ?L by blast
    next
      assume "\<exists>u v. cs = u @ v \<and> rx_test (deriv c r) u \<and> rx_test s v"
      then obtain u v where "cs = u @ v" "rx_test (deriv c r) u" "rx_test s v" by blast
      then have "c # cs = (c # u) @ v" "rx_test r (c # u)" "rx_test s v" by auto
      then show ?L by blast
    qed
  qed
  show ?case
    by (auto simp: rx_test_Alt Cons.IH split)
qed

lemma one_then:
  "(\<exists>u v. w = u @ v \<and> (\<exists>c. u = [c] \<and> P c) \<and> Q v) \<longleftrightarrow> (\<exists>c v. w = c # v \<and> P c \<and> Q v)"
proof
  assume "\<exists>c v. w = c # v \<and> P c \<and> Q v"
  then obtain c v where "w = [c] @ v" "P c" "Q v" by auto
  then show "\<exists>u v. w = u @ v \<and> (\<exists>c. u = [c] \<and> P c) \<and> Q v" by blast
qed auto

lemma rx_test_Opt: "rx_test (Opt r) w \<longleftrightarrow> rx_test r w \<or> w = []"
  by (simp add: Opt_def rx_test_Alt rx_test_Eps)

lemma rx_test_digit: "rx_test rx_digit w \<longleftrightarrow> (\<exists>c. w = [c] \<and> is_digit c)"
  by (simp add: rx_digit_def rx_test_Range is_digit_def)

lemma rx_test_digits: "rx_test (Star rx_digit) w \<longleftrightarrow> list_all is_digit w"
proof (induction w)
  case Nil
  show ?case by simp
next
  case (Cons c cs)
  then show ?case
    by (simp add: rx_digit_def is_digit_def rx_test_Cat rx_test_Eps rx_test_Nul)
qed

lemma rx_test_some_digits: "rx_test (Plus rx_digit) w \<longleftrightarrow> w \<noteq> [] \<and> list_all is_digit w"
  unfolding Plus_def rx_test_Cat rx_test_digit rx_test_digits one_then
  by (cases w) auto

lemma rx_test_chain_id: "rx_test rx_chain_id w \<longleftrightarrow> w \<noteq> [] \<and> list_all is_digit w"
  by (simp add: rx_chain_id_def rx_test_some_digits)

lemma rx_test_decimal:
  "rx_test rx_decimal w \<longleftrightarrow>
     (\<exists>ip fp. (w = ip @ fp \<or> w = ip @ ''.'' @ fp)
        \<and> list_all is_digit ip \<and> fp \<noteq> [] \<and> list_all is_digit fp)"
proof -
  have "rx_test rx_decimal w \<longleftrightarrow>
     (\<exists>ip p fp. w = ip @ p @ fp \<and> list_all is_digit ip \<and> (p = ''.'' \<or> p = [])
        \<and> fp \<noteq> [] \<and> list_all is_digit fp)"
    unfolding rx_decimal_def rx_test_Cat rx_test_Opt rx_test_Lit rx_test_digits rx_test_some_digits
    by blast
  also have "\<dots> \<longleftrightarrow> (\<exists>ip fp. (w = ip @ fp \<or> w = ip @ ''.'' @ fp)
        \<and> list_all is_digit ip \<and> fp \<noteq> [] \<and> list_all is_digit fp)"
    by (metis append_Nil)
  finally show ?thesis .
qed

lemma rx_test_hex:
  "rx_test rx_hex w \<longleftrightarrow>
     (\<exists>c. w = [c] \<and> (in_range CHR ''a'' CHR ''f'' c \<or> in_range CHR ''A'' CHR ''F'' c \<or> in_range CHR ''0'' CHR ''9'' c))"
  by (auto simp: rx_hex_def rx_test_Alt rx_test_Range)

lemma rx_test_Times_hex:
  "rx_test (Times n rx_hex) w \<longleftrightarrow>
     length w = n
     \<and> list_all (\<lambda>c. in_range CHR ''a'' CHR ''f'' c \<or> in_range CHR ''A'' CHR ''F'' c \<or> in_range CHR ''0'' CHR ''9'' c) w"
proof (induction n arbitrary: w)
  case 0
  show ?case by (auto simp: rx_test_Eps)
next
  case (Suc n)
  show ?case
    unfolding Times.simps rx_test_Cat rx_test_hex Suc.IH one_then
    by (cases w) auto
qed

lemma rx_test_ethereum_address:
  "rx_test rx_ethereum_address w \<longleftrightarrow>
     (\<exists>h. w = ''0x'' @ h \<and> length h = 40
        \<and> list_all (\<lambda>c. in_range CHR ''a'' CHR ''f'' c \<or> in_range CHR ''A'' CHR ''F'' c \<or> in_range CHR ''0'' CHR ''9'' c) h)"
  unfolding rx_ethereum_address_def rx_test_Cat rx_test_Lit rx_test_Times_hex
  by (auto simp del: rx_test.simps)

section \<open>What a computation returns\<close>

lemma returns_ret: "P x \<Longrightarrow> returns P (ret x)"
  by (simp add: returns_def ret_def)

lemma returns_throw: "returns P (throw e)"
  by (simp add: returns_def throw_def)

lemma returns_bnd: "(\<And>x. returns P (f x)) \<Longrightarrow> returns P (bnd m f)"
  by (auto simp: returns_def bnd_def split: prod.splits sum.splits)

lemma returns_case_prod: "(\<And>a b. returns P (f a b)) \<Longrightarrow> returns P (case_prod f x)"
  by (cases x) simp

lemma is_envelope_simps: "is_envelope (succeeded s)" "is_envelope (failed s)"
  by (auto simp: is_envelope_def)

lemmas returns_intros = returns_ret returns_throw returns_bnd returns_case_prod is_envelope_simps

lemma hello_try_returns: "returns is_envelope (hello_try env config input)"
  unfolding hello_try_def by (intro returns_intros)

lemma encrypt_env_try_returns: "returns is_envelope (encrypt_env_try env config input)"
  unfolding encrypt_env_try_def Let_def by (auto intro!: returns_intros)

lemma decrypt_env_try_returns: "returns is_envelope (decrypt_env_try env config input)"
  unfolding decrypt_env_try_def Let_def by (intro returns_intros)

lemma erc20_transfer_try_returns: "returns is_envelope (erc20_transfer_try env config input)"
  unfolding erc20_transfer_try_def Let_def by (intro returns_intros)

lemma ecdsa_sign_try_returns: "returns is_envelope (ecdsa_sign_try env config input)"
  unfolding ecdsa_sign_try_def Let_def by (intro returns_intros)

lemma uniswap_swap_try_returns: "returns is_envelope (uniswap_swap_try env config input)"
  unfolding uniswap_swap_try_def Let_def by (intro returns_intros)

lemma hello_try_js_returns: "returns is_envelope (hello_try_js env config input)"
  unfolding hello_try_js_def by (intro returns_intros)

lemma encrypt_env_try_js_returns: "returns is_envelope (encrypt_env_try_js env config input)"
  unfolding encrypt_env_try_js_def Let_def by (auto intro!: returns_intros)

lemma decrypt_env_try_js_returns: "returns is_envelope (decrypt_env_try_js env config input)"
  unfolding decrypt_env_try_js_def Let_def by (intro returns_intros)

lemma erc20_transfer_try_js_returns: "returns is_envelope (erc20_transfer_try_js env config input)"
  unfolding erc20_transfer_try_js_def Let_def by (intro returns_intros)

lemma ecdsa_sign_try_js_returns: "returns is_envelope (ecdsa_sign_try_js env config input)"
  unfolding ecdsa_sign_try_js_def Let_def by (intro returns_intros)

lemma uniswap_swap_try_js_returns: "returns is_envelope (uniswap_swap_try_js env config input)"
  unfolding uniswap_swap_try_js_def Let_def by (intro returns_intros)

lemma try_block_returns: "returns is_envelope (try_block env config a)"
  by (cases a) (simp_all add: hello_try_returns encrypt_env_try_returns decrypt_env_try_returns
      erc20_transfer_try_returns ecdsa_sign_try_returns uniswap_swap_try_returns)

lemma try_block_js_returns: "returns is_envelope (try_block_js env config a input)"
  by (cases a) (simp_all add: hello_try_js_returns encrypt_env_try_js_returns decrypt_env_try_js_returns
      erc20_transfer_try_js_returns ecdsa_sign_try_js_returns uniswap_swap_try_js_returns)

text \<open>Every handler is its \<open>try\<close> block under its \<open>catch\<close> block.\<close>

lemma provider_as_try_catch:
  "litActionProvider env config a =
     try_catch (try_block env (finalConfig config) a) (\<lambda>error. ret (failed (catch_message (action_of a) error)))"
  by (cases a)
     (simp_all add: hello_handler_def encrypt_env_handler_def decrypt_env_handler_def
        erc20_transfer_handler_def ecdsa_sign_handler_def uniswap_swap_handler_def)

lemma provider_js_as_try_catch:
  "litActionProvider_js env config a input =
     try_catch (try_block_js env (finalConfig config) a input) (\<lambda>error. ret (failed (catch_message a error)))"
  by (cases a)
     (simp_all add: hello_handler_js_def encrypt_env_handler_js_def decrypt_env_handler_js_def
        erc20_transfer_handler_js_def ecdsa_sign_handler_js_def uniswap_swap_handler_js_def)

lemma try_catch_cases:
  "returns P m \<Longrightarrow>
   (\<exists>v w'. m w = (Inr v, w') \<and> P v \<and> try_catch m (\<lambda>e. ret (g e)) w = (Inr v, w'))
   \<or> (\<exists>e w'. m w = (Inl e, w') \<and> try_catch m (\<lambda>e. ret (g e)) w = (Inr (g e), w'))"
  by (cases "m w") (auto simp: try_catch_def ret_def returns_def split: sum.splits)

lemma uniform_envelope_simps: "uniform_envelope (succeeded s)" "uniform_envelope (failed s)"
  by (simp_all add: uniform_envelope_def succeeded_def failed_def property_def is_string_def)

lemma is_envelope_uniform: "is_envelope v \<Longrightarrow> uniform_envelope v"
  by (auto simp: is_envelope_def uniform_envelope_simps)

section \<open>Runs in the test environment\<close>

lemmas io_defs = bnd_def ret_def throw_def try_catch_def emit_def call_def settle_def outcome_of_def
  new_LitNodeClient_def set_litNodeClient_def client_connect_def client_executeJs_def
  fs_readFile_def fs_writeFile_def path_of_def

lemmas run_defs = io_defs getLitClient_def getSessionSigs_def getLitClient_js_def getSessionSigs_js_def
  finalConfig_def or_network_def or_bool_def or_string_def or_number_def string_truthy_def
  response_or_self_def member_def property_def and_then_def count_clients_def
  mock_env_def refusing_env_def fresh_def no_config_def with_env_file_def

lemma hello_try_refused:
  "hello_try refusing_env (finalConfig no_config) \<lparr>magicNumber = Some (Num 42)\<rparr> fresh
   = (Inl (Error ''connect ECONNREFUSED''),
      \<lparr>litNodeClient = Some \<lparr>handle = 0, client_litNetwork = Datil_dev, client_debug = False\<rparr>,
       files = Map.empty, trace = [New_LitNodeClient Datil_dev False, Client_connect 0]\<rparr>)"
  by (simp add: hello_try_def run_defs)

lemma hello_try_js_refused:
  "hello_try_js refusing_env (finalConfig no_config) (JObj []) fresh
   = (Inl (Error ''Lit Protocol connection failed: connect ECONNREFUSED''),
      \<lparr>litNodeClient = Some \<lparr>handle = 0, client_litNetwork = Datil_dev, client_debug = False\<rparr>,
       files = Map.empty, trace = [New_LitNodeClient Datil_dev False, Client_connect 0, Console_error]\<rparr>)"
  by (simp add: hello_try_js_def run_defs error_message_def)

section \<open>Errors and the envelope\<close>

text \<open>
  C1, read for every provider of the repository, fails on the class-based one:
  \<open>LitActionProvider.hello\<close> has no \<open>try\<close>, and when \<open>connect\<close> rejects, the rejection
  reaches the caller.
\<close>

theorem C1_class_hello_propagates:
  "fst (LitActionProvider_hello refusing_env no_config \<lparr>magicNumber = Some (Num 42)\<rparr> fresh)
     = Inl (Error ''connect ECONNREFUSED'')"
  by (simp add: LitActionProvider_hello_def run_defs)

text \<open>
  C1, amended: every handler in the \<open>actions\<close> of the function-based provider (the
  TypeScript file and the JavaScript one), on every input, in every environment and
  state, returns and never throws; and whenever its \<open>try\<close> block throws an error \<open>e\<close>,
  the handler returns, in the state the block left, the envelope with \<open>success\<close> false
  and the string \<open>error\<close> its \<open>catch\<close> block builds from \<open>e\<close>.
\<close>

theorem C1_errors_caught:
  "(\<exists>v w'. litActionProvider env config a w = (Inr v, w')
       \<and> (\<forall>e w1. try_block env (finalConfig config) a w = (Inl e, w1) \<longrightarrow>
             w' = w1 \<and> property v ''success'' = Some (JBool False)
             \<and> property v ''error'' = Some (JStr (catch_message (action_of a) e))))
   \<and> (\<exists>v w'. litActionProvider_js env config act input w = (Inr v, w')
       \<and> (\<forall>e w1. try_block_js env (finalConfig config) act input w = (Inl e, w1) \<longrightarrow>
             w' = w1 \<and> property v ''success'' = Some (JBool False)
             \<and> property v ''error'' = Some (JStr (catch_message act e))))"
proof
  have props: "\<And>m. property (failed m) ''success'' = Some (JBool False) \<and> property (failed m) ''error'' = Some (JStr m)"
    by (simp add: failed_def property_def)
  show "\<exists>v w'. litActionProvider env config a w = (Inr v, w')
       \<and> (\<forall>e w1. try_block env (finalConfig config) a w = (Inl e, w1) \<longrightarrow>
             w' = w1 \<and> property v ''success'' = Some (JBool False)
             \<and> property v ''error'' = Some (JStr (catch_message (action_of a) e)))"
    using try_catch_cases [OF try_block_returns, of env "finalConfig config" a w "\<lambda>e. failed (catch_message (action_of a) e)"]
    by (auto simp: provider_as_try_catch props)
  show "\<exists>v w'. litActionProvider_js env config act input w = (Inr v, w')
       \<and> (\<forall>e w1. try_block_js env (finalConfig config) act input w = (Inl e, w1) \<longrightarrow>
             w' = w1 \<and> property v ''success'' = Some (JBool False)
             \<and> property v ''error'' = Some (JStr (catch_message act e)))"
    using try_catch_cases [OF try_block_js_returns, of env "finalConfig config" act input w "\<lambda>e. failed (catch_message act e)"]
    by (auto simp: provider_js_as_try_catch props)
qed

theorem C1_errors_caught_witness:
  "(\<exists>v w'. litActionProvider refusing_env no_config (Lit_hello \<lparr>magicNumber = Some (Num 42)\<rparr>) fresh = (Inr v, w')
      \<and> trace w' = [New_LitNodeClient Datil_dev False, Client_connect 0]
      \<and> property v ''success'' = Some (JBool False)
      \<and> property v ''error'' = Some (JStr ''Lit Protocol hello failed: connect ECONNREFUSED''))
   \<and> (\<exists>v w'. litActionProvider_js refusing_env no_config Hello (JObj []) fresh = (Inr v, w')
      \<and> trace w' = [New_LitNodeClient Datil_dev False, Client_connect 0, Console_error]
      \<and> property v ''success'' = Some (JBool False)
      \<and> property v ''error''
          = Some (JStr ''Lit Protocol hello failed: Lit Protocol connection failed: connect ECONNREFUSED''))"
  using C1_errors_caught [of refusing_env no_config "Lit_hello \<lparr>magicNumber = Some (Num 42)\<rparr>" fresh Hello "JObj []"]
  by (auto simp: hello_try_refused hello_try_js_refused message_or_unknown_def)

text \<open>
  C3, read for every provider of the repository, fails on the class-based one:
  \<open>LitActionProvider.hello\<close> returns the bare string \<open>JSON.stringify(res.response || res)\<close>,
  not an envelope.
\<close>

theorem C3_class_hello_returns_string:
  "fst (LitActionProvider_hello mock_env no_config \<lparr>magicNumber = Some (Num 42)\<rparr> fresh)
     = Inr (CHR 0x22 # ''success'' @ [CHR 0x22])
   \<and> \<not> uniform_envelope (JStr (CHR 0x22 # ''success'' @ [CHR 0x22]))"
  by (simp add: LitActionProvider_hello_def run_defs quote_def uniform_envelope_def)

text \<open>
  C3, amended: every handler in the \<open>actions\<close> of the function-based provider (the
  TypeScript file and the JavaScript one), on every input and for every outcome of the
  SDK calls, returns a uniform envelope: a boolean \<open>success\<close>, with a string \<open>result\<close>
  and no \<open>error\<close> when it is true, and a string \<open>error\<close> and no \<open>result\<close> when it is false.
\<close>

theorem C3_uniform_envelope:
  "(\<exists>v w'. litActionProvider env config a w = (Inr v, w') \<and> uniform_envelope v)
   \<and> (\<exists>v w'. litActionProvider_js env config act input w = (Inr v, w') \<and> uniform_envelope v)"
proof
  show "\<exists>v w'. litActionProvider env config a w = (Inr v, w') \<and> uniform_envelope v"
    using try_catch_cases [OF try_block_returns, of env "finalConfig config" a w "\<lambda>e. failed (catch_message (action_of a) e)"]
    by (auto simp: provider_as_try_catch uniform_envelope_simps is_envelope_uniform)
  show "\<exists>v w'. litActionProvider_js env config act input w = (Inr v, w') \<and> uniform_envelope v"
    using try_catch_cases [OF try_block_js_returns, of env "finalConfig config" act input w "\<lambda>e. failed (catch_message act e)"]
    by (auto simp: provider_js_as_try_catch uniform_envelope_simps is_envelope_uniform)
qed

theorem C3_uniform_envelope_witness:
  "(\<exists>v w'. litActionProvider mock_env no_config (Lit_hello \<lparr>magicNumber = None\<rparr>) fresh = (Inr v, w')
      \<and> uniform_envelope v)
   \<and> (\<exists>v w'. litActionProvider_js mock_env no_config Encrypt_env JNull fresh = (Inr v, w')
      \<and> uniform_envelope v)"
  by (rule C3_uniform_envelope)

lemma emitsI:
  "(\<And>w r w'. S (litNodeClient w) \<Longrightarrow> m w = (r, w') \<Longrightarrow>
      S (litNodeClient w') \<and> (\<exists>evs. trace w' = trace w @ evs \<and> list_all Q evs)) \<Longrightarrow> emits S Q m"
  by (simp add: emits_def)

lemma emitsD:
  "emits S Q m \<Longrightarrow> S (litNodeClient w) \<Longrightarrow> m w = (r, w') \<Longrightarrow>
     S (litNodeClient w') \<and> (\<exists>evs. trace w' = trace w @ evs \<and> list_all Q evs)"
  by (simp add: emits_def)

lemma emits_ret: "emits S Q (ret x)"
  by (simp add: emits_def ret_def)

lemma emits_throw: "emits S Q (throw e)"
  by (simp add: emits_def throw_def)

lemma emits_settle: "emits S Q (settle r)"
  by (simp add: emits_def settle_def)

lemma emits_call: "Q ev \<Longrightarrow> emits S Q (call ev r)"
  by (auto simp: emits_def call_def)

lemma emits_emit: "Q ev \<Longrightarrow> emits S Q (emit ev)"
  by (auto simp: emits_def emit_def)

lemma emits_bnd_dep:
  assumes m: "emits S Q m"
    and f: "\<And>x w w'. S (litNodeClient w) \<Longrightarrow> m w = (Inr x, w') \<Longrightarrow> emits S Q (f x)"
  shows "emits S Q (bnd m f)"
proof (rule emitsI)
  fix w r w'
  assume S: "S (litNodeClient w)" and run: "bnd m f w = (r, w')"
  obtain r1 w1 where m1: "m w = (r1, w1)" by (cases "m w")
  from emitsD [OF m S m1] obtain evs1 where
    S1: "S (litNodeClient w1)" and t1: "trace w1 = trace w @ evs1" and q1: "list_all Q evs1" by blast
  show "S (litNodeClient w') \<and> (\<exists>evs. trace w' = trace w @ evs \<and> list_all Q evs)"
  proof (cases r1)
    case (Inl e)
    with run m1 have "w' = w1" by (simp add: bnd_def)
    with S1 t1 q1 show ?thesis by blast
  next
    case (Inr x)
    with run m1 have fx: "f x w1 = (r, w')" by (simp add: bnd_def)
    from Inr m1 have "m w = (Inr x, w1)" by simp
    from emitsD [OF f [OF S this] S1 fx] obtain evs2 where
      "S (litNodeClient w')" and "trace w' = trace w1 @ evs2" and "list_all Q evs2" by blast
    with t1 q1 show ?thesis by auto
  qed
qed

lemma emits_bnd: "emits S Q m \<Longrightarrow> (\<And>x. emits S Q (f x)) \<Longrightarrow> emits S Q (bnd m f)"
  by (rule emits_bnd_dep)

lemma emits_try_catch:
  assumes m: "emits S Q m" and h: "\<And>e. emits S Q (h e)"
  shows "emits S Q (try_catch m h)"
proof (rule emitsI)
  fix w r w'
  assume S: "S (litNodeClient w)" and run: "try_catch m h w = (r, w')"
  obtain r1 w1 where m1: "m w = (r1, w1)" by (cases "m w")
  from emitsD [OF m S m1] obtain evs1 where
    S1: "S (litNodeClient w1)" and t1: "trace w1 = trace w @ evs1" and q1: "list_all Q evs1" by blast
  show "S (litNodeClient w') \<and> (\<exists>evs. trace w' = trace w @ evs \<and> list_all Q evs)"
  proof (cases r1)
    case (Inr x)
    with run m1 have "w' = w1" by (simp add: try_catch_def)
    with S1 t1 q1 show ?thesis by blast
  next
    case (Inl e)
    with run m1 have he: "h e w1 = (r, w')" by (simp add: try_catch_def)
    from emitsD [OF h S1 he] obtain evs2 where
      "S (litNodeClient w')" and "trace w' = trace w1 @ evs2" and "list_all Q evs2" by blast
    with t1 q1 show ?thesis by auto
  qed
qed

lemma emits_case_prod: "(\<And>a b. emits S Q (f a b)) \<Longrightarrow> emits S Q (case_prod f x)"
  by (cases x) simp

lemma emits_readFile: "Q (Fs_readFile p) \<Longrightarrow> emits S Q (fs_readFile env p)"
  by (auto simp: emits_def fs_readFile_def Let_def split: option.splits)

lemma emits_writeFile: "Q (Fs_writeFile p d) \<Longrightarrow> emits S Q (fs_writeFile env p d)"
  by (auto simp: emits_def fs_writeFile_def Let_def split: option.splits)

lemma emits_path_of: "emits S Q (path_of p)"
  by (cases p) (simp_all add: path_of_def emits_throw emits_ret)

lemma emits_executeJs: "Q (Client_executeJs (handle c) request) \<Longrightarrow> emits S Q (client_executeJs env c request)"
  by (simp add: client_executeJs_def emits_call)

lemma emits_weaken: "emits S Q m \<Longrightarrow> (\<And>ev. Q ev \<Longrightarrow> Q' ev) \<Longrightarrow> emits S Q' m"
  by (fastforce simp: emits_def list_all_iff)

text \<open>The client slot\<close>

lemma getLitClient_holding: "emits (holding c) Q (getLitClient env config)"
  by (auto simp: emits_def holding_def getLitClient_def ret_def)

lemma getLitClient_js_holding: "emits (holding c) Q (getLitClient_js env config)"
  by (auto simp: emits_def holding_def getLitClient_js_def ret_def)

lemma getLitClient_fresh:
  "litNodeClient w = None \<Longrightarrow>
   getLitClient env config w =
     (case connect_outcome env (client_for config w) of None \<Rightarrow> Inr (client_for config w) | Some e \<Rightarrow> Inl e,
      w\<lparr>litNodeClient := Some (client_for config w),
        trace := trace w @ [New_LitNodeClient (client_litNetwork (client_for config w)) (client_debug (client_for config w)),
                            Client_connect (handle (client_for config w))]\<rparr>)"
  by (simp add: getLitClient_def io_defs client_for_def split: option.splits)

lemma getLitClient_held:
  "litNodeClient w = Some c \<Longrightarrow> getLitClient env config w = (Inr c, w)"
  by (simp add: getLitClient_def ret_def)

lemma getLitClient_anywhere:
  assumes "benign Q"
  shows "emits anywhere Q (getLitClient env config)"
proof (rule emitsI)
  fix w r w'
  assume run: "getLitClient env config w = (r, w')"
  show "anywhere (litNodeClient w') \<and> (\<exists>evs. trace w' = trace w @ evs \<and> list_all Q evs)"
  proof (cases "litNodeClient w")
    case None
    from run getLitClient_fresh [OF None, of env config] assms show ?thesis
      by (auto simp: anywhere_def benign_def)
  next
    case (Some c)
    from run getLitClient_held [OF Some, of env config] show ?thesis
      by (auto simp: anywhere_def)
  qed
qed

lemma getLitClient_js_held:
  "litNodeClient w = Some c \<Longrightarrow> getLitClient_js env config w = (Inr c, w)"
  by (simp add: getLitClient_js_def ret_def)

lemma getLitClient_js_fresh:
  "litNodeClient w = None \<Longrightarrow>
   getLitClient_js env config w =
     (case connect_outcome env (client_for config w) of
        None \<Rightarrow>
          (Inr (client_for config w),
           w\<lparr>litNodeClient := Some (client_for config w),
             trace := trace w @ [New_LitNodeClient (client_litNetwork (client_for config w)) (client_debug (client_for config w)),
                                 Client_connect (handle (client_for config w))]\<rparr>)
      | Some e \<Rightarrow>
          (case error_message env e of
             Inl e' \<Rightarrow> Inl e'
           | Inr m \<Rightarrow> Inl (Error (''Lit Protocol connection failed: '' @ m)),
           w\<lparr>litNodeClient := Some (client_for config w),
             trace := trace w @ [New_LitNodeClient (client_litNetwork (client_for config w)) (client_debug (client_for config w)),
                                 Client_connect (handle (client_for config w)), Console_error]\<rparr>))"
  by (simp add: getLitClient_js_def io_defs client_for_def split: option.splits sum.splits)

lemma getLitClient_js_anywhere:
  assumes "benign Q"
  shows "emits anywhere Q (getLitClient_js env config)"
proof (rule emitsI)
  fix w r w'
  assume run: "getLitClient_js env config w = (r, w')"
  show "anywhere (litNodeClient w') \<and> (\<exists>evs. trace w' = trace w @ evs \<and> list_all Q evs)"
  proof (cases "litNodeClient w")
    case None
    from run getLitClient_js_fresh [OF None, of env config] assms show ?thesis
      by (auto simp: anywhere_def benign_def split: option.splits)
  next
    case (Some c)
    from run getLitClient_js_held [OF Some, of env config] show ?thesis
      by (auto simp: anywhere_def)
  qed
qed


lemma emits_if: "emits S Q a \<Longrightarrow> emits S Q b \<Longrightarrow> emits S Q (if c then a else b)"
  by simp

lemma incidentalD:
  "incidental Q \<Longrightarrow> \<not> constructs_or_connects ev \<Longrightarrow> \<not> executes ev \<Longrightarrow> \<not> writes_file ev \<Longrightarrow> Q ev"
  by (simp add: incidental_def)

lemma ordinary_incidental: "ordinary Q \<Longrightarrow> incidental Q"
  by (simp add: ordinary_def incidental_def)

lemma ordinaryD: "ordinary Q \<Longrightarrow> \<not> constructs_or_connects ev \<Longrightarrow> Q ev"
  by (simp add: ordinary_def)

lemmas emits_intros = emits_bnd emits_ret emits_throw emits_settle emits_call emits_emit
  emits_case_prod emits_readFile emits_writeFile emits_path_of emits_executeJs emits_if

lemma getSessionSigs_emits:
  "emits S Q (getLitClient env config) \<Longrightarrow> incidental Q \<Longrightarrow> emits S Q (getSessionSigs env config)"
  unfolding getSessionSigs_def Let_def
  by (intro emits_intros) (simp_all add: incidentalD)

lemma getSessionSigs_js_emits:
  "emits S Q (getLitClient_js env config) \<Longrightarrow> incidental Q \<Longrightarrow> emits S Q (getSessionSigs_js env config)"
  unfolding getSessionSigs_js_def Let_def
  by (intro emits_intros) (simp_all add: incidentalD)

lemma hello_try_emits:
  assumes "emits S Q (getLitClient env config)" "incidental Q"
    and "\<And>h sigs. Q (Client_executeJs h
           \<lparr>sessionSigs = sigs, code = Some HELLO_LIT_CODE, ipfsId = None,
            jsParams = VObj [(''magicNumber'', VNum (or_number (magicNumber input) (Num 42)))]\<rparr>)"
  shows "emits S Q (hello_try env config input)"
  unfolding hello_try_def
  by (intro emits_intros getSessionSigs_emits assms)

lemmas emits_dep_intros = emits_bnd_dep emits_ret emits_throw emits_settle emits_call emits_emit
  emits_case_prod emits_readFile emits_writeFile emits_path_of emits_executeJs emits_if

lemma settle_returns: "settle r w = (Inr x, w') \<Longrightarrow> r = Inr x"
  by (simp add: settle_def)

lemma path_of_returns: "path_of p w = (Inr x, w') \<Longrightarrow> p = Some x"
  by (cases p) (simp_all add: path_of_def ret_def throw_def)

lemma hello_try_js_emits:
  assumes "emits S Q (getLitClient_js env config)" "incidental Q"
    and "\<And>h sigs magic. member input ''magicNumber'' = Inr magic \<Longrightarrow> Q (Client_executeJs h
           \<lparr>sessionSigs = sigs, code = Some HELLO_LIT_CODE, ipfsId = None,
            jsParams = VObj [(''magicNumber'', VJson (magic_or_42 magic))]\<rparr>)"
  shows "emits S Q (hello_try_js env config input)"
  unfolding hello_try_js_def
  by (intro emits_dep_intros getSessionSigs_js_emits assms(1,2)) (auto dest!: settle_returns intro: assms(3))

lemma encrypt_env_try_js_emits:
  assumes "emits S Q (getLitClient_js env config)" "incidental Q"
    and "\<And>parsed p d. EncryptEnvSchema_parse (or_empty_object input) = Inr parsed \<Longrightarrow>
            EncryptEnv.outputPath parsed = Some p \<Longrightarrow> Q (Fs_writeFile p d)"
  shows "emits S Q (encrypt_env_try_js env config input)"
  unfolding encrypt_env_try_js_def Let_def
  by (intro emits_dep_intros assms(1))
     (auto dest!: settle_returns path_of_returns intro: assms(3) simp: incidentalD [OF assms(2)])


lemma encrypt_env_try_emits:
  assumes "emits S Q (getLitClient env config)" "incidental Q"
    and "\<And>d. Q (Fs_writeFile (or_string (EncryptEnv.outputPath input) ''.env.encrypted'') d)"
  shows "emits S Q (encrypt_env_try env config input)"
  unfolding encrypt_env_try_def Let_def
  by (intro emits_intros assms) (simp_all add: incidentalD [OF assms(2)])

lemma decrypt_env_try_emits:
  assumes "emits S Q (getLitClient env config)" "ordinary Q"
  shows "emits S Q (decrypt_env_try env config input)"
  unfolding decrypt_env_try_def Let_def
  by (intro emits_intros getSessionSigs_emits assms(1) ordinary_incidental assms(2))
     (simp_all add: ordinaryD [OF assms(2)])

lemma decrypt_env_try_js_emits:
  assumes "emits S Q (getLitClient_js env config)" "ordinary Q"
  shows "emits S Q (decrypt_env_try_js env config input)"
  unfolding decrypt_env_try_js_def Let_def
  by (intro emits_intros getSessionSigs_js_emits assms(1) ordinary_incidental assms(2))
     (simp_all add: ordinaryD [OF assms(2)])

lemma erc20_transfer_try_emits:
  assumes "emits S Q (getLitClient env config)" "incidental Q"
    and "\<And>h sigs enc. ERC20TransferPolicy_encode env (erc20_policy input) = Inr enc \<Longrightarrow>
           Q (Client_executeJs h
             \<lparr>sessionSigs = sigs, code = None,
              ipfsId = Some (erc20Transfer (IPFS_CIDS (or_network (litNetwork config) Datil_dev))),
              jsParams =
                VObj [(''params'',
                       VObj [(''pkpEthAddress'', VStr (LitErc20Transfer.pkpEthAddress input)),
                             (''tokenIn'', VStr (tokenAddress input)),
                             (''recipientAddress'', VStr (recipientAddress input)),
                             (''amountIn'', VStr (amount input)),
                             (''chainId'', VStr (LitErc20Transfer.chainId input)),
                             (''rpcUrl'', VStr (LitErc20Transfer.rpcUrl input)),
                             (''encodedPolicy'', VAbi enc)])]\<rparr>)"
  shows "emits S Q (erc20_transfer_try env config input)"
  unfolding erc20_transfer_try_def Let_def
  by (intro emits_dep_intros getSessionSigs_emits assms(1,2)) (auto dest!: settle_returns intro: assms(3))

lemma erc20_transfer_try_js_emits:
  assumes "emits S Q (getLitClient_js env config)" "incidental Q"
    and "\<And>h sigs parsed enc. LitErc20TransferSchema_parse env input = Inr parsed \<Longrightarrow>
           ERC20TransferPolicy_encode env (erc20_policy parsed) = Inr enc \<Longrightarrow>
           Q (Client_executeJs h
             \<lparr>sessionSigs = sigs, code = None,
              ipfsId = Some (erc20Transfer (IPFS_CIDS (or_network (litNetwork config) Datil_dev))),
              jsParams =
                VObj [(''params'',
                       VObj [(''pkpEthAddress'', VStr (LitErc20Transfer.pkpEthAddress parsed)),
                             (''tokenIn'', VStr (tokenAddress parsed)),
                             (''recipientAddress'', VStr (recipientAddress parsed)),
                             (''amountIn'', VStr (amount parsed)),
                             (''chainId'', VStr (LitErc20Transfer.chainId parsed)),
                             (''rpcUrl'', VStr (LitErc20Transfer.rpcUrl parsed)),
                             (''encodedPolicy'', VAbi enc)])]\<rparr>)"
  shows "emits S Q (erc20_transfer_try_js env config input)"
  unfolding erc20_transfer_try_js_def Let_def
  by (intro emits_dep_intros getSessionSigs_js_emits assms(1,2)) (auto dest!: settle_returns intro: assms(3))

lemma ecdsa_sign_try_emits:
  assumes "emits S Q (getLitClient env config)" "ordinary Q"
  shows "emits S Q (ecdsa_sign_try env config input)"
  unfolding ecdsa_sign_try_def Let_def
  by (intro emits_intros getSessionSigs_emits assms(1) ordinary_incidental assms(2))
     (simp_all add: ordinaryD [OF assms(2)])

lemma ecdsa_sign_try_js_emits:
  assumes "emits S Q (getLitClient_js env config)" "ordinary Q"
  shows "emits S Q (ecdsa_sign_try_js env config input)"
  unfolding ecdsa_sign_try_js_def Let_def
  by (intro emits_intros getSessionSigs_js_emits assms(1) ordinary_incidental assms(2))
     (simp_all add: ordinaryD [OF assms(2)])

lemma uniswap_swap_try_emits:
  assumes "emits S Q (getLitClient env config)" "ordinary Q"
  shows "emits S Q (uniswap_swap_try env config input)"
  unfolding uniswap_swap_try_def Let_def
  by (intro emits_intros getSessionSigs_emits assms(1) ordinary_incidental assms(2))
     (simp_all add: ordinaryD [OF assms(2)])

lemma uniswap_swap_try_js_emits:
  assumes "emits S Q (getLitClient_js env config)" "ordinary Q"
  shows "emits S Q (uniswap_swap_try_js env config input)"
  unfolding uniswap_swap_try_js_def Let_def
  by (intro emits_intros getSessionSigs_js_emits assms(1) ordinary_incidental assms(2))
     (simp_all add: ordinaryD [OF assms(2)])

lemma try_block_emits:
  assumes "emits S Q (getLitClient env config)" "ordinary Q"
  shows "emits S Q (try_block env config a)"
proof (cases a)
  case (Lit_hello i)
  then show ?thesis
    by (simp add: hello_try_emits [OF assms(1) ordinary_incidental [OF assms(2)]] ordinaryD [OF assms(2)])
next
  case (Lit_encrypt_env i)
  then show ?thesis
    by (simp add: encrypt_env_try_emits [OF assms(1) ordinary_incidental [OF assms(2)]] ordinaryD [OF assms(2)])
next
  case (Lit_decrypt_env i)
  then show ?thesis by (simp add: decrypt_env_try_emits [OF assms])
next
  case (Lit_erc20_transfer i)
  then show ?thesis
    by (simp add: erc20_transfer_try_emits [OF assms(1) ordinary_incidental [OF assms(2)]] ordinaryD [OF assms(2)])
next
  case (Lit_ecdsa_sign i)
  then show ?thesis by (simp add: ecdsa_sign_try_emits [OF assms])
next
  case (Lit_uniswap_swap i)
  then show ?thesis by (simp add: uniswap_swap_try_emits [OF assms])
qed

lemma try_block_js_emits:
  assumes "emits S Q (getLitClient_js env config)" "ordinary Q"
  shows "emits S Q (try_block_js env config a input)"
proof (cases a)
  case Hello
  then show ?thesis
    by (simp add: hello_try_js_emits [OF assms(1) ordinary_incidental [OF assms(2)]] ordinaryD [OF assms(2)])
next
  case Encrypt_env
  then show ?thesis
    by (simp add: encrypt_env_try_js_emits [OF assms(1) ordinary_incidental [OF assms(2)]] ordinaryD [OF assms(2)])
next
  case Decrypt_env
  then show ?thesis by (simp add: decrypt_env_try_js_emits [OF assms])
next
  case Erc20_transfer
  then show ?thesis
    by (simp add: erc20_transfer_try_js_emits [OF assms(1) ordinary_incidental [OF assms(2)]] ordinaryD [OF assms(2)])
next
  case Ecdsa_sign
  then show ?thesis by (simp add: ecdsa_sign_try_js_emits [OF assms])
next
  case Uniswap_swap
  then show ?thesis by (simp add: uniswap_swap_try_js_emits [OF assms])
qed

lemma provider_emits:
  assumes "emits S Q (getLitClient env (finalConfig config))" "ordinary Q"
  shows "emits S Q (litActionProvider env config a)"
  unfolding provider_as_try_catch
  by (intro emits_try_catch emits_ret try_block_emits assms)

lemma provider_js_emits:
  assumes "emits S Q (getLitClient_js env (finalConfig config))" "ordinary Q"
  shows "emits S Q (litActionProvider_js env config a input)"
  unfolding provider_js_as_try_catch
  by (intro emits_try_catch emits_ret try_block_js_emits assms)

lemma ordinary_no_construct: "ordinary (\<lambda>ev. \<not> constructs_or_connects ev)"
  by (simp add: ordinary_def)

lemma run_holding:
  "litNodeClient w = Some c \<Longrightarrow>
   litNodeClient (run calls w) = Some c
   \<and> (\<exists>evs. trace (run calls w) = trace w @ evs \<and> list_all (\<lambda>ev. \<not> constructs_or_connects ev) evs)"
proof (induction calls arbitrary: w)
  case Nil
  then show ?case by simp
next
  case (Cons call calls)
  obtain env config a where call: "call = (env, config, a)" by (cases call)
  obtain r w1 where step: "litActionProvider env config a w = (r, w1)" by (cases "litActionProvider env config a w")
  have "emits (holding c) (\<lambda>ev. \<not> constructs_or_connects ev) (litActionProvider env config a)"
    by (intro provider_emits getLitClient_holding ordinary_no_construct)
  from emitsD [OF this _ step] Cons.prems obtain evs1 where
    w1: "litNodeClient w1 = Some c" "trace w1 = trace w @ evs1" "list_all (\<lambda>ev. \<not> constructs_or_connects ev) evs1"
    by (auto simp: holding_def)
  from Cons.IH [OF w1(1)] obtain evs2 where
    "litNodeClient (run calls w1) = Some c" "trace (run calls w1) = trace w1 @ evs2"
    "list_all (\<lambda>ev. \<not> constructs_or_connects ev) evs2" by blast
  with w1 call step show ?case by auto
qed

lemma run_js_holding:
  "litNodeClient w = Some c \<Longrightarrow>
   litNodeClient (run_js calls w) = Some c
   \<and> (\<exists>evs. trace (run_js calls w) = trace w @ evs \<and> list_all (\<lambda>ev. \<not> constructs_or_connects ev) evs)"
proof (induction calls arbitrary: w)
  case Nil
  then show ?case by simp
next
  case (Cons call calls)
  obtain env config a input where call: "call = (env, config, a, input)" by (cases call)
  obtain r w1 where step: "litActionProvider_js env config a input w = (r, w1)"
    by (cases "litActionProvider_js env config a input w")
  have "emits (holding c) (\<lambda>ev. \<not> constructs_or_connects ev) (litActionProvider_js env config a input)"
    by (intro provider_js_emits getLitClient_js_holding ordinary_no_construct)
  from emitsD [OF this _ step] Cons.prems obtain evs1 where
    w1: "litNodeClient w1 = Some c" "trace w1 = trace w @ evs1" "list_all (\<lambda>ev. \<not> constructs_or_connects ev) evs1"
    by (auto simp: holding_def)
  from Cons.IH [OF w1(1)] obtain evs2 where
    "litNodeClient (run_js calls w1) = Some c" "trace (run_js calls w1) = trace w1 @ evs2"
    "list_all (\<lambda>ev. \<not> constructs_or_connects ev) evs2" by blast
  with w1 call step show ?case by auto
qed


lemma emits_emitted: "emits anywhere Q m \<Longrightarrow> list_all Q (emitted m w)"
proof -
  assume e: "emits anywhere Q m"
  obtain r w' where run: "m w = (r, w')" by (cases "m w")
  from emitsD [OF e _ run] obtain evs where "trace w' = trace w @ evs" "list_all Q evs"
    by (auto simp: anywhere_def)
  with run show ?thesis by (simp add: emitted_def)
qed

text \<open>
  C4: the shared client is created lazily, exactly once. On an empty slot, \<open>getLitClient\<close>
  constructs a client from that call's configuration (with the defaults \<open>datil-dev\<close> and
  \<open>false\<close>), stores it and calls \<open>connect\<close> on it; it returns the client unless \<open>connect\<close>
  rejects, and the client stays in the slot either way. After that, whatever handlers
  are invoked, in whatever environment and with whatever configuration, every call of
  \<open>getLitClient\<close> returns that same client and leaves the state as it is, and no client
  is constructed or connected again. The same holds for the JavaScript file.
\<close>

theorem C4_client_created_once:
  assumes "litNodeClient w = None"
  shows "(let c = \<lparr>handle = count_clients (trace w),
                   client_litNetwork = or_network (litNetwork config) Datil_dev,
                   client_debug = or_bool (debug config) False\<rparr>;
              w1 = snd (getLitClient env config w)
          in fst (getLitClient env config w) = (case connect_outcome env c of None \<Rightarrow> Inr c | Some e \<Rightarrow> Inl e)
             \<and> litNodeClient w1 = Some c
             \<and> trace w1 = trace w @ [New_LitNodeClient (client_litNetwork c) (client_debug c), Client_connect (handle c)]
             \<and> (\<forall>calls env' config'.
                   getLitClient env' config' (run calls w1) = (Inr c, run calls w1)
                   \<and> list_all (\<lambda>ev. \<not> constructs_or_connects ev)
                        (drop (length (trace w1)) (trace (run calls w1)))))
       \<and> (let c = \<lparr>handle = count_clients (trace w),
                   client_litNetwork = or_network (litNetwork config) Datil_dev,
                   client_debug = or_bool (debug config) False\<rparr>;
              w1 = snd (getLitClient_js env config w)
          in (connect_outcome env c = None \<longrightarrow> fst (getLitClient_js env config w) = Inr c)
             \<and> litNodeClient w1 = Some c
             \<and> trace w1 = trace w @ [New_LitNodeClient (client_litNetwork c) (client_debug c), Client_connect (handle c)]
                           @ (case connect_outcome env c of None \<Rightarrow> [] | Some e \<Rightarrow> [Console_error])
             \<and> (\<forall>calls env' config'.
                   getLitClient_js env' config' (run_js calls w1) = (Inr c, run_js calls w1)
                   \<and> list_all (\<lambda>ev. \<not> constructs_or_connects ev)
                        (drop (length (trace w1)) (trace (run_js calls w1)))))"
proof
  let ?c = "client_for config w"
  let ?w1 = "snd (getLitClient env config w)"
  have slot: "litNodeClient ?w1 = Some ?c"
    by (simp add: getLitClient_fresh [OF assms])
  have later: "getLitClient env' config' (run calls ?w1) = (Inr ?c, run calls ?w1)
      \<and> list_all (\<lambda>ev. \<not> constructs_or_connects ev) (drop (length (trace ?w1)) (trace (run calls ?w1)))"
    for calls env' config'
    using run_holding [OF slot, of calls] by (auto simp: getLitClient_held)
  show "let c = \<lparr>handle = count_clients (trace w),
                   client_litNetwork = or_network (litNetwork config) Datil_dev,
                   client_debug = or_bool (debug config) False\<rparr>;
              w1 = snd (getLitClient env config w)
          in fst (getLitClient env config w) = (case connect_outcome env c of None \<Rightarrow> Inr c | Some e \<Rightarrow> Inl e)
             \<and> litNodeClient w1 = Some c
             \<and> trace w1 = trace w @ [New_LitNodeClient (client_litNetwork c) (client_debug c), Client_connect (handle c)]
             \<and> (\<forall>calls env' config'.
                   getLitClient env' config' (run calls w1) = (Inr c, run calls w1)
                   \<and> list_all (\<lambda>ev. \<not> constructs_or_connects ev)
                        (drop (length (trace w1)) (trace (run calls w1))))"
    unfolding Let_def client_for_def [symmetric]
    using later slot by (simp add: getLitClient_fresh [OF assms])
next
  let ?c = "client_for config w"
  let ?w1 = "snd (getLitClient_js env config w)"
  have slot: "litNodeClient ?w1 = Some ?c"
    by (simp add: getLitClient_js_fresh [OF assms] split: option.splits)
  have later: "getLitClient_js env' config' (run_js calls ?w1) = (Inr ?c, run_js calls ?w1)
      \<and> list_all (\<lambda>ev. \<not> constructs_or_connects ev) (drop (length (trace ?w1)) (trace (run_js calls ?w1)))"
    for calls env' config'
    using run_js_holding [OF slot, of calls] by (auto simp: getLitClient_js_held)
  show "let c = \<lparr>handle = count_clients (trace w),
                   client_litNetwork = or_network (litNetwork config) Datil_dev,
                   client_debug = or_bool (debug config) False\<rparr>;
              w1 = snd (getLitClient_js env config w)
          in (connect_outcome env c = None \<longrightarrow> fst (getLitClient_js env config w) = Inr c)
             \<and> litNodeClient w1 = Some c
             \<and> trace w1 = trace w @ [New_LitNodeClient (client_litNetwork c) (client_debug c), Client_connect (handle c)]
                           @ (case connect_outcome env c of None \<Rightarrow> [] | Some e \<Rightarrow> [Console_error])
             \<and> (\<forall>calls env' config'.
                   getLitClient_js env' config' (run_js calls w1) = (Inr c, run_js calls w1)
                   \<and> list_all (\<lambda>ev. \<not> constructs_or_connects ev)
                        (drop (length (trace w1)) (trace (run_js calls w1))))"
    unfolding Let_def client_for_def [symmetric]
    using later slot by (simp add: getLitClient_js_fresh [OF assms] split: option.splits)
qed


theorem C4_client_created_once_witness:
  "litNodeClient fresh = None
   \<and> fst (getLitClient refusing_env no_config fresh) = Inl (Error ''connect ECONNREFUSED'')
   \<and> getLitClient mock_env \<lparr>litNetwork = Some Datil, debug = Some True\<rparr>
        (run [(mock_env, \<lparr>litNetwork = Some Datil_test, debug = None\<rparr>, Lit_hello \<lparr>magicNumber = None\<rparr>)]
           (snd (getLitClient refusing_env no_config fresh)))
      = (Inr \<lparr>handle = 0, client_litNetwork = Datil_dev, client_debug = False\<rparr>,
         run [(mock_env, \<lparr>litNetwork = Some Datil_test, debug = None\<rparr>, Lit_hello \<lparr>magicNumber = None\<rparr>)]
           (snd (getLitClient refusing_env no_config fresh)))
   \<and> getLitClient_js mock_env \<lparr>litNetwork = Some Datil, debug = Some True\<rparr>
        (run_js [(mock_env, \<lparr>litNetwork = Some Datil_test, debug = None\<rparr>, Hello, JObj [])]
           (snd (getLitClient_js refusing_env no_config fresh)))
      = (Inr \<lparr>handle = 0, client_litNetwork = Datil_dev, client_debug = False\<rparr>,
         run_js [(mock_env, \<lparr>litNetwork = Some Datil_test, debug = None\<rparr>, Hello, JObj [])]
           (snd (getLitClient_js refusing_env no_config fresh)))"
proof -
  have h: "litNodeClient fresh = None" by (simp add: fresh_def)
  have c: "count_clients (trace fresh) = 0" "or_network (litNetwork no_config) Datil_dev = Datil_dev"
    "or_bool (debug no_config) False = False"
    by (simp_all add: fresh_def count_clients_def no_config_def or_network_def or_bool_def)
  have r: "connect_outcome refusing_env c = Some (Error ''connect ECONNREFUSED'')" for c
    by (simp add: refusing_env_def mock_env_def)
  from C4_client_created_once [OF h, of no_config refusing_env]
  have f: "fst (getLitClient refusing_env no_config fresh) = Inl (Error ''connect ECONNREFUSED'')"
    and g: "\<And>calls env' config'.
      getLitClient env' config' (run calls (snd (getLitClient refusing_env no_config fresh)))
        = (Inr \<lparr>handle = 0, client_litNetwork = Datil_dev, client_debug = False\<rparr>,
           run calls (snd (getLitClient refusing_env no_config fresh)))"
    and g_js: "\<And>calls env' config'.
      getLitClient_js env' config' (run_js calls (snd (getLitClient_js refusing_env no_config fresh)))
        = (Inr \<lparr>handle = 0, client_litNetwork = Datil_dev, client_debug = False\<rparr>,
           run_js calls (snd (getLitClient_js refusing_env no_config fresh)))"
    unfolding Let_def c by (simp_all add: r)
  show ?thesis
    by (intro conjI h f g g_js)
qed

text \<open>
  C8: when the file read by the encrypt handler has empty content, the handler returns
  \<open>success\<close> false with the error \<open>File <path> is empty or missing\<close>, and the only thing it
  has done is the read: the trace gains that one event (no client is constructed or
  connected, \<open>encryptString\<close> is not called, nothing is written), and the files and the
  client slot are as before. The same holds for the JavaScript file, on the path its
  schema yields.
\<close>

theorem C8_empty_file_stops:
  "(readFile_fault env (or_string (envFilePath input) ''.env'') = None
      \<and> files w (or_string (envFilePath input) ''.env'') = Some [] \<longrightarrow>
    litActionProvider env config (Lit_encrypt_env input) w
      = (Inr (JObj [(''success'', JBool False),
                    (''error'', JStr (''File '' @ or_string (envFilePath input) ''.env'' @ '' is empty or missing''))]),
         w\<lparr>trace := trace w @ [Fs_readFile (or_string (envFilePath input) ''.env'')]\<rparr>))
   \<and> (EncryptEnvSchema_parse (or_empty_object raw) = Inr parsed \<and> envFilePath parsed = Some path
      \<and> readFile_fault env path = None \<and> files w path = Some [] \<longrightarrow>
    litActionProvider_js env config Encrypt_env raw w
      = (Inr (JObj [(''success'', JBool False),
                    (''error'', JStr (''File '' @ path @ '' is empty or missing''))]),
         w\<lparr>trace := trace w @ [Fs_readFile path]\<rparr>))"
  by (simp add: encrypt_env_handler_def encrypt_env_try_def encrypt_env_handler_js_def
        encrypt_env_try_js_def io_defs string_truthy_def failed_def)

theorem C8_empty_file_stops_witness:
  "litActionProvider mock_env no_config (Lit_encrypt_env \<lparr>envFilePath = None, EncryptEnv.outputPath = None, walletAddress = None\<rparr>)
     (with_env_file [])
   = (Inr (JObj [(''success'', JBool False), (''error'', JStr ''File .env is empty or missing'')]),
      \<lparr>litNodeClient = None, files = [''.env'' \<mapsto> []], trace = [Fs_readFile ''.env'']\<rparr>)
   \<and> litActionProvider_js mock_env no_config Encrypt_env JNull (with_env_file [])
   = (Inr (JObj [(''success'', JBool False), (''error'', JStr ''File .env is empty or missing'')]),
      \<lparr>litNodeClient = None, files = [''.env'' \<mapsto> []], trace = [Fs_readFile ''.env'']\<rparr>)"
proof -
  have p: "EncryptEnvSchema_parse (or_empty_object JNull)
             = Inr \<lparr>envFilePath = Some ''.env'', EncryptEnv.outputPath = Some ''.env.encrypted'', walletAddress = None\<rparr>"
    by (simp add: EncryptEnvSchema_parse_def or_empty_object_def finish_def z_string_optional_def
          z_strict_def with_default_def as_string_def)
  from C8_empty_file_stops [of mock_env "\<lparr>envFilePath = None, EncryptEnv.outputPath = None, walletAddress = None\<rparr>"
      "with_env_file []" no_config JNull
      "\<lparr>envFilePath = Some ''.env'', EncryptEnv.outputPath = Some ''.env.encrypted'', walletAddress = None\<rparr>" "''.env''"]
  show ?thesis
    by (simp add: p or_string_def mock_env_def with_env_file_def)
qed

section \<open>Digits\<close>

lemma is_digit_code: "is_digit c \<longleftrightarrow> 48 \<le> (of_char c :: nat) \<and> (of_char c :: nat) \<le> 57"
  by (simp add: is_digit_def in_range_def)

lemma digit_value_digit: "is_digit c \<Longrightarrow> digit_value c = Some (of_char c - 48)"
  by (simp add: digit_value_def is_digit_def)

lemma is_digit_in_10: "is_digit c \<Longrightarrow> is_digit_in 10 c"
  by (auto simp: is_digit_in_def digit_value_digit is_digit_code)

lemma is_digit_not_space: "is_digit c \<Longrightarrow> \<not> is_space c"
  by (auto simp: is_digit_code is_space_def)

lemma is_digit_not_special:
  "is_digit c \<Longrightarrow> c \<noteq> CHR ''-'' \<and> c \<noteq> CHR ''+'' \<and> c \<noteq> CHR ''.'' \<and> c \<noteq> CHR ''x'' \<and> c \<noteq> CHR ''X''
     \<and> c \<noteq> CHR ''o'' \<and> c \<noteq> CHR ''O'' \<and> c \<noteq> CHR ''b'' \<and> c \<noteq> CHR ''B''"
  by (auto simp: is_digit_code)

lemma value_in_append:
  "value_in b (xs @ ys) = value_in b xs * b ^ length ys + value_in b ys"
proof -
  let ?f = "\<lambda>a c. b * a + (case digit_value c of None \<Rightarrow> 0 | Some v \<Rightarrow> v)"
  have shift: "foldl ?f a ys = a * b ^ length ys + foldl ?f 0 ys" for a
  proof (induction ys arbitrary: a)
    case Nil
    show ?case by simp
  next
    case (Cons y ys)
    have "foldl ?f a (y # ys) = foldl ?f (?f a y) ys" by simp
    also have "\<dots> = ?f a y * b ^ length ys + foldl ?f 0 ys" by (rule Cons.IH)
    finally have l: "foldl ?f a (y # ys) = ?f a y * b ^ length ys + foldl ?f 0 ys" .
    have "foldl ?f 0 (y # ys) = foldl ?f (?f 0 y) ys" by simp
    also have "\<dots> = ?f 0 y * b ^ length ys + foldl ?f 0 ys" by (rule Cons.IH)
    finally have r: "foldl ?f 0 (y # ys) = ?f 0 y * b ^ length ys + foldl ?f 0 ys" .
    show ?case unfolding l r by (simp add: algebra_simps)
  qed
  show ?thesis unfolding value_in_def foldl_append by (rule shift)
qed

lemma value_in_zeros: "value_in b (replicate n CHR ''0'') = 0"
proof (induction n)
  case 0
  show ?case by (simp add: value_in_def)
next
  case (Suc n)
  have "value_in b [CHR ''0''] = 0"
    by (simp add: value_in_def digit_value_def in_range_def)
  with Suc value_in_append [of b "[CHR ''0'']" "replicate n CHR ''0''"] show ?case by simp
qed

lemma char_of_digit: "n < 10 \<Longrightarrow> (of_char (char_of (48 + n :: nat)) :: nat) = 48 + n"
  by simp

lemma is_digit_char_of: "k < 10 \<Longrightarrow> is_digit (char_of (48 + k :: nat))"
  by (simp add: is_digit_code)

lemma digits_of_digits: "list_all is_digit (digits_of n) \<and> digits_of n \<noteq> []"
proof (induction n rule: digits_of.induct)
  case (1 n)
  show ?case
  proof (cases "n < 10")
    case True
    then show ?thesis by (subst (1 2) digits_of.simps) (simp add: is_digit_char_of)
  next
    case False
    have "n mod 10 < 10" by simp
    with False 1 show ?thesis by (subst (1 2) digits_of.simps) (simp add: is_digit_char_of)
  qed
qed

lemma value_in_digits_of: "value_in 10 (digits_of n) = n"
proof (induction n rule: digits_of.induct)
  case (1 n)
  show ?case
  proof (cases "n < 10")
    case True
    then show ?thesis
      by (subst digits_of.simps) (simp add: value_in_def digit_value_def in_range_def)
  next
    case False
    have m: "n mod 10 < 10" by simp
    have "value_in 10 [char_of (48 + n mod 10)] = n mod 10"
      using m by (simp add: value_in_def digit_value_def in_range_def)
    with False 1 show ?thesis
      by (subst digits_of.simps) (simp add: value_in_append)
  qed
qed

lemma trim_digits:
  assumes "list_all is_digit s"
  shows "trim s = s"
proof (cases s rule: rev_cases)
  case Nil
  then show ?thesis by (simp add: trim_def)
next
  case (snoc xs x)
  with assms have x: "\<not> is_space x" by (simp add: is_digit_not_space)
  from assms have "s = [] \<or> \<not> is_space (hd s)" by (cases s) (simp_all add: is_digit_not_space)
  then have "dropWhile is_space s = s" by (cases s) auto
  with snoc x show ?thesis by (simp add: trim_def)
qed

lemma parse_in_digits:
  "list_all is_digit s \<Longrightarrow> s \<noteq> [] \<Longrightarrow> parse_in 10 s = Some (int (value_in 10 s))"
  by (auto simp: parse_in_def list_all_iff is_digit_in_10)

lemma js_BigInt_digits:
  assumes "list_all is_digit s" "s \<noteq> []"
  shows "js_BigInt s = Some (int (value_in 10 s))"
proof -
  from assms obtain c r where s: "s = c # r" by (cases s) auto
  with assms have c: "is_digit c" by simp
  have sd: "signed_decimal s = Some (int (value_in 10 s))"
    using is_digit_not_special [OF c] parse_in_digits [OF assms] by (simp add: signed_decimal_def s)
  show ?thesis
  proof (cases r)
    case Nil
    with sd s assms show ?thesis by (simp add: js_BigInt_def trim_digits Let_def)
  next
    case (Cons c1 r1)
    with assms s have "is_digit c1" by simp
    from is_digit_not_special [OF this] sd s Cons assms show ?thesis
      by (simp add: js_BigInt_def trim_digits Let_def)
  qed
qed

lemma getBigInt_digits:
  assumes "list_all is_digit s" "s \<noteq> []"
  shows "getBigInt s = Inr (int (value_in 10 s))"
proof -
  from assms obtain c r where s: "s = c # r" by (cases s) auto
  with assms have "is_digit c" by simp
  from is_digit_not_special [OF this] js_BigInt_digits [OF assms] s show ?thesis
    by (simp add: getBigInt_def)
qed

lemma getBigInt_toString: "getBigInt (bigint_toString v) = Inr v"
proof (cases "v < 0")
  case False
  then show ?thesis
    using getBigInt_digits [of "digits_of (nat v)"] digits_of_digits [of "nat v"]
    by (simp add: bigint_toString_def value_in_digits_of)
next
  case True
  obtain c r where d: "digits_of (nat (- v)) = c # r"
    using digits_of_digits [of "nat (- v)"] by (cases "digits_of (nat (- v))") auto
  with digits_of_digits [of "nat (- v)"] have c: "is_digit c" by simp
  have "js_BigInt (digits_of (nat (- v))) = Some (int (nat (- v)))"
    using js_BigInt_digits [of "digits_of (nat (- v))"] digits_of_digits [of "nat (- v)"]
    by (simp add: value_in_digits_of)
  with is_digit_not_special [OF c] True d show ?thesis
    by (simp add: bigint_toString_def getBigInt_def)
qed

lemma abi_uint_toString:
  "abi_uint bits (bigint_toString v) = (if v < 0 \<or> 2 ^ bits \<le> v then Inl (Error ''value out-of-bounds'') else Inr (Uint bits (nat v)))"
  by (simp add: abi_uint_def getBigInt_toString and_then_def)


lemma getNumber_nat: "d \<le> 9007199254740991 \<Longrightarrow> getNumber (Num (of_nat d)) = Inr (int d)"
  by (simp add: getNumber_def)

lemma not_digit_point: "\<not> is_digit CHR ''.''"
  by (simp add: is_digit_code)

lemma split_decimal_text:
  assumes ip: "list_all is_digit ip" and fp: "list_all is_digit fp"
  shows "takeWhile is_digit (decimal_text ip fp) = ip"
    and "dropWhile is_digit (decimal_text ip fp) = (if fp = [] then [] else CHR ''.'' # fp)"
    and "takeWhile is_digit fp = fp" and "dropWhile is_digit fp = []"
proof -
  from ip have a: "\<forall>x\<in>set ip. is_digit x" by (simp add: list_all_iff)
  from fp have b: "\<forall>x\<in>set fp. is_digit x" by (simp add: list_all_iff)
  show "takeWhile is_digit (decimal_text ip fp) = ip"
    using a by (simp add: decimal_text_def takeWhile_append2 not_digit_point)
  show "dropWhile is_digit (decimal_text ip fp) = (if fp = [] then [] else CHR ''.'' # fp)"
    using a by (simp add: decimal_text_def dropWhile_append2 not_digit_point)
  show "takeWhile is_digit fp = fp" using b by simp
  show "dropWhile is_digit fp = []" using b by simp
qed

lemma decimal_text_not_negative:
  assumes "list_all is_digit ip" "ip @ fp \<noteq> []"
  shows "decimal_text ip fp \<noteq> [] \<and> hd (decimal_text ip fp) \<noteq> CHR ''-''"
proof (cases ip)
  case Nil
  with assms show ?thesis by (simp add: decimal_text_def)
next
  case (Cons c r)
  with assms have "is_digit c" by simp
  from is_digit_not_special [OF this] Cons show ?thesis by (simp add: decimal_text_def)
qed

lemma scaled_value:
  "length fp \<le> d \<Longrightarrow>
   nat_of_digits (ip @ fp @ replicate (d - length fp) CHR ''0'') = scaled ip fp d"
  by (simp add: nat_of_digits_def scaled_def value_in_append value_in_zeros
        power_add [symmetric] algebra_simps)

lemma match_fixed_decimal_text:
  assumes ip: "list_all is_digit ip" and fp: "list_all is_digit fp" and ne: "ip @ fp \<noteq> []"
  shows "match_fixed (decimal_text ip fp) = Some (False, ip, fp)"
proof -
  note sp = split_decimal_text [OF ip fp]
  from decimal_text_not_negative [OF ip ne]
  have neg: "(decimal_text ip fp \<noteq> [] \<and> hd (decimal_text ip fp) = CHR ''-'') = False" by simp
  from fp have all: "Ball (set fp) is_digit" by (simp add: list_all_iff)
  show ?thesis
    unfolding match_fixed_def neg Let_def if_False sp
    by (simp add: sp all)
qed

lemma check_value_fits: "v < 2 ^ 511 \<Longrightarrow> check_value (int v) = Inr (int v)"
proof -
  assume "v < 2 ^ 511"
  then have up: "int v < 2 ^ 511"
    by (metis of_nat_less_iff of_nat_numeral of_nat_power)
  have "- (2 ^ 511) \<le> (0::int)" by simp
  also have "0 \<le> int v" by simp
  finally have low: "- (2 ^ 511) \<le> int v" .
  from up low show ?thesis unfolding check_value_def by (simp only: simp_thms if_True)
qed

lemma padded_fraction:
  "length fp \<le> d \<Longrightarrow> drop d (fp @ replicate (d - length fp) c) = []
     \<and> take d (fp @ replicate (d - length fp) c) = fp @ replicate (d - length fp) c"
  by simp

lemma fromString_decimal_text:
  assumes ip: "list_all is_digit ip" and fp: "list_all is_digit fp" and ne: "ip @ fp \<noteq> []"
    and len: "length fp \<le> d" and d: "d \<le> 80" and fits: "scaled ip fp d < 2 ^ 511"
  shows "fromString (decimal_text ip fp) (int d) = Inr (int (scaled ip fp d))"
proof -
  from ne have some: "(length ip + length fp = 0) = False" by auto
  from d have small: "(80 < int d) = False" by simp
  from len have pad: "drop d fp = []" "take d fp = fp" by simp_all
  show ?thesis
    unfolding fromString_def match_fixed_decimal_text [OF ip fp ne] option.case prod.case
      some small if_False Let_def nat_int
    using scaled_value [OF len, of ip] check_value_fits [OF fits]
    by (simp add: pad)
qed

lemma parseUnits_decimal_text:
  assumes ip: "list_all is_digit ip" and fp: "list_all is_digit fp" and ne: "ip @ fp \<noteq> []"
    and len: "length fp \<le> d" and d: "d \<le> 80" and fits: "scaled ip fp d < 2 ^ 511"
  shows "parseUnits (decimal_text ip fp) (Num (of_nat d)) = Inr (int (scaled ip fp d))"
proof -
  from d have gn: "getNumber (Num (of_nat d)) = Inr (int d)" by (simp add: getNumber_nat)
  show ?thesis
    unfolding parseUnits_def gn and_then_def sum.case
    by (rule fromString_decimal_text [OF assms])
qed


section \<open>Policies\<close>

lemma and_then_Inr: "and_then r f = Inr y \<longleftrightarrow> (\<exists>x. r = Inr x \<and> f x = Inr y)"
  by (cases r) (simp_all add: and_then_def)

lemma finish_Inr: "finish issues x = Inr y \<longleftrightarrow> issues = [] \<and> y = x"
  by (auto simp: finish_def)

lemma z_addresses_empty: "z_addresses key xs = [] \<longleftrightarrow> list_all (rx_test rx_ethereum_address) xs"
  by (induction xs) (auto simp: z_addresses_def address_check_def z_regex_def)

lemma erc20_policy_schema:
  "erc20TransferPolicySchema_parse policy = Inr u \<longleftrightarrow>
     ERC20TransferPolicyType.type policy = ''ERC20Transfer''
     \<and> list_all (rx_test rx_ethereum_address) (ERC20TransferPolicyType.allowedTokens policy)
     \<and> list_all (rx_test rx_ethereum_address) (allowedRecipients policy)"
  by (auto simp: erc20TransferPolicySchema_parse_def finish_Inr z_addresses_empty z_literal_def)

lemma uniswap_policy_schema:
  "uniswapSwapPolicySchema_parse policy = Inr u \<longleftrightarrow>
     UniswapSwapPolicyType.type policy = ''UniswapSwap''
     \<and> list_all (rx_test rx_ethereum_address) (UniswapSwapPolicyType.allowedTokens policy)"
  by (auto simp: uniswapSwapPolicySchema_parse_def finish_Inr z_addresses_empty z_literal_def)

lemma abi_address_accepted:
  "rx_test rx_ethereum_address a \<Longrightarrow> (mixed_case a \<longrightarrow> checksum_ok env a) \<Longrightarrow>
   abi_address env a = Inr (Address (value_in 16 (drop 2 a)))"
  by (auto simp: abi_address_def)

lemma abi_address_Inr: "abi_address env a = Inr x \<Longrightarrow> \<exists>n. x = Address n"
  by (auto simp: abi_address_def and_then_Inr split: if_splits)

lemma for_each_addresses:
  "list_all (rx_test rx_ethereum_address) xs \<Longrightarrow> \<forall>a\<in>set xs. mixed_case a \<longrightarrow> checksum_ok env a \<Longrightarrow>
   for_each (abi_address env) xs = Inr (map (\<lambda>a. Address (value_in 16 (drop 2 a))) xs)"
  by (induction xs) (simp_all add: abi_address_accepted and_then_def)

lemma js_Number_digits: "list_all is_digit ds \<Longrightarrow> js_Number env ds = Num (of_nat (nat_of_digits ds))"
  by (simp add: js_Number_def)

lemma abi_uint_digits:
  "list_all is_digit ds \<Longrightarrow> ds \<noteq> [] \<Longrightarrow> nat_of_digits ds < 2 ^ bits \<Longrightarrow>
   abi_uint bits ds = Inr (Uint bits (nat_of_digits ds))"
proof -
  assume ds: "list_all is_digit ds" "ds \<noteq> []" and small: "nat_of_digits ds < 2 ^ bits"
  from small have "int (nat_of_digits ds) < 2 ^ bits"
    by (metis of_nat_less_iff of_nat_numeral of_nat_power)
  then show ?thesis
    by (simp add: abi_uint_def getBigInt_digits [OF ds] and_then_def nat_of_digits_def)
qed

lemma eighteen: "list_all is_digit ''18''" "nat_of_digits ''18'' = 18"
  by (simp_all add: is_digit_code nat_of_digits_def value_in_def digit_value_def in_range_def)

lemma abi_uint8_18: "abi_uint 8 ''18'' = Inr (Uint 8 18)"
proof -
  have "nat_of_digits ''18'' < 2 ^ 8" by (simp add: eighteen)
  from abi_uint_digits [OF eighteen(1) _ this] show ?thesis by (simp add: eighteen)
qed

lemma erc20_policy_encoded:
  assumes "ERC20TransferPolicy_encode env (erc20_policy input) = Inr enc"
  shows "\<exists>units token recipient.
           enc = Tuple [Tuple [Uint 8 18, Uint 256 units, Array [Address token], Array [Address recipient]]]
           \<and> parseUnits (amount input) (Num 18) = Inr (int units)
           \<and> abi_address env (tokenAddress input) = Inr (Address token)
           \<and> abi_address env (recipientAddress input) = Inr (Address recipient)"
proof -
  have n: "js_Number env ''18'' = Num 18"
    using js_Number_digits [OF eighteen(1), of env] by (simp add: eighteen)
  from assms obtain units m t r where
    pu: "parseUnits (amount input) (Num 18) = Inr units"
    and m: "abi_uint 256 (bigint_toString units) = Inr m"
    and t: "abi_address env (tokenAddress input) = Inr t"
    and r: "abi_address env (recipientAddress input) = Inr r"
    and enc: "enc = Tuple [Tuple [Uint 8 18, m, Array [t], Array [r]]]"
    by (auto simp: ERC20TransferPolicy_encode_def erc20_policy_def and_then_Inr n abi_uint8_18)
  from m have "0 \<le> units" and "m = Uint 256 (nat units)"
    by (auto simp: abi_uint_toString split: if_splits)
  moreover from abi_address_Inr [OF t] abi_address_Inr [OF r] obtain tn rn where
    "t = Address tn" "r = Address rn" by blast
  ultimately show ?thesis using pu t r enc by auto
qed

lemma sample_addresses:
  "rx_test rx_ethereum_address ''0x00000000000000000000000000000000000000aa''"
  "rx_test rx_ethereum_address ''0x00000000000000000000000000000000000000bb''"
  "rx_test rx_ethereum_address ''0x1234567890123456789012345678901234567890''"
  by code_simp+

lemma sample_hex_values:
  "value_in 16 ''00000000000000000000000000000000000000aa'' = 170"
  "value_in 16 ''00000000000000000000000000000000000000bb'' = 187"
  by (simp_all add: value_in_def digit_value_def in_range_def)

lemma not_mixed:
  "\<not> mixed_case ''0x00000000000000000000000000000000000000aa''"
  "\<not> mixed_case ''0x00000000000000000000000000000000000000bb''"
  by (simp_all add: mixed_case_def in_range_def)

text \<open>
  C5, amended: for every policy the schema accepts whose \<open>erc20Decimals\<close> is a non-empty
  digit string of value \<open>d\<close> at most 80, whose \<open>maxAmount\<close> is a decimal string with at most
  \<open>d\<close> fractional digits and with a scaled value below \<open>2^256\<close>, and whose addresses pass the
  address coder (no mixed case without its checksum), \<open>parseUnits(maxAmount, d)\<close> is the
  amount scaled by \<open>10^d\<close> exactly, and \<open>encode\<close> encodes that integer as the \<open>uint256\<close>,
  \<open>d\<close> as the \<open>uint8\<close>, and each address as its 160-bit value, in order.
\<close>

theorem C5_erc20_encode_scaled:
  assumes "erc20TransferPolicySchema_parse policy = Inr ()"
    and "list_all is_digit (erc20Decimals policy)" and "erc20Decimals policy \<noteq> []"
    and "ERC20TransferPolicyType.maxAmount policy = decimal_text ip fp"
    and "list_all is_digit ip" and "list_all is_digit fp" and "ip @ fp \<noteq> []"
    and "length fp \<le> nat_of_digits (erc20Decimals policy)"
    and "nat_of_digits (erc20Decimals policy) \<le> 80"
    and "scaled ip fp (nat_of_digits (erc20Decimals policy)) < 2 ^ 256"
    and "\<forall>a\<in>set (ERC20TransferPolicyType.allowedTokens policy @ allowedRecipients policy).
           mixed_case a \<longrightarrow> checksum_ok env a"
  shows "parseUnits (ERC20TransferPolicyType.maxAmount policy) (js_Number env (erc20Decimals policy))
           = Inr (int (scaled ip fp (nat_of_digits (erc20Decimals policy))))
         \<and> ERC20TransferPolicy_encode env policy
           = Inr (Tuple [Tuple [Uint 8 (nat_of_digits (erc20Decimals policy)),
                                Uint 256 (scaled ip fp (nat_of_digits (erc20Decimals policy))),
                                Array (map (\<lambda>a. Address (value_in 16 (drop 2 a)))
                                         (ERC20TransferPolicyType.allowedTokens policy)),
                                Array (map (\<lambda>a. Address (value_in 16 (drop 2 a)))
                                         (allowedRecipients policy))]])"
proof -
  let ?d = "nat_of_digits (erc20Decimals policy)"
  have "(2::nat) ^ 256 < 2 ^ 511" by simp
  with assms(10) have fits: "scaled ip fp ?d < 2 ^ 511" by (rule less_trans)
  have pu: "parseUnits (ERC20TransferPolicyType.maxAmount policy) (js_Number env (erc20Decimals policy))
              = Inr (int (scaled ip fp ?d))"
    unfolding js_Number_digits [OF assms(2)] assms(4)
    by (rule parseUnits_decimal_text [OF assms(5,6,7,8,9) fits])
  have "?d < 2 ^ 8" using assms(9) by simp
  then have dec: "abi_uint 8 (erc20Decimals policy) = Inr (Uint 8 ?d)"
    by (rule abi_uint_digits [OF assms(2,3)])
  have "int (scaled ip fp ?d) < 2 ^ 256" using assms(10)
    by (metis of_nat_less_iff of_nat_numeral of_nat_power)
  then have amt: "abi_uint 256 (bigint_toString (int (scaled ip fp ?d))) = Inr (Uint 256 (scaled ip fp ?d))"
    by (simp add: abi_uint_toString)
  from assms(1) have ok: "list_all (rx_test rx_ethereum_address) (ERC20TransferPolicyType.allowedTokens policy)"
      "list_all (rx_test rx_ethereum_address) (allowedRecipients policy)"
    by (simp_all add: erc20_policy_schema)
  from assms(11) have tok: "for_each (abi_address env) (ERC20TransferPolicyType.allowedTokens policy)
      = Inr (map (\<lambda>a. Address (value_in 16 (drop 2 a))) (ERC20TransferPolicyType.allowedTokens policy))"
    by (intro for_each_addresses ok) simp
  from assms(11) have rec: "for_each (abi_address env) (allowedRecipients policy)
      = Inr (map (\<lambda>a. Address (value_in 16 (drop 2 a))) (allowedRecipients policy))"
    by (intro for_each_addresses ok) simp
  show ?thesis
    unfolding ERC20TransferPolicy_encode_def assms(1) pu dec amt tok rec and_then_def sum.case
    by simp
qed

lemma sample_policy_ok: "erc20TransferPolicySchema_parse sample_policy = Inr ()"
  by (simp add: erc20_policy_schema sample_policy_def sample_addresses del: rx_test.simps)

lemma digit_chars:
  "is_digit CHR ''0''" "is_digit CHR ''1''" "is_digit CHR ''2''" "is_digit CHR ''3''" "is_digit CHR ''4''"
  "is_digit CHR ''5''" "is_digit CHR ''6''" "is_digit CHR ''7''" "is_digit CHR ''8''" "is_digit CHR ''9''"
  by (simp_all add: is_digit_code)

lemma one_five: "scaled ''1'' ''5'' 18 = 1500000000000000000" "list_all is_digit ''1''" "list_all is_digit ''5''"
  by (simp_all add: scaled_def nat_of_digits_def value_in_def digit_value_def in_range_def is_digit_def)

theorem C5_erc20_encode_scaled_witness:
  "parseUnits ''1.5'' (js_Number mock_env ''18'') = Inr 1500000000000000000
   \<and> ERC20TransferPolicy_encode mock_env sample_policy
     = Inr (Tuple [Tuple [Uint 8 18, Uint 256 1500000000000000000, Array [Address 170], Array [Address 187]]])"
proof -
  have a: "erc20Decimals sample_policy = ''18''" "ERC20TransferPolicyType.maxAmount sample_policy = decimal_text ''1'' ''5''"
    "ERC20TransferPolicyType.allowedTokens sample_policy = [''0x00000000000000000000000000000000000000aa'']"
    "allowedRecipients sample_policy = [''0x00000000000000000000000000000000000000bb'']"
    by (simp_all add: sample_policy_def decimal_text_def)
  have h: "list_all is_digit (erc20Decimals sample_policy)" "erc20Decimals sample_policy \<noteq> []"
    "''1'' @ ''5'' \<noteq> []" "length ''5'' \<le> nat_of_digits (erc20Decimals sample_policy)"
    "nat_of_digits (erc20Decimals sample_policy) \<le> 80"
    "scaled ''1'' ''5'' (nat_of_digits (erc20Decimals sample_policy)) < 2 ^ 256"
    "\<forall>a\<in>set (ERC20TransferPolicyType.allowedTokens sample_policy @ allowedRecipients sample_policy).
           mixed_case a \<longrightarrow> checksum_ok mock_env a"
    by (simp_all add: a eighteen one_five not_mixed digit_chars del: rx_test.simps)
  from C5_erc20_encode_scaled [OF sample_policy_ok h(1,2) a(2) one_five(2,3) h(3-7)]
  show ?thesis
    by (simp add: a eighteen one_five sample_hex_values decimal_text_def)
qed

lemma ten_to_60: "scaled (CHR ''1'' # replicate 60 CHR ''0'') [] 18 = 10 ^ 78"
proof -
  have "value_in 10 (''1'' @ replicate 60 CHR ''0'') = 10 ^ 60"
    unfolding value_in_append value_in_zeros
    by (simp add: value_in_def digit_value_def in_range_def)
  then show ?thesis by (simp add: scaled_def nat_of_digits_def value_in_def)
qed

text \<open>
  C5, without a bound on the amount, fails: a policy the schema accepts, with the digit
  string \<open>18\<close> as decimals and a digit string without fraction as amount, is not encoded at all
  when the scaled amount does not fit \<open>uint256\<close>; \<open>encode\<close> throws.
\<close>

theorem C5_oversized_amount_rejected:
  "erc20TransferPolicySchema_parse oversized_policy = Inr ()
   \<and> list_all is_digit (erc20Decimals oversized_policy)
   \<and> ERC20TransferPolicyType.maxAmount oversized_policy = decimal_text (CHR ''1'' # replicate 60 CHR ''0'') []
   \<and> list_all is_digit (CHR ''1'' # replicate 60 CHR ''0'')
   \<and> ERC20TransferPolicy_encode mock_env oversized_policy = Inl (Error ''value out-of-bounds'')"
proof -
  have ok: "erc20TransferPolicySchema_parse oversized_policy = Inr ()"
    by (simp add: erc20_policy_schema oversized_policy_def)
  have digs: "list_all is_digit (CHR ''1'' # replicate 60 CHR ''0'')"
    by (simp add: list_all_iff is_digit_code)
  have "(10::nat) ^ 78 < 2 ^ 511" by simp
  then have fits: "scaled (CHR ''1'' # replicate 60 CHR ''0'') [] 18 < 2 ^ 511" by (simp only: ten_to_60)
  have pu: "parseUnits (decimal_text (CHR ''1'' # replicate 60 CHR ''0'') []) (Num (of_nat 18)) = Inr (int (10 ^ 78))"
    using parseUnits_decimal_text [OF digs _ _ _ _ fits] by (simp add: ten_to_60)
  have n: "js_Number mock_env ''18'' = Num (of_nat 18)"
    using js_Number_digits [OF eighteen(1), of mock_env] by (simp add: eighteen)
  have big: "abi_uint 256 (bigint_toString (int (10 ^ 78))) = Inl (Error ''value out-of-bounds'')"
    by (simp add: abi_uint_toString)
  show ?thesis
    unfolding ERC20TransferPolicy_encode_def ok
    using digs pu big
    by (simp add: and_then_def oversized_policy_def decimal_text_def n abi_uint8_18 eighteen digit_chars)
qed

text \<open>
  The other two bounds are needed as well: \<open>parseUnits\<close> refuses more than 80 decimals,
  and the address coder refuses a mixed-case address without its checksum.
\<close>

lemma eighty_one: "list_all is_digit ''81''" "nat_of_digits ''81'' = 81"
  by (simp_all add: is_digit_code nat_of_digits_def value_in_def digit_value_def in_range_def)

lemma match_fixed_one: "match_fixed ''1'' = Some (False, ''1'', [])"
  by (simp add: match_fixed_def Let_def is_digit_code)

lemma erc20_encode_rejects_81_decimals:
  "erc20TransferPolicySchema_parse
     \<lparr>ERC20TransferPolicyType.type = ''ERC20Transfer'', ERC20TransferPolicyType.version = ''1.0.0'',
      erc20Decimals = ''81'', ERC20TransferPolicyType.maxAmount = ''1'',
      ERC20TransferPolicyType.allowedTokens = [], allowedRecipients = []\<rparr> = Inr ()
   \<and> ERC20TransferPolicy_encode env
     \<lparr>ERC20TransferPolicyType.type = ''ERC20Transfer'', ERC20TransferPolicyType.version = ''1.0.0'',
      erc20Decimals = ''81'', ERC20TransferPolicyType.maxAmount = ''1'',
      ERC20TransferPolicyType.allowedTokens = [], allowedRecipients = []\<rparr>
     = Inl (Error ''invalid FixedNumber decimals (too large)'')"
proof -
  have n: "js_Number env ''81'' = Num 81"
    using js_Number_digits [OF eighty_one(1), of env] by (simp add: eighty_one)
  have g: "getNumber (Num 81) = Inr 81"
    by (simp add: getNumber_def)
  have pu: "parseUnits ''1'' (Num 81) = Inl (Error ''invalid FixedNumber decimals (too large)'')"
    by (simp add: parseUnits_def g and_then_def fromString_def match_fixed_one)
  have ok: "erc20TransferPolicySchema_parse
     \<lparr>ERC20TransferPolicyType.type = ''ERC20Transfer'', ERC20TransferPolicyType.version = ''1.0.0'',
      erc20Decimals = ''81'', ERC20TransferPolicyType.maxAmount = ''1'',
      ERC20TransferPolicyType.allowedTokens = [], allowedRecipients = []\<rparr> = Inr ()"
    by (simp add: erc20_policy_schema)
  show ?thesis
    by (simp add: ERC20TransferPolicy_encode_def ok n pu and_then_def)
qed

lemma abi_address_rejects_bad_checksum:
  "rx_test rx_ethereum_address a \<Longrightarrow> mixed_case a \<Longrightarrow> \<not> checksum_ok env a \<Longrightarrow>
   abi_address env a = Inl (Error ''bad address checksum'')"
  by (simp add: abi_address_def)

lemma incidental_executes_with: "incidental (executes_with P)"
  by (auto simp: incidental_def elim: executes.elims)

lemma benign_executes_with: "benign (executes_with P)"
  by (simp add: benign_def)



lemma hello_executes_with:
  assumes "\<And>sigs. P \<lparr>sessionSigs = sigs, code = Some HELLO_LIT_CODE, ipfsId = None,
            jsParams = VObj [(''magicNumber'', VNum (or_number (magicNumber input) (Num 42)))]\<rparr>"
  shows "list_all (executes_with P) (emitted (litActionProvider env config (Lit_hello input)) w)"
proof -
  have "emits anywhere (executes_with P) (hello_try env (finalConfig config) input)"
    by (intro hello_try_emits getLitClient_anywhere benign_executes_with incidental_executes_with)
       (simp add: assms)
  then have "emits anywhere (executes_with P) (litActionProvider env config (Lit_hello input))"
    by (simp add: hello_handler_def emits_try_catch emits_ret)
  then show ?thesis by (rule emits_emitted)
qed

lemma hello_js_executes_with:
  assumes "\<And>sigs magic. member raw ''magicNumber'' = Inr magic \<Longrightarrow>
            P \<lparr>sessionSigs = sigs, code = Some HELLO_LIT_CODE, ipfsId = None,
               jsParams = VObj [(''magicNumber'', VJson (magic_or_42 magic))]\<rparr>"
  shows "list_all (executes_with P) (emitted (litActionProvider_js env config Hello raw) w)"
proof -
  have "emits anywhere (executes_with P) (hello_try_js env (finalConfig config) raw)"
    by (intro hello_try_js_emits getLitClient_js_anywhere benign_executes_with incidental_executes_with)
       (simp add: assms)
  then have "emits anywhere (executes_with P) (litActionProvider_js env config Hello raw)"
    by (simp add: hello_handler_js_def emits_try_catch emits_ret)
  then show ?thesis by (rule emits_emitted)
qed

lemma magic_or_42_truthy: "truthy (magic_or_42 magic)"
  by (cases magic) (simp_all add: magic_or_42_def)

lemma member_object: "member (JObj kvs) k = Inr (map_of kvs k)"
  by (simp add: member_def property_def)

lemma hello_reaches_executeJs:
  assumes "litNodeClient w = Some c" "getAddress_outcome env = Inr a" "getNetwork_outcome env = None"
    and "getSessionSigs_outcome env c
           \<lparr>chain = ''ethereum'', expiration = expiry_iso env, resource = ''*'',
            ability = ''lit-action-execution'', auth_walletAddress = a\<rparr> = Inr sigs"
  shows "emitted (litActionProvider env config (Lit_hello input)) w
         = [Wallet_getAddress, Wallet_getNetwork,
            Client_getSessionSigs (handle c)
              \<lparr>chain = ''ethereum'', expiration = expiry_iso env, resource = ''*'',
               ability = ''lit-action-execution'', auth_walletAddress = a\<rparr>,
            Client_executeJs (handle c)
              \<lparr>sessionSigs = sigs, code = Some HELLO_LIT_CODE, ipfsId = None,
               jsParams = VObj [(''magicNumber'', VNum (or_number (magicNumber input) (Num 42)))]\<rparr>]"
  using assms
  by (simp add: emitted_def hello_handler_def hello_try_def io_defs getLitClient_def getSessionSigs_def
        split: sum.splits)

text \<open>
  C10: invoked with \<open>magicNumber\<close> equal to \<open>0\<close>, the hello handler passes \<open>42\<close> to
  \<open>executeJs\<close>: every \<open>executeJs\<close> request it makes carries \<open>magicNumber: 42\<close>, and it
  does make that request, last, once the wallet calls and the session signatures have
  succeeded. For no input at all does a request carry \<open>0\<close>. The same holds for the
  JavaScript file.
\<close>

theorem C10_zero_is_replaced:
  "(magicNumber input = Some (Num 0) \<longrightarrow>
      list_all (executes_with (sends_magic (VNum (Num 42))))
        (emitted (litActionProvider env config (Lit_hello input)) w))
   \<and> list_all (executes_with (\<lambda>request. \<not> sends_magic (VNum (Num 0)) request))
        (emitted (litActionProvider env config (Lit_hello input)) w)
   \<and> (map_of kvs ''magicNumber'' = Some (JNum (Num 0)) \<longrightarrow>
      list_all (executes_with (sends_magic (VJson (JNum (Num 42)))))
        (emitted (litActionProvider_js env config Hello (JObj kvs)) w))
   \<and> list_all (executes_with (\<lambda>request. \<not> sends_magic (VJson (JNum (Num 0))) request))
        (emitted (litActionProvider_js env config Hello raw) w)
   \<and> (magicNumber input = Some (Num 0) \<and> litNodeClient w = Some c
        \<and> getAddress_outcome env = Inr a \<and> getNetwork_outcome env = None
        \<and> getSessionSigs_outcome env c
             \<lparr>chain = ''ethereum'', expiration = expiry_iso env, resource = ''*'',
              ability = ''lit-action-execution'', auth_walletAddress = a\<rparr> = Inr sigs \<longrightarrow>
      last (emitted (litActionProvider env config (Lit_hello input)) w)
        = Client_executeJs (handle c)
            \<lparr>sessionSigs = sigs, code = Some HELLO_LIT_CODE, ipfsId = None,
             jsParams = VObj [(''magicNumber'', VNum (Num 42))]\<rparr>)"
proof (intro conjI impI)
  assume "magicNumber input = Some (Num 0)"
  then show "list_all (executes_with (sends_magic (VNum (Num 42))))
        (emitted (litActionProvider env config (Lit_hello input)) w)"
    by (intro hello_executes_with) (simp add: sends_magic_def or_number_def)
next
  have "or_number (magicNumber input) (Num 42) \<noteq> Num 0"
    by (auto simp: or_number_def split: option.splits)
  then show "list_all (executes_with (\<lambda>request. \<not> sends_magic (VNum (Num 0)) request))
        (emitted (litActionProvider env config (Lit_hello input)) w)"
    by (intro hello_executes_with) (simp add: sends_magic_def)
next
  assume zero: "map_of kvs ''magicNumber'' = Some (JNum (Num 0))"
  show "list_all (executes_with (sends_magic (VJson (JNum (Num 42)))))
        (emitted (litActionProvider_js env config Hello (JObj kvs)) w)"
    by (intro hello_js_executes_with) (auto simp: sends_magic_def member_object magic_or_42_def zero)
next
  have "magic_or_42 magic \<noteq> JNum (Num 0)" for magic
    using magic_or_42_truthy [of magic] by auto
  then show "list_all (executes_with (\<lambda>request. \<not> sends_magic (VJson (JNum (Num 0))) request))
        (emitted (litActionProvider_js env config Hello raw) w)"
    by (intro hello_js_executes_with) (simp add: sends_magic_def)
next
  assume reached: "magicNumber input = Some (Num 0) \<and> litNodeClient w = Some c
        \<and> getAddress_outcome env = Inr a \<and> getNetwork_outcome env = None
        \<and> getSessionSigs_outcome env c
             \<lparr>chain = ''ethereum'', expiration = expiry_iso env, resource = ''*'',
              ability = ''lit-action-execution'', auth_walletAddress = a\<rparr> = Inr sigs"
  then have "emitted (litActionProvider env config (Lit_hello input)) w
         = [Wallet_getAddress, Wallet_getNetwork,
            Client_getSessionSigs (handle c)
              \<lparr>chain = ''ethereum'', expiration = expiry_iso env, resource = ''*'',
               ability = ''lit-action-execution'', auth_walletAddress = a\<rparr>,
            Client_executeJs (handle c)
              \<lparr>sessionSigs = sigs, code = Some HELLO_LIT_CODE, ipfsId = None,
               jsParams = VObj [(''magicNumber'', VNum (or_number (magicNumber input) (Num 42)))]\<rparr>]"
    by (intro hello_reaches_executeJs) simp_all
  with reached show "last (emitted (litActionProvider env config (Lit_hello input)) w)
        = Client_executeJs (handle c)
            \<lparr>sessionSigs = sigs, code = Some HELLO_LIT_CODE, ipfsId = None,
             jsParams = VObj [(''magicNumber'', VNum (Num 42))]\<rparr>"
    by (simp add: or_number_def)
qed

lemma hello_zero_run:
  "emitted (litActionProvider mock_env no_config (Lit_hello \<lparr>magicNumber = Some (Num 0)\<rparr>)) fresh
   = [New_LitNodeClient Datil_dev False, Client_connect 0, Wallet_getAddress, Wallet_getNetwork,
      Client_getSessionSigs 0
        \<lparr>chain = ''ethereum'', expiration = ''2025-01-01T00:10:00.000Z'', resource = ''*'',
         ability = ''lit-action-execution'', auth_walletAddress = ''0x1234567890123456789012345678901234567890''\<rparr>,
      Client_executeJs 0
        \<lparr>sessionSigs = JObj [], code = Some HELLO_LIT_CODE, ipfsId = None,
         jsParams = VObj [(''magicNumber'', VNum (Num 42))]\<rparr>]"
  by (simp add: emitted_def hello_handler_def hello_try_def run_defs)

lemma hello_js_zero_run:
  "emitted (litActionProvider_js mock_env no_config Hello (JObj [(''magicNumber'', JNum (Num 0))])) fresh
   = [New_LitNodeClient Datil_dev False, Client_connect 0, Wallet_getAddress,
      Client_getSessionSigs 0
        \<lparr>chain = ''ethereum'', expiration = ''2025-01-01T00:10:00.000Z'', resource = ''*'',
         ability = ''lit-action-execution'', auth_walletAddress = ''0x1234567890123456789012345678901234567890''\<rparr>,
      Client_executeJs 0
        \<lparr>sessionSigs = JObj [], code = Some HELLO_LIT_CODE, ipfsId = None,
         jsParams = VObj [(''magicNumber'', VJson (JNum (Num 42)))]\<rparr>]"
  by (simp add: emitted_def hello_handler_js_def hello_try_js_def run_defs magic_or_42_def)

theorem C10_zero_is_replaced_witness:
  "list_all (executes_with (sends_magic (VNum (Num 42))))
     (emitted (litActionProvider mock_env no_config (Lit_hello \<lparr>magicNumber = Some (Num 0)\<rparr>)) fresh)
   \<and> list_ex executes
     (emitted (litActionProvider mock_env no_config (Lit_hello \<lparr>magicNumber = Some (Num 0)\<rparr>)) fresh)
   \<and> list_all (executes_with (sends_magic (VJson (JNum (Num 42)))))
     (emitted (litActionProvider_js mock_env no_config Hello (JObj [(''magicNumber'', JNum (Num 0))])) fresh)
   \<and> list_ex executes
     (emitted (litActionProvider_js mock_env no_config Hello (JObj [(''magicNumber'', JNum (Num 0))])) fresh)"
  using C10_zero_is_replaced [of "\<lparr>magicNumber = Some (Num 0)\<rparr>" mock_env no_config fresh
      "[(''magicNumber'', JNum (Num 0))]"]
    hello_zero_run hello_js_zero_run
  by simp

lemma carries_encoded:
  assumes "ERC20TransferPolicy_encode env (erc20_policy input) = Inr enc"
  shows "carries_transfer_policy env input
           \<lparr>sessionSigs = sigs, code = None, ipfsId = cid,
            jsParams =
              VObj [(''params'',
                     VObj [(''pkpEthAddress'', VStr (LitErc20Transfer.pkpEthAddress input)),
                           (''tokenIn'', VStr (tokenAddress input)),
                           (''recipientAddress'', VStr (recipientAddress input)),
                           (''amountIn'', VStr (amount input)),
                           (''chainId'', VStr (LitErc20Transfer.chainId input)),
                           (''rpcUrl'', VStr (LitErc20Transfer.rpcUrl input)),
                           (''encodedPolicy'', VAbi enc)])]\<rparr>"
proof -
  from erc20_policy_encoded [OF assms] obtain units token recipient where
    "enc = Tuple [Tuple [Uint 8 18, Uint 256 units, Array [Address token], Array [Address recipient]]]"
    "parseUnits (amount input) (Num 18) = Inr (int units)"
    "abi_address env (tokenAddress input) = Inr (Address token)"
    "abi_address env (recipientAddress input) = Inr (Address recipient)" by blast
  then show ?thesis by (simp add: carries_transfer_policy_def transfer_request_def)
qed

lemma incidental_not_executes: "incidental (\<lambda>ev. \<not> executes ev)"
  by (simp add: incidental_def)

lemma benign_not_executes: "benign (\<lambda>ev. \<not> executes ev)"
  by (simp add: benign_def)

lemma none_executes: "list_all (\<lambda>ev. \<not> executes ev) evs \<Longrightarrow> \<not> list_ex executes evs"
  by (simp add: list_all_iff list_ex_iff)

lemma getLitClient_Inr:
  assumes "getLitClient env config w = (Inr c, w1)"
  shows "litNodeClient w1 = Some c \<and> (\<exists>evs. trace w1 = trace w @ evs)"
proof (cases "litNodeClient w")
  case None
  from assms getLitClient_fresh [OF None, of env config] show ?thesis
    by (auto split: option.splits)
next
  case (Some c')
  from assms getLitClient_held [OF Some, of env config] Some show ?thesis by auto
qed

lemma getLitClient_js_Inr:
  assumes "getLitClient_js env config w = (Inr c, w1)"
  shows "litNodeClient w1 = Some c \<and> (\<exists>evs. trace w1 = trace w @ evs)"
proof (cases "litNodeClient w")
  case None
  from assms getLitClient_js_fresh [OF None, of env config] show ?thesis
    by (auto split: option.splits sum.splits)
next
  case (Some c')
  from assms getLitClient_js_held [OF Some, of env config] Some show ?thesis by auto
qed

lemma network_of_final:
  "or_network (litNetwork (finalConfig config)) Datil_dev = or_network (litNetwork config) Datil_dev"
  by (simp add: finalConfig_def or_network_def split: option.splits)

lemma erc20_transfer_reaches_executeJs:
  assumes c: "getLitClient env (finalConfig config) w = (Inr c, w1)"
    and a: "getAddress_outcome env = Inr a" and n: "getNetwork_outcome env = None"
    and s: "getSessionSigs_outcome env c
           \<lparr>chain = ''ethereum'', expiration = expiry_iso env, resource = ''*'',
            ability = ''lit-action-execution'', auth_walletAddress = a\<rparr> = Inr sigs"
    and e: "ERC20TransferPolicy_encode env (erc20_policy input) = Inr enc"
  shows "emitted (litActionProvider env config (Lit_erc20_transfer input)) w
         = emitted (getLitClient env (finalConfig config)) w
           @ [Wallet_getAddress, Wallet_getNetwork,
              Client_getSessionSigs (handle c)
                \<lparr>chain = ''ethereum'', expiration = expiry_iso env, resource = ''*'',
                 ability = ''lit-action-execution'', auth_walletAddress = a\<rparr>,
              Client_executeJs (handle c)
                \<lparr>sessionSigs = sigs, code = None,
                 ipfsId = Some (erc20Transfer (IPFS_CIDS (or_network (litNetwork config) Datil_dev))),
                 jsParams =
                   VObj [(''params'',
                          VObj [(''pkpEthAddress'', VStr (LitErc20Transfer.pkpEthAddress input)),
                                (''tokenIn'', VStr (tokenAddress input)),
                                (''recipientAddress'', VStr (recipientAddress input)),
                                (''amountIn'', VStr (amount input)),
                                (''chainId'', VStr (LitErc20Transfer.chainId input)),
                                (''rpcUrl'', VStr (LitErc20Transfer.rpcUrl input)),
                                (''encodedPolicy'', VAbi enc)])]\<rparr>]"
proof -
  from getLitClient_Inr [OF c] obtain evs where
    slot: "litNodeClient w1 = Some c" and tr: "trace w1 = trace w @ evs" by blast
  have held: "getLitClient env (finalConfig config) w1 = (Inr c, w1)"
    by (rule getLitClient_held [OF slot])
  show ?thesis
    by (simp add: emitted_def erc20_transfer_handler_def erc20_transfer_try_def getSessionSigs_def
          client_executeJs_def io_defs Let_def c held a n s e tr network_of_final
          split: sum.splits prod.splits)
qed

lemma erc20_transfer_js_reaches_executeJs:
  assumes p: "LitErc20TransferSchema_parse env raw = Inr parsed"
    and c: "getLitClient_js env (finalConfig config) w = (Inr c, w1)"
    and a: "getAddress_outcome env = Inr a"
    and s: "getSessionSigs_outcome env c
           \<lparr>chain = ''ethereum'', expiration = expiry_iso env, resource = ''*'',
            ability = ''lit-action-execution'', auth_walletAddress = a\<rparr> = Inr sigs"
    and e: "ERC20TransferPolicy_encode env (erc20_policy parsed) = Inr enc"
  shows "emitted (litActionProvider_js env config Erc20_transfer raw) w
         = emitted (getLitClient_js env (finalConfig config)) w
           @ [Wallet_getAddress,
              Client_getSessionSigs (handle c)
                \<lparr>chain = ''ethereum'', expiration = expiry_iso env, resource = ''*'',
                 ability = ''lit-action-execution'', auth_walletAddress = a\<rparr>,
              Client_executeJs (handle c)
                \<lparr>sessionSigs = sigs, code = None,
                 ipfsId = Some (erc20Transfer (IPFS_CIDS (or_network (litNetwork config) Datil_dev))),
                 jsParams =
                   VObj [(''params'',
                          VObj [(''pkpEthAddress'', VStr (LitErc20Transfer.pkpEthAddress parsed)),
                                (''tokenIn'', VStr (tokenAddress parsed)),
                                (''recipientAddress'', VStr (recipientAddress parsed)),
                                (''amountIn'', VStr (amount parsed)),
                                (''chainId'', VStr (LitErc20Transfer.chainId parsed)),
                                (''rpcUrl'', VStr (LitErc20Transfer.rpcUrl parsed)),
                                (''encodedPolicy'', VAbi enc)])]\<rparr>]"
proof -
  from getLitClient_js_Inr [OF c] obtain evs where
    slot: "litNodeClient w1 = Some c" and tr: "trace w1 = trace w @ evs" by blast
  have held: "getLitClient_js env (finalConfig config) w1 = (Inr c, w1)"
    by (rule getLitClient_js_held [OF slot])
  show ?thesis
    by (simp add: emitted_def erc20_transfer_handler_js_def erc20_transfer_try_js_def getSessionSigs_js_def
          client_executeJs_def io_defs Let_def p c held a s e tr network_of_final
          split: sum.splits prod.splits)
qed

lemma requested_policy:
  "\<lparr>ERC20TransferPolicyType.type = ''ERC20Transfer'', ERC20TransferPolicyType.version = ''1.0.0'',
             erc20Decimals = ''18'', ERC20TransferPolicyType.maxAmount = amount input,
             ERC20TransferPolicyType.allowedTokens = [tokenAddress input],
             allowedRecipients = [recipientAddress input]\<rparr> = erc20_policy input"
  by (simp add: erc20_policy_def policy_version_def)

text \<open>
  C9: every \<open>executeJs\<close> request the transfer handler makes carries, beside the fields of
  the input, the encoding of a policy with eighteen decimals, the amount in units of
  \<open>10^-18\<close>, one token and one recipient, the requested ones. And the handler does make
  that request: once the client is there, the wallet and the session signatures have
  answered, and \<open>encode\<close> has returned on the policy with \<open>erc20Decimals = "18"\<close>,
  \<open>maxAmount = amount\<close>, \<open>allowedTokens = [tokenAddress]\<close> and
  \<open>allowedRecipients = [recipientAddress]\<close>, the calls of the handler after those of
  \<open>getLitClient\<close> are the wallet calls, \<open>getSessionSigs\<close> and one \<open>executeJs\<close>, whose
  \<open>encodedPolicy\<close> is what \<open>encode\<close> returned. In the JavaScript file the same holds for
  the parsed input, and no request is made when parsing fails.
\<close>

theorem C9_transfer_policy_is_the_request:
  "list_all (executes_with (carries_transfer_policy env input))
        (emitted (litActionProvider env config (Lit_erc20_transfer input)) w)
   \<and> (getLitClient env (finalConfig config) w = (Inr c, wt)
      \<and> getAddress_outcome env = Inr a \<and> getNetwork_outcome env = None
      \<and> getSessionSigs_outcome env c
            \<lparr>chain = ''ethereum'', expiration = expiry_iso env, resource = ''*'',
             ability = ''lit-action-execution'', auth_walletAddress = a\<rparr> = Inr sigs
      \<and> ERC20TransferPolicy_encode env
            \<lparr>ERC20TransferPolicyType.type = ''ERC20Transfer'', ERC20TransferPolicyType.version = ''1.0.0'',
             erc20Decimals = ''18'', ERC20TransferPolicyType.maxAmount = amount input,
             ERC20TransferPolicyType.allowedTokens = [tokenAddress input],
             allowedRecipients = [recipientAddress input]\<rparr> = Inr enc \<longrightarrow>
      emitted (litActionProvider env config (Lit_erc20_transfer input)) w
      = emitted (getLitClient env (finalConfig config)) w
        @ [Wallet_getAddress, Wallet_getNetwork,
           Client_getSessionSigs (handle c)
             \<lparr>chain = ''ethereum'', expiration = expiry_iso env, resource = ''*'',
             ability = ''lit-action-execution'', auth_walletAddress = a\<rparr>,
           Client_executeJs (handle c)
             \<lparr>sessionSigs = sigs, code = None,
              ipfsId = Some (erc20Transfer (IPFS_CIDS (or_network (litNetwork config) Datil_dev))),
              jsParams =
                VObj [(''params'',
                       VObj [(''pkpEthAddress'', VStr (LitErc20Transfer.pkpEthAddress input)),
                             (''tokenIn'', VStr (tokenAddress input)),
                             (''recipientAddress'', VStr (recipientAddress input)),
                             (''amountIn'', VStr (amount input)),
                             (''chainId'', VStr (LitErc20Transfer.chainId input)),
                             (''rpcUrl'', VStr (LitErc20Transfer.rpcUrl input)),
                             (''encodedPolicy'', VAbi enc)])]\<rparr>])
   \<and> (case LitErc20TransferSchema_parse env raw of
         Inr parsed \<Rightarrow>
           list_all (executes_with (carries_transfer_policy env parsed))
             (emitted (litActionProvider_js env config Erc20_transfer raw) w)
       | Inl e \<Rightarrow> \<not> list_ex executes (emitted (litActionProvider_js env config Erc20_transfer raw) w))
   \<and> (LitErc20TransferSchema_parse env raw = Inr parsed
      \<and> getLitClient_js env (finalConfig config) w = (Inr c', wj)
      \<and> getAddress_outcome env = Inr a'
      \<and> getSessionSigs_outcome env c'
            \<lparr>chain = ''ethereum'', expiration = expiry_iso env, resource = ''*'',
             ability = ''lit-action-execution'', auth_walletAddress = a'\<rparr> = Inr sigs'
      \<and> ERC20TransferPolicy_encode env
            \<lparr>ERC20TransferPolicyType.type = ''ERC20Transfer'', ERC20TransferPolicyType.version = ''1.0.0'',
             erc20Decimals = ''18'', ERC20TransferPolicyType.maxAmount = amount parsed,
             ERC20TransferPolicyType.allowedTokens = [tokenAddress parsed],
             allowedRecipients = [recipientAddress parsed]\<rparr> = Inr enc' \<longrightarrow>
      emitted (litActionProvider_js env config Erc20_transfer raw) w
      = emitted (getLitClient_js env (finalConfig config)) w
        @ [Wallet_getAddress,
           Client_getSessionSigs (handle c')
             \<lparr>chain = ''ethereum'', expiration = expiry_iso env, resource = ''*'',
             ability = ''lit-action-execution'', auth_walletAddress = a'\<rparr>,
           Client_executeJs (handle c')
             \<lparr>sessionSigs = sigs', code = None,
              ipfsId = Some (erc20Transfer (IPFS_CIDS (or_network (litNetwork config) Datil_dev))),
              jsParams =
                VObj [(''params'',
                       VObj [(''pkpEthAddress'', VStr (LitErc20Transfer.pkpEthAddress parsed)),
                             (''tokenIn'', VStr (tokenAddress parsed)),
                             (''recipientAddress'', VStr (recipientAddress parsed)),
                             (''amountIn'', VStr (amount parsed)),
                             (''chainId'', VStr (LitErc20Transfer.chainId parsed)),
                             (''rpcUrl'', VStr (LitErc20Transfer.rpcUrl parsed)),
                             (''encodedPolicy'', VAbi enc')])]\<rparr>])"
proof (intro conjI impI)
  have "emits anywhere (executes_with (carries_transfer_policy env input))
          (erc20_transfer_try env (finalConfig config) input)"
    by (intro erc20_transfer_try_emits getLitClient_anywhere benign_executes_with incidental_executes_with)
       (simp add: carries_encoded)
  then have "emits anywhere (executes_with (carries_transfer_policy env input))
          (litActionProvider env config (Lit_erc20_transfer input))"
    by (simp add: erc20_transfer_handler_def emits_try_catch emits_ret)
  then show "list_all (executes_with (carries_transfer_policy env input))
        (emitted (litActionProvider env config (Lit_erc20_transfer input)) w)"
    by (rule emits_emitted)
next
  show "case LitErc20TransferSchema_parse env raw of
         Inr parsed \<Rightarrow>
           list_all (executes_with (carries_transfer_policy env parsed))
             (emitted (litActionProvider_js env config Erc20_transfer raw) w)
       | Inl e \<Rightarrow> \<not> list_ex executes (emitted (litActionProvider_js env config Erc20_transfer raw) w)"
  proof (cases "LitErc20TransferSchema_parse env raw")
    case (Inr parsed)
    have "emits anywhere (executes_with (carries_transfer_policy env parsed))
            (erc20_transfer_try_js env (finalConfig config) raw)"
      by (intro erc20_transfer_try_js_emits getLitClient_js_anywhere benign_executes_with
            incidental_executes_with)
         (simp add: Inr carries_encoded)
    then have "emits anywhere (executes_with (carries_transfer_policy env parsed))
            (litActionProvider_js env config Erc20_transfer raw)"
      by (simp add: erc20_transfer_handler_js_def emits_try_catch emits_ret)
    from emits_emitted [OF this] Inr show ?thesis by simp
  next
    case (Inl e)
    have "emits anywhere (\<lambda>ev. \<not> executes ev) (erc20_transfer_try_js env (finalConfig config) raw)"
      by (intro erc20_transfer_try_js_emits getLitClient_js_anywhere benign_not_executes
            incidental_not_executes)
         (simp add: Inl)
    then have "emits anywhere (\<lambda>ev. \<not> executes ev) (litActionProvider_js env config Erc20_transfer raw)"
      by (simp add: erc20_transfer_handler_js_def emits_try_catch emits_ret)
    from none_executes [OF emits_emitted [OF this]] Inl show ?thesis by simp
  qed
next
  assume h: "getLitClient env (finalConfig config) w = (Inr c, wt)
      \<and> getAddress_outcome env = Inr a \<and> getNetwork_outcome env = None
      \<and> getSessionSigs_outcome env c
            \<lparr>chain = ''ethereum'', expiration = expiry_iso env, resource = ''*'',
             ability = ''lit-action-execution'', auth_walletAddress = a\<rparr> = Inr sigs
      \<and> ERC20TransferPolicy_encode env
            \<lparr>ERC20TransferPolicyType.type = ''ERC20Transfer'', ERC20TransferPolicyType.version = ''1.0.0'',
             erc20Decimals = ''18'', ERC20TransferPolicyType.maxAmount = amount input,
             ERC20TransferPolicyType.allowedTokens = [tokenAddress input],
             allowedRecipients = [recipientAddress input]\<rparr> = Inr enc"
  then show "emitted (litActionProvider env config (Lit_erc20_transfer input)) w
      = emitted (getLitClient env (finalConfig config)) w
        @ [Wallet_getAddress, Wallet_getNetwork,
           Client_getSessionSigs (handle c)
             \<lparr>chain = ''ethereum'', expiration = expiry_iso env, resource = ''*'',
             ability = ''lit-action-execution'', auth_walletAddress = a\<rparr>,
           Client_executeJs (handle c)
             \<lparr>sessionSigs = sigs, code = None,
              ipfsId = Some (erc20Transfer (IPFS_CIDS (or_network (litNetwork config) Datil_dev))),
              jsParams =
                VObj [(''params'',
                       VObj [(''pkpEthAddress'', VStr (LitErc20Transfer.pkpEthAddress input)),
                             (''tokenIn'', VStr (tokenAddress input)),
                             (''recipientAddress'', VStr (recipientAddress input)),
                             (''amountIn'', VStr (amount input)),
                             (''chainId'', VStr (LitErc20Transfer.chainId input)),
                             (''rpcUrl'', VStr (LitErc20Transfer.rpcUrl input)),
                             (''encodedPolicy'', VAbi enc)])]\<rparr>]"
    unfolding requested_policy
    by (intro erc20_transfer_reaches_executeJs) simp_all
next
  assume h: "LitErc20TransferSchema_parse env raw = Inr parsed
      \<and> getLitClient_js env (finalConfig config) w = (Inr c', wj)
      \<and> getAddress_outcome env = Inr a'
      \<and> getSessionSigs_outcome env c'
            \<lparr>chain = ''ethereum'', expiration = expiry_iso env, resource = ''*'',
             ability = ''lit-action-execution'', auth_walletAddress = a'\<rparr> = Inr sigs'
      \<and> ERC20TransferPolicy_encode env
            \<lparr>ERC20TransferPolicyType.type = ''ERC20Transfer'', ERC20TransferPolicyType.version = ''1.0.0'',
             erc20Decimals = ''18'', ERC20TransferPolicyType.maxAmount = amount parsed,
             ERC20TransferPolicyType.allowedTokens = [tokenAddress parsed],
             allowedRecipients = [recipientAddress parsed]\<rparr> = Inr enc'"
  then show "emitted (litActionProvider_js env config Erc20_transfer raw) w
      = emitted (getLitClient_js env (finalConfig config)) w
        @ [Wallet_getAddress,
           Client_getSessionSigs (handle c')
             \<lparr>chain = ''ethereum'', expiration = expiry_iso env, resource = ''*'',
             ability = ''lit-action-execution'', auth_walletAddress = a'\<rparr>,
           Client_executeJs (handle c')
             \<lparr>sessionSigs = sigs', code = None,
              ipfsId = Some (erc20Transfer (IPFS_CIDS (or_network (litNetwork config) Datil_dev))),
              jsParams =
                VObj [(''params'',
                       VObj [(''pkpEthAddress'', VStr (LitErc20Transfer.pkpEthAddress parsed)),
                             (''tokenIn'', VStr (tokenAddress parsed)),
                             (''recipientAddress'', VStr (recipientAddress parsed)),
                             (''amountIn'', VStr (amount parsed)),
                             (''chainId'', VStr (LitErc20Transfer.chainId parsed)),
                             (''rpcUrl'', VStr (LitErc20Transfer.rpcUrl parsed)),
                             (''encodedPolicy'', VAbi enc')])]\<rparr>]"
    unfolding requested_policy
    by (intro erc20_transfer_js_reaches_executeJs) simp_all
qed

lemma sample_transfer_encoded:
  "ERC20TransferPolicy_encode mock_env sample_policy
     = Inr (Tuple [Tuple [Uint 8 18, Uint 256 1500000000000000000, Array [Address 170], Array [Address 187]]])"
proof -
  have a: "erc20Decimals sample_policy = ''18''" "ERC20TransferPolicyType.maxAmount sample_policy = decimal_text ''1'' ''5''"
    "ERC20TransferPolicyType.allowedTokens sample_policy = [''0x00000000000000000000000000000000000000aa'']"
    "allowedRecipients sample_policy = [''0x00000000000000000000000000000000000000bb'']"
    by (simp_all add: sample_policy_def decimal_text_def)
  have h: "list_all is_digit (erc20Decimals sample_policy)" "erc20Decimals sample_policy \<noteq> []"
    "''1'' @ ''5'' \<noteq> []" "length ''5'' \<le> nat_of_digits (erc20Decimals sample_policy)"
    "nat_of_digits (erc20Decimals sample_policy) \<le> 80"
    "scaled ''1'' ''5'' (nat_of_digits (erc20Decimals sample_policy)) < 2 ^ 256"
    "\<forall>a\<in>set (ERC20TransferPolicyType.allowedTokens sample_policy @ allowedRecipients sample_policy).
           mixed_case a \<longrightarrow> checksum_ok mock_env a"
    by (simp_all add: a eighteen one_five not_mixed digit_chars del: rx_test.simps)
  have pu: "parseUnits (decimal_text ''1'' ''5'') (Num (of_nat 18)) = Inr (int (scaled ''1'' ''5'' 18))"
    by (intro parseUnits_decimal_text) (simp_all add: one_five digit_chars)
  have n: "js_Number mock_env ''18'' = Num (of_nat 18)"
    using js_Number_digits [OF eighteen(1), of mock_env] by (simp add: eighteen)
  have amt: "abi_uint 256 (bigint_toString (int (scaled ''1'' ''5'' 18))) = Inr (Uint 256 1500000000000000000)"
    by (simp add: abi_uint_toString one_five)
  have tok: "for_each (abi_address mock_env) [''0x00000000000000000000000000000000000000aa''] = Inr [Address 170]"
    "for_each (abi_address mock_env) [''0x00000000000000000000000000000000000000bb''] = Inr [Address 187]"
    by (simp_all add: abi_address_accepted sample_addresses not_mixed sample_hex_values and_then_def
          del: rx_test.simps)
  show ?thesis
    unfolding ERC20TransferPolicy_encode_def sample_policy_ok a n pu amt tok abi_uint8_18 and_then_def sum.case
    by simp
qed

lemma mock_env_sel:
  "connect_outcome mock_env = (\<lambda>c. None)"
  "getAddress_outcome mock_env = Inr ''0x1234567890123456789012345678901234567890''"
  "getNetwork_outcome mock_env = None"
  "getSessionSigs_outcome mock_env = (\<lambda>c r. Inr (JObj []))"
  "executeJs_outcome mock_env = (\<lambda>c r. Inr (JObj [(''response'', JStr ''success'')]))"
  "encryptString_outcome mock_env = (\<lambda>c a s. Inr (''encrypted'', ''hash''))"
  "decryptToString_outcome mock_env = (\<lambda>c r. Inr ''SECRET=value'')"
  "readFile_fault mock_env = (\<lambda>p. None)"
  "writeFile_fault mock_env = (\<lambda>p. None)"
  "expiry_iso mock_env = ''2025-01-01T00:10:00.000Z''"
  "now_iso mock_env = ''2025-01-01T00:00:00.000Z''"
  "JSON_stringify mock_env = quote"
  "JSON_stringify_indented mock_env = quote"
  "JSON_parse mock_env = (\<lambda>s. Inr JNull)"
  by (simp_all add: mock_env_def)

lemmas run_core = io_defs getLitClient_def getSessionSigs_def getLitClient_js_def getSessionSigs_js_def
  finalConfig_def or_network_def or_bool_def or_string_def or_number_def string_truthy_def
  response_or_self_def member_def property_def and_then_def count_clients_def
  fresh_def no_config_def with_env_file_def mock_env_sel

lemma sample_transfer_sel:
  "LitErc20Transfer.pkpEthAddress sample_transfer = ''0x1234567890123456789012345678901234567890''"
  "tokenAddress sample_transfer = ''0x00000000000000000000000000000000000000aa''"
  "recipientAddress sample_transfer = ''0x00000000000000000000000000000000000000bb''"
  "amount sample_transfer = ''1.5''"
  "LitErc20Transfer.chainId sample_transfer = ''8453''"
  "LitErc20Transfer.rpcUrl sample_transfer = ''https://mainnet.base.org''"
  by (simp_all add: sample_transfer_def sample_address_def)

lemma sample_transfer_parsed:
  "LitErc20TransferSchema_parse mock_env sample_transfer_input = Inr sample_transfer"
  by code_simp

lemma sample_client:
  "getLitClient mock_env (finalConfig no_config) fresh
   = (Inr \<lparr>handle = 0, client_litNetwork = Datil_dev, client_debug = False\<rparr>,
      \<lparr>litNodeClient = Some \<lparr>handle = 0, client_litNetwork = Datil_dev, client_debug = False\<rparr>,
       files = Map.empty, trace = [New_LitNodeClient Datil_dev False, Client_connect 0]\<rparr>)"
  "getLitClient_js mock_env (finalConfig no_config) fresh
   = (Inr \<lparr>handle = 0, client_litNetwork = Datil_dev, client_debug = False\<rparr>,
      \<lparr>litNodeClient = Some \<lparr>handle = 0, client_litNetwork = Datil_dev, client_debug = False\<rparr>,
       files = Map.empty, trace = [New_LitNodeClient Datil_dev False, Client_connect 0]\<rparr>)"
  by (simp_all add: run_defs)

lemma sample_client_emitted:
  "emitted (getLitClient mock_env (finalConfig no_config)) fresh
   = [New_LitNodeClient Datil_dev False, Client_connect 0]"
  "emitted (getLitClient_js mock_env (finalConfig no_config)) fresh
   = [New_LitNodeClient Datil_dev False, Client_connect 0]"
  by (simp_all add: emitted_def sample_client) (simp_all add: fresh_def)

lemma sample_requested_policy:
  "ERC20TransferPolicy_encode mock_env
     \<lparr>ERC20TransferPolicyType.type = ''ERC20Transfer'', ERC20TransferPolicyType.version = ''1.0.0'',
      erc20Decimals = ''18'', ERC20TransferPolicyType.maxAmount = amount sample_transfer,
      ERC20TransferPolicyType.allowedTokens = [tokenAddress sample_transfer],
      allowedRecipients = [recipientAddress sample_transfer]\<rparr>
   = Inr (Tuple [Tuple [Uint 8 18, Uint 256 1500000000000000000, Array [Address 170], Array [Address 187]]])"
  using sample_transfer_encoded by (simp add: sample_policy_def sample_transfer_sel)

lemma sample_network: "erc20Transfer (IPFS_CIDS (or_network (litNetwork no_config) Datil_dev))
   = ''QmUPnnuz8E3wKYG7bCxqnjjhV9anE9uMxHXY4fTv7Z5Y6A''"
  by (simp add: no_config_def or_network_def)

theorem C9_transfer_policy_is_the_request_witness:
  "emitted (litActionProvider mock_env no_config (Lit_erc20_transfer sample_transfer)) fresh
   = [New_LitNodeClient Datil_dev False, Client_connect 0, Wallet_getAddress, Wallet_getNetwork,
      Client_getSessionSigs 0
        \<lparr>chain = ''ethereum'', expiration = ''2025-01-01T00:10:00.000Z'', resource = ''*'',
         ability = ''lit-action-execution'', auth_walletAddress = ''0x1234567890123456789012345678901234567890''\<rparr>,
      Client_executeJs 0
        \<lparr>sessionSigs = JObj [], code = None, ipfsId = Some ''QmUPnnuz8E3wKYG7bCxqnjjhV9anE9uMxHXY4fTv7Z5Y6A'',
         jsParams =
           VObj [(''params'',
                  VObj [(''pkpEthAddress'', VStr ''0x1234567890123456789012345678901234567890''),
                        (''tokenIn'', VStr ''0x00000000000000000000000000000000000000aa''),
                        (''recipientAddress'', VStr ''0x00000000000000000000000000000000000000bb''),
                        (''amountIn'', VStr ''1.5''),
                        (''chainId'', VStr ''8453''),
                        (''rpcUrl'', VStr ''https://mainnet.base.org''),
                        (''encodedPolicy'',
                           VAbi (Tuple [Tuple [Uint 8 18, Uint 256 1500000000000000000,
                                               Array [Address 170], Array [Address 187]]]))])]\<rparr>]
   \<and> emitted (litActionProvider_js mock_env no_config Erc20_transfer sample_transfer_input) fresh
   = [New_LitNodeClient Datil_dev False, Client_connect 0, Wallet_getAddress,
      Client_getSessionSigs 0
        \<lparr>chain = ''ethereum'', expiration = ''2025-01-01T00:10:00.000Z'', resource = ''*'',
         ability = ''lit-action-execution'', auth_walletAddress = ''0x1234567890123456789012345678901234567890''\<rparr>,
      Client_executeJs 0
        \<lparr>sessionSigs = JObj [], code = None, ipfsId = Some ''QmUPnnuz8E3wKYG7bCxqnjjhV9anE9uMxHXY4fTv7Z5Y6A'',
         jsParams =
           VObj [(''params'',
                  VObj [(''pkpEthAddress'', VStr ''0x1234567890123456789012345678901234567890''),
                        (''tokenIn'', VStr ''0x00000000000000000000000000000000000000aa''),
                        (''recipientAddress'', VStr ''0x00000000000000000000000000000000000000bb''),
                        (''amountIn'', VStr ''1.5''),
                        (''chainId'', VStr ''8453''),
                        (''rpcUrl'', VStr ''https://mainnet.base.org''),
                        (''encodedPolicy'',
                           VAbi (Tuple [Tuple [Uint 8 18, Uint 256 1500000000000000000,
                                               Array [Address 170], Array [Address 187]]]))])]\<rparr>]
   \<and> list_all (executes_with (carries_transfer_policy mock_env sample_transfer))
       (emitted (litActionProvider mock_env no_config (Lit_erc20_transfer sample_transfer)) fresh)
   \<and> list_ex executes
       (emitted (litActionProvider mock_env no_config (Lit_erc20_transfer sample_transfer)) fresh)
   \<and> list_all (executes_with (carries_transfer_policy mock_env sample_transfer))
       (emitted (litActionProvider_js mock_env no_config Erc20_transfer sample_transfer_input) fresh)
   \<and> list_ex executes
       (emitted (litActionProvider_js mock_env no_config Erc20_transfer sample_transfer_input) fresh)"
proof -
  note T = C9_transfer_policy_is_the_request
    [where env = mock_env and config = no_config and w = fresh and input = sample_transfer
       and raw = sample_transfer_input and parsed = sample_transfer
       and c = "\<lparr>handle = 0, client_litNetwork = Datil_dev, client_debug = False\<rparr>"
       and c' = "\<lparr>handle = 0, client_litNetwork = Datil_dev, client_debug = False\<rparr>"
       and wt = "\<lparr>litNodeClient = Some \<lparr>handle = 0, client_litNetwork = Datil_dev, client_debug = False\<rparr>,
                  files = Map.empty, trace = [New_LitNodeClient Datil_dev False, Client_connect 0]\<rparr>"
       and wj = "\<lparr>litNodeClient = Some \<lparr>handle = 0, client_litNetwork = Datil_dev, client_debug = False\<rparr>,
                  files = Map.empty, trace = [New_LitNodeClient Datil_dev False, Client_connect 0]\<rparr>"
       and a = "''0x1234567890123456789012345678901234567890''"
       and a' = "''0x1234567890123456789012345678901234567890''"
       and sigs = "JObj []" and sigs' = "JObj []"
       and enc = "Tuple [Tuple [Uint 8 18, Uint 256 1500000000000000000, Array [Address 170], Array [Address 187]]]"
       and enc' = "Tuple [Tuple [Uint 8 18, Uint 256 1500000000000000000, Array [Address 170], Array [Address 187]]]",
     unfolded sample_client sample_client_emitted sample_requested_policy sample_transfer_parsed
       sample_network mock_env_sel sample_transfer_sel sample_transfer_encoded [unfolded sample_policy_def]]
  from T have ts: "emitted (litActionProvider mock_env no_config (Lit_erc20_transfer sample_transfer)) fresh
   = [New_LitNodeClient Datil_dev False, Client_connect 0, Wallet_getAddress, Wallet_getNetwork,
      Client_getSessionSigs 0
        \<lparr>chain = ''ethereum'', expiration = ''2025-01-01T00:10:00.000Z'', resource = ''*'',
         ability = ''lit-action-execution'', auth_walletAddress = ''0x1234567890123456789012345678901234567890''\<rparr>,
      Client_executeJs 0
        \<lparr>sessionSigs = JObj [], code = None, ipfsId = Some ''QmUPnnuz8E3wKYG7bCxqnjjhV9anE9uMxHXY4fTv7Z5Y6A'',
         jsParams =
           VObj [(''params'',
                  VObj [(''pkpEthAddress'', VStr ''0x1234567890123456789012345678901234567890''),
                        (''tokenIn'', VStr ''0x00000000000000000000000000000000000000aa''),
                        (''recipientAddress'', VStr ''0x00000000000000000000000000000000000000bb''),
                        (''amountIn'', VStr ''1.5''),
                        (''chainId'', VStr ''8453''),
                        (''rpcUrl'', VStr ''https://mainnet.base.org''),
                        (''encodedPolicy'',
                           VAbi (Tuple [Tuple [Uint 8 18, Uint 256 1500000000000000000,
                                               Array [Address 170], Array [Address 187]]]))])]\<rparr>]"
    by simp
  from T have js: "emitted (litActionProvider_js mock_env no_config Erc20_transfer sample_transfer_input) fresh
   = [New_LitNodeClient Datil_dev False, Client_connect 0, Wallet_getAddress,
      Client_getSessionSigs 0
        \<lparr>chain = ''ethereum'', expiration = ''2025-01-01T00:10:00.000Z'', resource = ''*'',
         ability = ''lit-action-execution'', auth_walletAddress = ''0x1234567890123456789012345678901234567890''\<rparr>,
      Client_executeJs 0
        \<lparr>sessionSigs = JObj [], code = None, ipfsId = Some ''QmUPnnuz8E3wKYG7bCxqnjjhV9anE9uMxHXY4fTv7Z5Y6A'',
         jsParams =
           VObj [(''params'',
                  VObj [(''pkpEthAddress'', VStr ''0x1234567890123456789012345678901234567890''),
                        (''tokenIn'', VStr ''0x00000000000000000000000000000000000000aa''),
                        (''recipientAddress'', VStr ''0x00000000000000000000000000000000000000bb''),
                        (''amountIn'', VStr ''1.5''),
                        (''chainId'', VStr ''8453''),
                        (''rpcUrl'', VStr ''https://mainnet.base.org''),
                        (''encodedPolicy'',
                           VAbi (Tuple [Tuple [Uint 8 18, Uint 256 1500000000000000000,
                                               Array [Address 170], Array [Address 187]]]))])]\<rparr>]"
    by simp
  have safe: "list_all (executes_with (carries_transfer_policy mock_env sample_transfer))
       (emitted (litActionProvider mock_env no_config (Lit_erc20_transfer sample_transfer)) fresh)"
    by (rule T [THEN conjunct1])
  from T [THEN conjunct2, THEN conjunct2, THEN conjunct1]
  have safe_js: "list_all (executes_with (carries_transfer_policy mock_env sample_transfer))
       (emitted (litActionProvider_js mock_env no_config Erc20_transfer sample_transfer_input) fresh)"
    by (simp only: sum.case)
  have ex: "list_ex executes
       (emitted (litActionProvider mock_env no_config (Lit_erc20_transfer sample_transfer)) fresh)"
    "list_ex executes
       (emitted (litActionProvider_js mock_env no_config Erc20_transfer sample_transfer_input) fresh)"
    unfolding ts js by simp_all
  from ts js safe safe_js ex show ?thesis by (intro conjI)
qed























lemma z_string_empty:
  "z_string key (z_regex r msg) v = [] \<longleftrightarrow> (case v of Some (JStr s) \<Rightarrow> rx_test r s | _ \<Rightarrow> False)"
  by (auto simp: z_string_def z_regex_def split: option.splits json.splits)

lemma z_string_url_empty:
  "z_string key (z_url env) v = [] \<longleftrightarrow> (case v of Some (JStr s) \<Rightarrow> url_valid env s | _ \<Rightarrow> False)"
  by (auto simp: z_string_def z_url_def split: option.splits json.splits)

lemma z_strict_empty: "z_strict shape kvs = [] \<longleftrightarrow> set (map fst kvs) \<subseteq> set shape"
  by (auto simp: z_strict_def list_all_iff)

lemma the_string_JStr: "the_string (Some (JStr s)) = s"
  by (simp add: the_string_def)

text \<open>
  C6: \<open>LitErc20TransferSchema.parse\<close> accepts an input if and only if it is an object in
  which \<open>pkpEthAddress\<close>, \<open>tokenAddress\<close> and \<open>recipientAddress\<close> are strings matching
  \<open>^0x[a-fA-F0-9]{40}$\<close>, \<open>amount\<close> is a string matching \<open>^\d*\.?\d+$\<close>, \<open>chainId\<close> is a string
  matching \<open>^\d+$\<close>, \<open>rpcUrl\<close> is a string that is a valid URL, and there is no other key;
  on every other input it throws. What it returns has the six strings of the input.
\<close>

theorem C6_transfer_schema_accepts_iff:
  "(\<exists>parsed. LitErc20TransferSchema_parse env input = Inr parsed) = erc20_transfer_input_ok env input
   \<and> (\<forall>parsed. LitErc20TransferSchema_parse env input = Inr parsed \<longrightarrow>
         property input ''pkpEthAddress'' = Some (JStr (LitErc20Transfer.pkpEthAddress parsed))
         \<and> property input ''tokenAddress'' = Some (JStr (tokenAddress parsed))
         \<and> property input ''recipientAddress'' = Some (JStr (recipientAddress parsed))
         \<and> property input ''amount'' = Some (JStr (amount parsed))
         \<and> property input ''chainId'' = Some (JStr (LitErc20Transfer.chainId parsed))
         \<and> property input ''rpcUrl'' = Some (JStr (LitErc20Transfer.rpcUrl parsed)))"
proof (cases input)
  case (JObj kvs)
  show ?thesis
    unfolding JObj LitErc20TransferSchema_parse_def erc20_transfer_input_ok_def json.case
      finish_Inr append_is_Nil_conv address_check_def decimal_check_def chain_id_check_def
      z_string_empty z_string_url_empty z_strict_empty string_matching_def property_def
    by (auto simp: the_string_def split: option.splits json.splits simp del: rx_test.simps)
qed (simp_all add: LitErc20TransferSchema_parse_def erc20_transfer_input_ok_def not_an_object_def)


lemma sample_transfer_input_ok: "erc20_transfer_input_ok mock_env sample_transfer_input"
  by code_simp

lemma extra_key_not_ok:
  "\<not> erc20_transfer_input_ok mock_env (JObj [(''pkpEthAddress'', JStr sample_address), (''memo'', JStr ''x'')])"
  by code_simp

theorem C6_transfer_schema_accepts_iff_witness:
  "(\<exists>parsed. LitErc20TransferSchema_parse mock_env sample_transfer_input = Inr parsed)
   \<and> erc20_transfer_input_ok mock_env sample_transfer_input
   \<and> \<not> (\<exists>parsed. LitErc20TransferSchema_parse mock_env
            (JObj [(''pkpEthAddress'', JStr sample_address), (''memo'', JStr ''x'')]) = Inr parsed)
   \<and> \<not> erc20_transfer_input_ok mock_env (JObj [(''pkpEthAddress'', JStr sample_address), (''memo'', JStr ''x'')])"
  using C6_transfer_schema_accepts_iff [of mock_env sample_transfer_input]
    C6_transfer_schema_accepts_iff [of mock_env "JObj [(''pkpEthAddress'', JStr sample_address), (''memo'', JStr ''x'')]"]
    sample_transfer_input_ok extra_key_not_ok
  by blast

lemma sample_swap_parsed: "LitUniswapSwapSchema_parse mock_env sample_swap_input = Inr sample_swap"
  by code_simp

lemma sample_swap_rejected:
  "UniswapSwapPolicy_encode mock_env (uniswap_policy sample_swap)
     = Inl (Error ''invalid BigNumberish string: Cannot convert to a BigInt'')"
  by code_simp


text \<open>
  C2 does not hold on the code: the input with \<open>amountIn = "1.5"\<close> is accepted by
  \<open>LitUniswapSwapSchema\<close>, and \<open>UniswapSwapPolicy.encode\<close> throws on the policy the handler
  builds from it, because the amount is handed to the \<open>uint256\<close> coder as it is (the
  transfer policy converts it with \<open>parseUnits\<close> first). The handler catches the error and
  returns \<open>success\<close> false without calling \<open>executeJs\<close>.
\<close>

theorem C2_swap_encoding_throws_on_decimal:
  "LitUniswapSwapSchema_parse mock_env sample_swap_input = Inr sample_swap
   \<and> amountIn sample_swap = ''1.5''
   \<and> UniswapSwapPolicy_encode mock_env (uniswap_policy sample_swap)
       = Inl (Error ''invalid BigNumberish string: Cannot convert to a BigInt'')
   \<and> fst (litActionProvider mock_env no_config (Lit_uniswap_swap sample_swap) fresh)
       = Inr (JObj [(''success'', JBool False),
                    (''error'', JStr ''Uniswap swap failed: invalid BigNumberish string: Cannot convert to a BigInt'')])
   \<and> emitted (litActionProvider mock_env no_config (Lit_uniswap_swap sample_swap)) fresh
       = [New_LitNodeClient Datil_dev False, Client_connect 0, Wallet_getAddress, Wallet_getNetwork,
          Client_getSessionSigs 0
            \<lparr>chain = ''ethereum'', expiration = ''2025-01-01T00:10:00.000Z'', resource = ''*'',
             ability = ''lit-action-execution'',
             auth_walletAddress = ''0x1234567890123456789012345678901234567890''\<rparr>]
   \<and> fst (litActionProvider_js mock_env no_config Uniswap_swap sample_swap_input fresh)
       = Inr (JObj [(''success'', JBool False),
                    (''error'', JStr ''Uniswap swap failed: invalid BigNumberish string: Cannot convert to a BigInt'')])"
proof (intro conjI)
  show "LitUniswapSwapSchema_parse mock_env sample_swap_input = Inr sample_swap"
    by (rule sample_swap_parsed)
  show "amountIn sample_swap = ''1.5''" by (simp add: sample_swap_def)
  show "UniswapSwapPolicy_encode mock_env (uniswap_policy sample_swap)
       = Inl (Error ''invalid BigNumberish string: Cannot convert to a BigInt'')"
    by (rule sample_swap_rejected)
  show "fst (litActionProvider mock_env no_config (Lit_uniswap_swap sample_swap) fresh)
       = Inr (JObj [(''success'', JBool False),
                    (''error'', JStr ''Uniswap swap failed: invalid BigNumberish string: Cannot convert to a BigInt'')])"
    by (simp add: uniswap_swap_handler_def uniswap_swap_try_def run_core sample_swap_rejected
          failed_def message_or_unknown_def)
  show "emitted (litActionProvider mock_env no_config (Lit_uniswap_swap sample_swap)) fresh
       = [New_LitNodeClient Datil_dev False, Client_connect 0, Wallet_getAddress, Wallet_getNetwork,
          Client_getSessionSigs 0
            \<lparr>chain = ''ethereum'', expiration = ''2025-01-01T00:10:00.000Z'', resource = ''*'',
             ability = ''lit-action-execution'',
             auth_walletAddress = ''0x1234567890123456789012345678901234567890''\<rparr>]"
    by (simp add: emitted_def uniswap_swap_handler_def uniswap_swap_try_def run_core sample_swap_rejected)
  show "fst (litActionProvider_js mock_env no_config Uniswap_swap sample_swap_input fresh)
       = Inr (JObj [(''success'', JBool False),
                    (''error'', JStr ''Uniswap swap failed: invalid BigNumberish string: Cannot convert to a BigInt'')])"
    by (simp add: uniswap_swap_handler_js_def uniswap_swap_try_js_def run_core sample_swap_parsed
          sample_swap_rejected failed_def message_or_unknown_def)
qed

text \<open>The same for every amount with a decimal point, in every environment.\<close>

lemma mem_dropWhile: "x \<in> set s \<Longrightarrow> \<not> P x \<Longrightarrow> x \<in> set (dropWhile P s)"
  by (induction s) auto

lemma point_not_space: "\<not> is_space CHR ''.''"
  by (simp add: is_space_def)

lemma point_in_trim: "CHR ''.'' \<in> set s \<Longrightarrow> CHR ''.'' \<in> set (trim s)"
  by (simp add: trim_def mem_dropWhile point_not_space)

lemma point_no_digit: "\<not> is_digit_in b CHR ''.''"
  by (simp add: is_digit_in_def digit_value_def in_range_def)

lemma parse_in_point: "CHR ''.'' \<in> set r \<Longrightarrow> parse_in b r = None"
  using point_no_digit [of b] by (auto simp: parse_in_def list_all_iff)

lemma signed_decimal_point: "CHR ''.'' \<in> set t \<Longrightarrow> signed_decimal t = None"
  by (cases t) (auto simp: signed_decimal_def parse_in_point)

lemma js_BigInt_point:
  assumes "CHR ''.'' \<in> set s"
  shows "js_BigInt s = None"
proof -
  from point_in_trim [OF assms] have t: "CHR ''.'' \<in> set (trim s)" .
  then have sd: "signed_decimal (trim s) = None" by (rule signed_decimal_point)
  show ?thesis
  proof (cases "trim s")
    case Nil
    with t show ?thesis by simp
  next
    case outer: (Cons c0 r0)
    show ?thesis
    proof (cases r0)
      case Nil
      with outer sd show ?thesis by (simp add: js_BigInt_def Let_def)
    next
      case (Cons c1 r)
      let ?prefixed = "c0 = CHR ''0'' \<and> (c1 = CHR ''x'' \<or> c1 = CHR ''X'' \<or> c1 = CHR ''o'' \<or> c1 = CHR ''O''
                         \<or> c1 = CHR ''b'' \<or> c1 = CHR ''B'')"
      show ?thesis
      proof (cases ?prefixed)
        case True
        with t outer Cons have "CHR ''.'' \<in> set r" by auto
        then have "parse_in b r = None" for b by (rule parse_in_point)
        with outer Cons sd show ?thesis by (simp add: js_BigInt_def Let_def)
      next
        case False
        with outer Cons sd show ?thesis by (auto simp: js_BigInt_def Let_def)
      qed
    qed
  qed
qed

lemma getBigInt_point:
  assumes "CHR ''.'' \<in> set s"
  shows "getBigInt s = Inl (Error ''invalid BigNumberish string: Cannot convert to a BigInt'')"
proof (cases s)
  case Nil
  with assms show ?thesis by simp
next
  case (Cons c r)
  show ?thesis
  proof (cases "c = CHR ''-''")
    case True
    with assms Cons have "CHR ''.'' \<in> set r" by auto
    then have "js_BigInt r = None" by (rule js_BigInt_point)
    with js_BigInt_point [OF assms] Cons show ?thesis by (simp add: getBigInt_def)
  next
    case False
    with js_BigInt_point [OF assms] Cons show ?thesis by (simp add: getBigInt_def)
  qed
qed

lemma uniswap_encode_rejects_point:
  assumes "CHR ''.'' \<in> set (amountIn input)"
  shows "\<exists>e. UniswapSwapPolicy_encode env (uniswap_policy input) = Inl e"
proof (cases "uniswapSwapPolicySchema_parse (uniswap_policy input)")
  case (Inl e)
  then show ?thesis by (simp add: UniswapSwapPolicy_encode_def and_then_def)
next
  case (Inr u)
  with assms show ?thesis
    by (simp add: UniswapSwapPolicy_encode_def and_then_def abi_uint_def getBigInt_point uniswap_policy_def)
qed

end
